(* ===== verification/Prelude.thy ===== *)
theory Prelude
  imports
    Complex_Main
    "HOL-Library.List_Lexorder"
    "HOL-Library.Char_ord"
    "HOL-Library.Sublist"
begin

text \<open>
  Shared vocabulary of the development: the exception monad in which every Python
  statement of the model runs, the built-in string operations the evaluators call
  (\<open>str.lower\<close>, \<open>str.strip\<close>, the \<open>in\<close> operator on strings, iteration over the
  lines of a text file), and Python's \<open>max\<close> over a non-empty list of strings.

  Python strings are modelled as \<^typ>\<open>string\<close>, one \<^typ>\<open>char\<close> per code point.
  Isabelle characters are the code points 0 to 255 (Latin-1); the case and
  white-space tables below are CPython's for exactly these code points, so on
  such strings \<open>len\<close>, \<open>lower\<close>, \<open>strip\<close>, comparison and substring search are
  Python's. Code points from 256 up are outside the model.
\<close>

named_theorems py_defs
  "definitions of the Python runtime model, unfolded to evaluate a concrete input"

section \<open>Exceptions as values\<close>

text \<open>
  A Python computation that may raise is a value of \<open>'e + 'a\<close>: \<^term>\<open>Inl e\<close> is the
  raised exception, \<^term>\<open>Inr a\<close> the returned value. \<open>py_bind\<close> sequences two
  statements: an exception skips the rest, as it does in Python.
\<close>

definition py_bind :: "'e + 'a \<Rightarrow> ('a \<Rightarrow> 'e + 'b) \<Rightarrow> 'e + 'b" where
  "py_bind m f = (case m of Inl e \<Rightarrow> Inl e | Inr a \<Rightarrow> f a)"

text \<open>
  A loop over a list whose body may raise: the first exception ends the loop.
  \<open>py_fold f xs acc\<close> is \<open>for x in xs: acc = f(x, acc)\<close>.
\<close>

fun py_fold :: "('a \<Rightarrow> 'b \<Rightarrow> 'e + 'b) \<Rightarrow> 'a list \<Rightarrow> 'b \<Rightarrow> 'e + 'b" where
  "py_fold f [] acc = Inr acc"
| "py_fold f (x # xs) acc = py_bind (f x acc) (py_fold f xs)"

section \<open>Characters and strings\<close>

text \<open>
  \<open>str.lower\<close> on a code point below 256 changes exactly \<open>A\<close>--\<open>Z\<close> and the
  Latin-1 capitals \<open>U+00C0\<close>--\<open>U+00DE\<close> other than \<open>U+00D7\<close> (the multiplication
  sign), each by adding 32. \<open>str.isspace\<close> holds for \<open>U+0009\<close>--\<open>U+000D\<close>,
  \<open>U+001C\<close>--\<open>U+0020\<close>, \<open>U+0085\<close> and \<open>U+00A0\<close>.
\<close>

definition py_lower_char :: "char \<Rightarrow> char" where
  "py_lower_char c =
     (let n = (of_char c :: nat)
      in if (65 \<le> n \<and> n \<le> 90) \<or> (192 \<le> n \<and> n \<le> 222 \<and> n \<noteq> 215)
         then char_of (n + 32) else c)"

definition py_lower :: "string \<Rightarrow> string" where
  "py_lower s = map py_lower_char s"

definition py_isspace :: "char \<Rightarrow> bool" where
  "py_isspace c =
     (let n = (of_char c :: nat)
      in (9 \<le> n \<and> n \<le> 13) \<or> (28 \<le> n \<and> n \<le> 32) \<or> n = 133 \<or> n = 160)"

text \<open>\<open>s.strip()\<close>: white space removed at both ends.\<close>

definition py_strip :: "string \<Rightarrow> string" where
  "py_strip s = rev (dropWhile py_isspace (rev (dropWhile py_isspace s)))"

text \<open>\<open>sep.join(xs)\<close>.\<close>

definition py_join :: "string \<Rightarrow> string list \<Rightarrow> string" where
  "py_join sep xs = (case xs of [] \<Rightarrow> [] | x # ys \<Rightarrow> x @ concat (map (\<lambda>y. sep @ y) ys))"

text \<open>\<open>needle in hay\<close> for two strings: \<open>needle\<close> occurs contiguously in \<open>hay\<close>.\<close>

definition py_str_in :: "string \<Rightarrow> string \<Rightarrow> bool" where
  "py_str_in needle hay = sublist needle hay"

declare py_lower_char_def [py_defs] py_lower_def [py_defs] py_isspace_def [py_defs]
  py_strip_def [py_defs] py_str_in_def [py_defs]

section \<open>Lines of a text file\<close>

text \<open>
  A file opened in text mode translates \<open>\r\n\<close> and a lone \<open>\r\<close> into \<open>\n\<close>
  (universal newlines); \<open>for line in f\<close> then yields the pieces of the text, each
  ending with its \<open>\n\<close> except possibly the last; an empty file yields no line and a
  final \<open>\n\<close> does not start an empty one.
\<close>

function py_univ_newlines :: "string \<Rightarrow> string" where
  "py_univ_newlines [] = []"
| "py_univ_newlines (c # s) =
     (if c = CHR 0x0D
      then CHR 0x0A # py_univ_newlines (if s \<noteq> [] \<and> hd s = CHR 0x0A then tl s else s)
      else c # py_univ_newlines s)"
  by pat_completeness auto

termination
  by (relation "measure length") auto

function py_text_lines :: "string \<Rightarrow> string list" where
  "py_text_lines s =
     (if s = [] then []
      else
        let l = takeWhile (\<lambda>c. c \<noteq> CHR 0x0A) s;
            r = dropWhile (\<lambda>c. c \<noteq> CHR 0x0A) s
        in if r = [] then [l] else (l @ [CHR 0x0A]) # py_text_lines (tl r))"
  by pat_completeness auto

termination
proof (relation "measure length")
  fix s l r
  assume "s \<noteq> []" and "r = dropWhile (\<lambda>c. c \<noteq> CHR 0x0A) s" and "r \<noteq> []"
  then have "length r \<le> length s" by (simp add: length_dropWhile_le)
  with \<open>r \<noteq> []\<close> show "(tl r, s) \<in> measure length" by (cases r) auto
qed simp

declare py_text_lines.simps [simp del]

text \<open>Python's \<open>for line in open(p)\<close> over the file's contents.\<close>

definition py_file_lines :: "string \<Rightarrow> string list" where
  "py_file_lines content = py_text_lines (py_univ_newlines content)"

declare py_file_lines_def [py_defs]

section \<open>Python's max over a non-empty list\<close>

text \<open>
  \<open>max(xs)\<close> walks the list and replaces the current maximum by an item that is
  strictly greater; on a linear order this is the greatest element.
\<close>

fun py_max_from :: "'a::linorder \<Rightarrow> 'a list \<Rightarrow> 'a" where
  "py_max_from m [] = m"
| "py_max_from m (y # ys) = py_max_from (if m < y then y else m) ys"

section \<open>Lemmas on exceptions and loops\<close>

lemma py_bind_Inl [simp]: "py_bind (Inl e) f = Inl e"
  by (simp add: py_bind_def)

lemma py_bind_Inr [simp]: "py_bind (Inr a) f = f a"
  by (simp add: py_bind_def)

lemma py_bind_eq_Inr:
  "py_bind m f = Inr b \<longleftrightarrow> (\<exists>a. m = Inr a \<and> f a = Inr b)"
  by (cases m) simp_all

lemma py_bind_eq_Inl:
  "py_bind m f = Inl e \<longleftrightarrow> m = Inl e \<or> (\<exists>a. m = Inr a \<and> f a = Inl e)"
  by (cases m) simp_all

lemma py_bind_not_Inl:
  "m \<noteq> Inl e \<Longrightarrow> (\<And>a. f a \<noteq> Inl e) \<Longrightarrow> py_bind m f \<noteq> Inl e"
  by (cases m) simp_all

lemma py_fold_total:
  assumes "\<And>x acc. x \<in> set xs \<Longrightarrow> \<exists>acc'. f x acc = Inr acc'"
  shows "\<exists>r. py_fold f xs acc = Inr r"
  using assms
proof (induction xs arbitrary: acc)
  case Nil
  then show ?case by simp
next
  case (Cons x xs)
  from Cons.prems [of x acc] obtain acc' where "f x acc = Inr acc'" by auto
  moreover have "\<exists>r. py_fold f xs acc' = Inr r"
    using Cons.prems by (intro Cons.IH) auto
  ultimately show ?case by simp
qed

lemma py_fold_append:
  "py_fold f (xs @ ys) acc = py_bind (py_fold f xs acc) (\<lambda>acc'. py_fold f ys acc')"
  by (induction xs arbitrary: acc) (simp_all add: py_bind_def split: sum.splits)

lemma py_fold_cong:
  "(\<And>x acc. x \<in> set xs \<Longrightarrow> f x acc = g x acc) \<Longrightarrow> py_fold f xs = py_fold g xs"
proof (induction xs)
  case Nil
  show ?case by (rule ext) simp
next
  case (Cons x xs)
  then have "py_fold f xs = py_fold g xs" by simp
  with Cons.prems show ?case by (intro ext) simp
qed

lemma py_fold_map: "py_fold f (map h xs) = py_fold (\<lambda>x. f (h x)) xs"
proof (induction xs)
  case Nil
  show ?case by (rule ext) simp
next
  case (Cons x xs)
  then show ?case by (intro ext) simp
qed

lemma py_fold_count:
  "py_fold (\<lambda>x n. Inr (if P x then Suc n else n)) xs acc = Inr (acc + length (filter P xs))"
  by (induction xs arbitrary: acc) simp_all

lemma py_fold_sum:
  "py_fold (\<lambda>x n. Inr (n + g x)) xs acc = Inr (acc + sum_list (map g xs))"
  by (induction xs arbitrary: acc) (simp_all add: add.assoc)

text \<open>A loop whose body adds at most one to a counter adds at most the length.\<close>

lemma py_fold_le_length:
  assumes "\<And>x n m. f x n = Inr m \<Longrightarrow> m \<le> Suc n"
    and "py_fold f xs acc = Inr r"
  shows "r \<le> acc + length xs"
  using assms(2)
proof (induction xs arbitrary: acc)
  case Nil
  then show ?case by simp
next
  case (Cons x xs)
  from Cons.prems obtain m where m: "f x acc = Inr m" and rest: "py_fold f xs m = Inr r"
    by (auto simp add: py_bind_eq_Inr)
  from rest have "r \<le> m + length xs" by (rule Cons.IH)
  moreover from m have "m \<le> Suc acc" by (rule assms(1))
  ultimately show ?case by simp
qed

lemma py_fold_pure:
  "py_fold (\<lambda>x acc. Inr (g x acc)) xs acc = Inr (fold g xs acc)"
  by (induction xs arbitrary: acc) simp_all

text \<open>A loop none of whose steps raises \<open>e\<close> does not raise \<open>e\<close>.\<close>

lemma py_fold_not_Inl:
  "(\<And>x acc. f x acc \<noteq> Inl e) \<Longrightarrow> py_fold f xs acc \<noteq> Inl e"
  by (induction xs arbitrary: acc) (simp_all add: py_bind_not_Inl)

text \<open>
  A list that is some elements satisfying \<open>P\<close> followed by one satisfying \<open>Q\<close>, and
  then anything: on a non-empty list, either the head satisfies \<open>Q\<close>, or it
  satisfies \<open>P\<close> and the tail is such a list. This is the shape of a search loop
  that returns the first hit.
\<close>

lemma Cons_first_hit:
  "(\<exists>pre m post. x # xs = pre @ m # post \<and> list_all P pre \<and> Q m) \<longleftrightarrow>
     Q x \<or> (P x \<and> (\<exists>pre m post. xs = pre @ m # post \<and> list_all P pre \<and> Q m))"
proof
  assume "\<exists>pre m post. x # xs = pre @ m # post \<and> list_all P pre \<and> Q m"
  then obtain pre m post where "x # xs = pre @ m # post" "list_all P pre" "Q m" by blast
  then show "Q x \<or> (P x \<and> (\<exists>pre m post. xs = pre @ m # post \<and> list_all P pre \<and> Q m))"
    by (cases pre) auto
next
  assume "Q x \<or> (P x \<and> (\<exists>pre m post. xs = pre @ m # post \<and> list_all P pre \<and> Q m))"
  then show "\<exists>pre m post. x # xs = pre @ m # post \<and> list_all P pre \<and> Q m"
  proof
    assume "Q x"
    then show ?thesis by (intro exI [of _ "[]"] exI [of _ x] exI [of _ xs]) simp
  next
    assume "P x \<and> (\<exists>pre m post. xs = pre @ m # post \<and> list_all P pre \<and> Q m)"
    then obtain pre m post where "P x" "xs = pre @ m # post" "list_all P pre" "Q m" by blast
    then show ?thesis by (intro exI [of _ "x # pre"] exI [of _ m] exI [of _ post]) simp
  qed
qed

section \<open>Lemmas on strings\<close>

lemma length_py_lower [simp]: "length (py_lower s) = length s"
  by (simp add: py_lower_def)

lemma py_lower_Nil [simp]: "py_lower [] = []"
  by (simp add: py_lower_def)

lemma py_lower_Cons [simp]: "py_lower (c # s) = py_lower_char c # py_lower s"
  by (simp add: py_lower_def)

lemma py_lower_append [simp]: "py_lower (s @ t) = py_lower s @ py_lower t"
  by (simp add: py_lower_def)

lemma py_lower_char_idem [simp]: "py_lower_char (py_lower_char c) = py_lower_char c"
proof -
  have "(of_char c :: nat) < 256" by (rule nat_of_char_less_256)
  then show ?thesis
    by (auto simp add: py_lower_char_def Let_def)
qed

lemma py_lower_idem [simp]: "py_lower (py_lower s) = py_lower s"
  by (simp add: py_lower_def comp_def)

lemma py_str_in_Nil [simp]: "py_str_in [] hay"
  by (simp add: py_str_in_def)

lemma py_str_in_lower_length:
  "py_str_in needle hay \<Longrightarrow> length needle \<le> length hay"
  by (auto simp add: py_str_in_def sublist_def)

section \<open>Lemmas on the lines of a text file\<close>

lemma py_univ_newlines_id: "CHR 0x0D \<notin> set s \<Longrightarrow> py_univ_newlines s = s"
  by (induction s rule: py_univ_newlines.induct) auto

text \<open>A text of lines each ended by \<open>\n\<close> and holding no other \<open>\n\<close> iterates to those lines.\<close>

lemma py_text_lines_terminated:
  "\<forall>l\<in>set ls. CHR 0x0A \<notin> set l \<Longrightarrow>
     py_text_lines (concat (map (\<lambda>l. l @ [CHR 0x0A]) ls)) = map (\<lambda>l. l @ [CHR 0x0A]) ls"
proof (induction ls)
  case Nil
  then show ?case by (simp add: py_text_lines.simps)
next
  case (Cons l ls)
  then have l: "\<forall>c\<in>set l. c \<noteq> CHR 0x0A" by auto
  let ?rest = "concat (map (\<lambda>l. l @ [CHR 0x0A]) ls)"
  have "takeWhile (\<lambda>c. c \<noteq> CHR 0x0A) (l @ CHR 0x0A # ?rest) = l"
    using l by (simp add: takeWhile_append2)
  moreover have "dropWhile (\<lambda>c. c \<noteq> CHR 0x0A) (l @ CHR 0x0A # ?rest) = CHR 0x0A # ?rest"
    using l by (simp add: dropWhile_append2)
  ultimately show ?case using Cons by (subst py_text_lines.simps) (simp add: Let_def)
qed

text \<open>The lines of a file whose lines are ended by \<open>\n\<close> and hold no \<open>\r\<close> or \<open>\n\<close>.\<close>

lemma py_file_lines_terminated:
  "\<forall>l\<in>set ls. CHR 0x0A \<notin> set l \<and> CHR 0x0D \<notin> set l \<Longrightarrow>
     py_file_lines (concat (map (\<lambda>l. l @ [CHR 0x0A]) ls)) = map (\<lambda>l. l @ [CHR 0x0A]) ls"
  unfolding py_file_lines_def
  by (subst py_univ_newlines_id) (auto intro: py_text_lines_terminated)

text \<open>\<open>strip()\<close> of a line with its \<open>\n\<close>, when the line neither starts nor ends with white space.\<close>

lemma py_strip_line:
  assumes "s \<noteq> []" and "\<not> py_isspace (hd s)" and "\<not> py_isspace (last s)"
  shows "py_strip (s @ [CHR 0x0A]) = s"
proof -
  have nl: "py_isspace (CHR 0x0A)" by (simp add: py_isspace_def)
  from assms(1,2) have "dropWhile py_isspace (s @ [CHR 0x0A]) = s @ [CHR 0x0A]"
    by (cases s) simp_all
  moreover from assms(1,3) have "dropWhile py_isspace (rev s) = rev s"
    by (cases "rev s") (simp_all add: last_rev [symmetric])
  ultimately show ?thesis using nl by (simp add: py_strip_def)
qed

section \<open>Lemmas on \<open>max\<close>\<close>

lemma py_max_from_Max: "py_max_from m ys = Max (insert m (set ys))"
proof (induction ys arbitrary: m)
  case Nil
  then show ?case by simp
next
  case (Cons y ys)
  have "Max (insert (if m < y then y else m) (set ys)) = Max (insert m (insert y (set ys)))"
    by (cases "ys = []") (auto simp add: max_def Max_insert)
  with Cons.IH show ?case by simp
qed

lemma py_max_from_in: "py_max_from m ys \<in> insert m (set ys)"
  unfolding py_max_from_Max by (rule Max_in) simp_all

lemma py_max_from_ge: "y \<in> insert m (set ys) \<Longrightarrow> y \<le> py_max_from m ys"
  by (simp add: py_max_from_Max)

lemma py_max_from_list: "xs \<noteq> [] \<Longrightarrow> py_max_from (hd xs) (tl xs) = Max (set xs)"
  by (cases xs) (simp_all add: py_max_from_Max)

text \<open>Prefixing a fixed string keeps the order of strings, so \<open>max\<close> commutes with it.\<close>

lemma append_less_append_iff [simp]: "(p @ xs < p @ ys) = ((xs :: 'a :: linorder list) < ys)"
  by (induction p) simp_all

lemma Max_append_left:
  assumes "finite A" and "A \<noteq> {}"
  shows "Max ((\<lambda>x. p @ x) ` A) = p @ Max (A :: 'a :: linorder list set)"
proof -
  have "mono (\<lambda>x :: 'a list. p @ x)" by (auto simp add: mono_def list_le_def)
  from mono_Max_commute [OF this assms] show ?thesis by simp
qed

section \<open>Arithmetic shared by the metrics\<close>

lemma frac_nat_bounds:
  assumes "k \<le> n"
  shows "0 \<le> (of_nat k / of_nat n :: rat) \<and> (of_nat k / of_nat n :: rat) \<le> 1"
proof (cases "n = 0")
  case True
  then show ?thesis by simp
next
  case False
  then have "(0::rat) < of_nat n" by simp
  moreover from assms have "(of_nat k :: rat) \<le> of_nat n" by simp
  ultimately show ?thesis by (simp add: divide_le_eq_1)
qed

text \<open>The mean of values between 0 and 1 lies between 0 and 1.\<close>

lemma mean_in_unit:
  assumes "xs \<noteq> []" and "\<And>x. x \<in> set xs \<Longrightarrow> 0 \<le> f x \<and> f x \<le> (1 :: rat)"
  shows "0 \<le> sum_list (map f xs) / of_nat (length xs) \<and> sum_list (map f xs) / of_nat (length xs) \<le> 1"
proof -
  have "0 \<le> sum_list (map f xs)" using assms(2) by (intro sum_list_nonneg) auto
  moreover have "sum_list (map f xs) \<le> sum_list (map (\<lambda>x. 1) xs)"
    using assms(2) by (intro sum_list_mono) auto
  moreover have "(0 :: rat) < of_nat (length xs)" using assms(1) by simp
  ultimately show ?thesis by (simp add: sum_list_triv divide_le_eq_1)
qed

end
