(* ===== verification/PyJson.thy ===== *)
theory PyJson
  imports Prelude
begin

text \<open>
  The values the evaluators handle are the results of \<open>json.load\<close> and
  \<open>json.loads\<close>: \<open>None\<close>, booleans, integers, floats, strings, lists and dicts.
  This theory gives them a datatype, gives Python's exceptions a datatype with the
  text \<open>str(e)\<close> of each, and models the dynamically typed operations the source
  applies to them (\<open>d.get(k, default)\<close>, \<open>len(x)\<close>, iteration, \<open>x.lower()\<close>,
  \<open>x[:n]\<close>, truthiness), each raising what CPython raises on the other types.
  The JSON decoder itself is a library the source only calls; the loaders take it as
  a parameter of type \<open>json_decoder\<close>.
\<close>

section \<open>JSON values\<close>

text \<open>
  A float is kept as its Python \<open>repr\<close> (\<open>''1.5''\<close>, \<open>''-0.0''\<close>, \<open>''nan''\<close>): the
  evaluators only test its truthiness and its type. A dict is the list of key/value
  pairs of the document; as in \<open>json.loads\<close>, a repeated key keeps its first position
  and its last value.
\<close>

datatype json =
    JNull
  | JBool bool
  | JInt int
  | JFloat string
  | JStr string
  | JArr "json list"
  | JObj "(string \<times> json) list"

text \<open>
  \<open>json.loads(s)\<close>: the decoded value, or the message of the \<open>JSONDecodeError\<close>
  it raises.
\<close>

type_synonym json_decoder = "string \<Rightarrow> string + json"

section \<open>Exceptions\<close>

text \<open>
  The exceptions the modelled code can raise. Each constructor keeps what
  \<open>str(e)\<close> prints: the message of an exception raised by the source itself, the
  path of an \<open>open\<close> that fails, the type name and attribute of an
  \<open>AttributeError\<close>.
\<close>

datatype py_exc =
    FileNotFoundError string
  | IsADirectoryError string
  | NotADirectoryError string
  | ValueError string
  | JSONDecodeError string
  | AttributeError string string
  | TypeError string
  | KeyError string
  | ZeroDivisionError

fun py_type_name :: "json \<Rightarrow> string" where
  "py_type_name JNull = ''NoneType''"
| "py_type_name (JBool b) = ''bool''"
| "py_type_name (JInt i) = ''int''"
| "py_type_name (JFloat r) = ''float''"
| "py_type_name (JStr s) = ''str''"
| "py_type_name (JArr xs) = ''list''"
| "py_type_name (JObj kvs) = ''dict''"

text \<open>
  \<open>repr\<close> of a string: single quotes unless the text holds a single quote and no
  double quote; backslash, the chosen quote, tab, newline and carriage return escaped;
  the other code points that are not printable (below 32, 127 to 160, 173) as
  \<open>\xhh\<close>.
\<close>

definition hex_digit :: "nat \<Rightarrow> char" where
  "hex_digit n = (if n < 10 then char_of (48 + n) else char_of (87 + n))"

definition py_printable :: "char \<Rightarrow> bool" where
  "py_printable c =
     (let n = (of_char c :: nat) in (32 \<le> n \<and> n \<le> 126) \<or> (161 \<le> n \<and> n \<noteq> 173))"

definition py_repr_char :: "char \<Rightarrow> char \<Rightarrow> string" where
  "py_repr_char q c =
     (if c = q \<or> c = CHR 0x5C then [CHR 0x5C, c]
      else if c = CHR 0x09 then [CHR 0x5C, CHR ''t'']
      else if c = CHR 0x0A then [CHR 0x5C, CHR ''n'']
      else if c = CHR 0x0D then [CHR 0x5C, CHR ''r'']
      else if py_printable c then [c]
      else [CHR 0x5C, CHR ''x'', hex_digit (of_char c div 16), hex_digit (of_char c mod 16)])"

definition py_repr_str :: "string \<Rightarrow> string" where
  "py_repr_str s =
     (let q = (if CHR 0x27 \<in> set s \<and> CHR 0x22 \<notin> set s then CHR 0x22 else CHR 0x27)
      in q # concat (map (py_repr_char q) s) @ [q])"

fun py_exc_str :: "py_exc \<Rightarrow> string" where
  "py_exc_str (FileNotFoundError m) = m"
| "py_exc_str (IsADirectoryError p) = ''[Errno 21] Is a directory: '' @ py_repr_str p"
| "py_exc_str (NotADirectoryError p) = ''[Errno 20] Not a directory: '' @ py_repr_str p"
| "py_exc_str (ValueError m) = m"
| "py_exc_str (JSONDecodeError m) = m"
| "py_exc_str (AttributeError t a) =
     py_repr_str t @ '' object has no attribute '' @ py_repr_str a"
| "py_exc_str (TypeError m) = m"
| "py_exc_str (KeyError k) = py_repr_str k"
| "py_exc_str ZeroDivisionError = ''division by zero''"

declare hex_digit_def [py_defs] py_printable_def [py_defs] py_repr_char_def [py_defs]
  py_repr_str_def [py_defs]

section \<open>Numbers in reports\<close>

text \<open>
  The metrics are Python \<open>int\<close>s or \<open>float\<close>s. \<open>a / b\<close> on two \<open>int\<close>s is true
  division: it raises \<open>ZeroDivisionError\<close> when \<open>b\<close> is 0 and otherwise gives the
  \<open>float\<close> nearest to the exact quotient. A \<^term>\<open>PyFloat q\<close> holds that exact
  quotient \<open>q\<close>; rounding to the nearest double is monotone and keeps 0, 1 and the
  quarters, so every bound proved of \<open>q\<close> below holds of the printed float.
\<close>

datatype py_num = PyInt int | PyFloat rat

fun py_num_val :: "py_num \<Rightarrow> rat" where
  "py_num_val (PyInt i) = of_int i"
| "py_num_val (PyFloat q) = q"

definition py_truediv :: "nat \<Rightarrow> nat \<Rightarrow> py_exc + py_num" where
  "py_truediv a b =
     (if b = 0 then Inl ZeroDivisionError else Inr (PyFloat (of_nat a / of_nat b)))"

section \<open>Dynamically typed operations\<close>

text \<open>Truthiness, as \<open>if x\<close> and \<open>bool(x)\<close> test it.\<close>

fun py_truthy :: "json \<Rightarrow> bool" where
  "py_truthy JNull = False"
| "py_truthy (JBool b) = b"
| "py_truthy (JInt i) = (i \<noteq> 0)"
| "py_truthy (JFloat r) = (r \<noteq> ''0.0'' \<and> r \<noteq> ''-0.0'')"
| "py_truthy (JStr s) = (s \<noteq> [])"
| "py_truthy (JArr xs) = (xs \<noteq> [])"
| "py_truthy (JObj kvs) = (kvs \<noteq> [])"

text \<open>The keys of a decoded dict in insertion order, and the value a key maps to.\<close>

definition dict_keys :: "(string \<times> json) list \<Rightarrow> string list" where
  "dict_keys kvs = rev (remdups (rev (map fst kvs)))"

definition dict_lookup :: "(string \<times> json) list \<Rightarrow> string \<Rightarrow> json option" where
  "dict_lookup kvs k = map_of (rev kvs) k"

definition dict_get :: "(string \<times> json) list \<Rightarrow> string \<Rightarrow> json \<Rightarrow> json" where
  "dict_get kvs k d = (case dict_lookup kvs k of None \<Rightarrow> d | Some v \<Rightarrow> v)"

declare dict_keys_def [py_defs] dict_lookup_def [py_defs] dict_get_def [py_defs]

text \<open>\<open>x.get(k, default)\<close>; \<open>x.get(k)\<close> is the default \<^term>\<open>JNull\<close>.\<close>

fun py_get :: "json \<Rightarrow> string \<Rightarrow> json \<Rightarrow> py_exc + json" where
  "py_get (JObj kvs) k d = Inr (dict_get kvs k d)"
| "py_get x k d = Inl (AttributeError (py_type_name x) ''get'')"

text \<open>\<open>len(x)\<close>.\<close>

fun py_len :: "json \<Rightarrow> py_exc + nat" where
  "py_len (JStr s) = Inr (length s)"
| "py_len (JArr xs) = Inr (length xs)"
| "py_len (JObj kvs) = Inr (length (dict_keys kvs))"
| "py_len x = Inl (TypeError (''object of type '' @ py_repr_str (py_type_name x) @ '' has no len()''))"

text \<open>\<open>for t in x\<close>: the items of a list, the one-character strings of a string,
  the keys of a dict.\<close>

fun py_iter :: "json \<Rightarrow> py_exc + json list" where
  "py_iter (JStr s) = Inr (map (\<lambda>c. JStr [c]) s)"
| "py_iter (JArr xs) = Inr xs"
| "py_iter (JObj kvs) = Inr (map JStr (dict_keys kvs))"
| "py_iter x = Inl (TypeError (py_repr_str (py_type_name x) @ '' object is not iterable''))"

text \<open>\<open>x.lower()\<close>, defined on strings only.\<close>

fun py_lower_val :: "json \<Rightarrow> py_exc + string" where
  "py_lower_val (JStr s) = Inr (py_lower s)"
| "py_lower_val x = Inl (AttributeError (py_type_name x) ''lower'')"

text \<open>
  \<open>x[:n]\<close>. On a dict the slice is looked up as a key: CPython 3.11 raises
  \<open>TypeError: unhashable type: 'slice'\<close> (3.12 raises a \<open>KeyError\<close>; both end
  in an error report).
\<close>

fun py_slice_to :: "json \<Rightarrow> nat \<Rightarrow> py_exc + json" where
  "py_slice_to (JStr s) n = Inr (JStr (take n s))"
| "py_slice_to (JArr xs) n = Inr (JArr (take n xs))"
| "py_slice_to (JObj kvs) n = Inl (TypeError (''unhashable type: '' @ py_repr_str ''slice''))"
| "py_slice_to x n = Inl (TypeError (py_repr_str (py_type_name x) @ '' object is not subscriptable''))"

text \<open>
  \<open>x[k]\<close> with a string key \<open>k\<close> (CPython 3.11 messages): the value of a dict,
  \<open>KeyError\<close> for a missing key, \<open>TypeError\<close> for a list, a string and the
  scalars.
\<close>

fun py_subscript :: "json \<Rightarrow> string \<Rightarrow> py_exc + json" where
  "py_subscript (JObj kvs) k = (case dict_lookup kvs k of Some v \<Rightarrow> Inr v | None \<Rightarrow> Inl (KeyError k))"
| "py_subscript (JArr xs) k = Inl (TypeError ''list indices must be integers or slices, not str'')"
| "py_subscript (JStr s) k = Inl (TypeError (''string indices must be integers, not '' @ py_repr_str ''str''))"
| "py_subscript x k = Inl (TypeError (py_repr_str (py_type_name x) @ '' object is not subscriptable''))"

fun is_str :: "json \<Rightarrow> bool" where
  "is_str (JStr s) = True"
| "is_str x = False"

fun is_dict :: "json \<Rightarrow> bool" where
  "is_dict (JObj kvs) = True"
| "is_dict x = False"

subsection \<open>How the operations agree\<close>

lemma py_truediv_pos [simp]: "0 < b \<Longrightarrow> py_truediv a b = Inr (PyFloat (of_nat a / of_nat b))"
  by (simp add: py_truediv_def)

lemma is_str_iff: "is_str x \<longleftrightarrow> (\<exists>s. x = JStr s)"
  by (cases x) simp_all

lemma list_all_is_str_iff: "list_all is_str ts \<longleftrightarrow> (\<exists>ss. ts = map JStr ss)"
proof (induction ts)
  case Nil
  then show ?case by simp
next
  case (Cons t ts)
  show ?case
  proof
    assume all: "list_all is_str (t # ts)"
    then have "is_str t" and "list_all is_str ts" by simp_all
    from Cons.IH \<open>list_all is_str ts\<close> obtain ss where "ts = map JStr ss" by blast
    moreover from \<open>is_str t\<close> obtain s where "t = JStr s" by (cases t) simp_all
    ultimately show "\<exists>ss. t # ts = map JStr ss" by (intro exI [of _ "s # ss"]) simp
  next
    assume "\<exists>ss. t # ts = map JStr ss"
    then show "list_all is_str (t # ts)" by (auto simp add: Cons_eq_map_conv list_all_iff)
  qed
qed

lemma py_lower_val_str [simp]: "py_lower_val (JStr s) = Inr (py_lower s)"
  by simp

lemma py_lower_val_Inr_is_str: "(\<exists>l. py_lower_val x = Inr l) \<longleftrightarrow> is_str x"
  by (cases x) simp_all

lemma dict_keys_Nil_iff [simp]: "dict_keys kvs = [] \<longleftrightarrow> kvs = []"
  by (simp add: dict_keys_def)

lemma py_len_iter:
  assumes "py_len x = Inr n"
  shows "\<exists>ts. py_iter x = Inr ts \<and> length ts = n"
  using assms by (cases x) auto

lemma py_len_truthy:
  assumes "py_len x = Inr n"
  shows "py_truthy x \<longleftrightarrow> 0 < n"
  using assms by (cases x) auto

lemma py_len_Inr_cases:
  assumes "py_len x = Inr n"
  obtains s where "x = JStr s" "n = length s"
  | xs where "x = JArr xs" "n = length xs"
  | kvs where "x = JObj kvs" "n = length (dict_keys kvs)"
  using assms by (cases x) auto

lemma py_slice_to_len:
  assumes "py_len x = Inr n" and "\<forall>kvs. x \<noteq> JObj kvs"
  shows "\<exists>y. py_slice_to x k = Inr y \<and> py_len y = Inr (min k n)"
  using assms by (cases x) auto

lemma py_lower_val_Inr: "py_lower_val x = Inr s \<longleftrightarrow> (\<exists>t. x = JStr t \<and> s = py_lower t)"
  by (cases x) auto

lemma py_get_Inr: "(\<exists>v. py_get x k d = Inr v) \<longleftrightarrow> (\<exists>kvs. x = JObj kvs)"
  by (cases x) auto

end
