(* ===== verification/Metrics.thy ===== *)
theory Metrics
  imports PyJson
begin

text \<open>
  The Metrics Evaluator: \<open>evaluate_required_terms_quality\<close> and
  \<open>evaluate_extraction_completeness\<close> of \<open>evaluators.py\<close>. Each loads what it needs
  through the Record Loader, computes a dict of metrics, and turns any exception
  into the report \<open>{'job_id': job_id, 'error': str(e)}\<close>.

  The loaders are the interface between the two components: a \<open>loader\<close> maps a job
  id to the decoded document or to the exception it raises. The evaluators are
  defined over any pair of loaders, so every lemma here holds for the file-system
  loaders of theory \<open>Loader\<close>, which the root theory plugs in.
\<close>

type_synonym loader = "string \<Rightarrow> py_exc + json"

section \<open>Reports\<close>

text \<open>
  The two success dicts as records, one field per key in the source's order. The
  key \<open>'required_terms'\<close> of the term report holds \<open>required_terms[:5]\<close>; it is
  called \<open>sample_terms\<close> here.
\<close>

record terms_report =
  tq_job_id :: string
  terms_count :: nat
  terms_coverage :: py_num
  avg_term_length :: py_num
  has_technical_terms :: bool
  sample_terms :: json

record completeness_report =
  cr_job_id :: string
  required_fields_present :: nat
  required_fields_total :: nat
  completeness_score :: py_num
  has_salary :: bool
  description_length :: nat

text \<open>
  What an evaluator returns: the metrics, or the error dict with the job id and
  \<open>str(e)\<close>.
\<close>

datatype 'r eval_report = Metrics 'r | ErrorReport string string

definition catch_report :: "string \<Rightarrow> py_exc + 'r \<Rightarrow> 'r eval_report" where
  "catch_report job_id r = (case r of Inl e \<Rightarrow> ErrorReport job_id (py_exc_str e) | Inr m \<Rightarrow> Metrics m)"

section \<open>Required-terms quality\<close>

definition technical_terms :: "string list" where
  "technical_terms = [''python'', ''react'', ''typescript'', ''aws'', ''kubernetes'']"

text \<open>
  \<open>len([term for term in required_terms if term.lower() in description.lower()])\<close>:
  for each term, \<open>term.lower()\<close> is evaluated, then \<open>description.lower()\<close>.
\<close>

definition coverage_step :: "json \<Rightarrow> json \<Rightarrow> nat \<Rightarrow> py_exc + nat" where
  "coverage_step description t n =
     py_bind (py_lower_val t) (\<lambda>tl.
     py_bind (py_lower_val description) (\<lambda>dl.
     Inr (if py_str_in tl dl then Suc n else n)))"

definition coverage_count :: "json list \<Rightarrow> json \<Rightarrow> py_exc + nat" where
  "coverage_count terms description = py_fold (coverage_step description) terms 0"

text \<open>\<open>sum(len(term) for term in required_terms)\<close>.\<close>

definition length_step :: "json \<Rightarrow> nat \<Rightarrow> py_exc + nat" where
  "length_step t acc = py_bind (py_len t) (\<lambda>l. Inr (acc + l))"

definition total_length :: "json list \<Rightarrow> py_exc + nat" where
  "total_length terms = py_fold length_step terms 0"

text \<open>
  \<open>any(term.lower() in [...] for term in required_terms)\<close>: stops at the first
  term that is in the list.
\<close>

fun any_technical :: "json list \<Rightarrow> py_exc + bool" where
  "any_technical [] = Inr False"
| "any_technical (t # ts) =
     py_bind (py_lower_val t) (\<lambda>l. if l \<in> set technical_terms then Inr True else any_technical ts)"

text \<open>
  Lines 70--81: the body of the \<open>try\<close> after the two loads. The dict display is
  evaluated key by key; each conditional expression tests \<open>required_terms\<close> first.
\<close>

definition terms_metrics :: "string \<Rightarrow> json \<Rightarrow> json \<Rightarrow> py_exc + terms_report" where
  "terms_metrics job_id job_data index_entry =
     py_bind (py_get index_entry ''required_terms'' (JArr [])) (\<lambda>required_terms.
     py_bind (py_get job_data ''description'' (JStr [])) (\<lambda>description.
     py_bind (py_len required_terms) (\<lambda>count.
     py_bind (if py_truthy required_terms
              then py_bind (py_iter required_terms) (\<lambda>ts.
                   py_bind (coverage_count ts description) (\<lambda>k.
                   py_bind (py_len required_terms) (py_truediv k)))
              else Inr (PyInt 0)) (\<lambda>coverage.
     py_bind (if py_truthy required_terms
              then py_bind (py_iter required_terms) (\<lambda>ts.
                   py_bind (total_length ts) (\<lambda>total.
                   py_bind (py_len required_terms) (py_truediv total)))
              else Inr (PyInt 0)) (\<lambda>avg.
     py_bind (py_bind (py_iter required_terms) any_technical) (\<lambda>tech.
     py_bind (py_slice_to required_terms 5) (\<lambda>sample.
     Inr \<lparr>tq_job_id = job_id, terms_count = count, terms_coverage = coverage,
          avg_term_length = avg, has_technical_terms = tech, sample_terms = sample\<rparr>)))))))"

definition evaluate_required_terms_quality :: "loader \<Rightarrow> loader \<Rightarrow> string \<Rightarrow> terms_report eval_report" where
  "evaluate_required_terms_quality load_job_data load_index_entry job_id =
     catch_report job_id
       (py_bind (load_job_data job_id) (\<lambda>job_data.
        py_bind (load_index_entry job_id) (\<lambda>index_entry.
        terms_metrics job_id job_data index_entry)))"

section \<open>Extraction completeness\<close>

definition required_fields :: "string list" where
  "required_fields = [''title'', ''company'', ''location'', ''description'']"

text \<open>\<open>sum(1 for field in required_fields if job_data.get(field))\<close>.\<close>

definition present_step :: "json \<Rightarrow> string \<Rightarrow> nat \<Rightarrow> py_exc + nat" where
  "present_step job_data f n = py_bind (py_get job_data f JNull) (\<lambda>v. Inr (if py_truthy v then Suc n else n))"

definition count_present :: "json \<Rightarrow> string list \<Rightarrow> py_exc + nat" where
  "count_present job_data names = py_fold (present_step job_data) names 0"

text \<open>
  Lines 93--103. The count of present fields is computed twice, once for
  \<open>required_fields_present\<close> and again for \<open>completeness_score\<close>.
\<close>

definition completeness_metrics :: "string \<Rightarrow> json \<Rightarrow> py_exc + completeness_report" where
  "completeness_metrics job_id job_data =
     py_bind (count_present job_data required_fields) (\<lambda>present.
     py_bind (count_present job_data required_fields) (\<lambda>present'.
     py_bind (py_truediv present' (length required_fields)) (\<lambda>score.
     py_bind (py_get job_data ''salary'' JNull) (\<lambda>salary.
     py_bind (py_get job_data ''description'' (JStr [])) (\<lambda>description.
     py_bind (py_len description) (\<lambda>dlen.
     Inr \<lparr>cr_job_id = job_id, required_fields_present = present,
          required_fields_total = length required_fields, completeness_score = score,
          has_salary = py_truthy salary, description_length = dlen\<rparr>))))))"

definition evaluate_extraction_completeness :: "loader \<Rightarrow> string \<Rightarrow> completeness_report eval_report" where
  "evaluate_extraction_completeness load_job_data job_id =
     catch_report job_id (py_bind (load_job_data job_id) (completeness_metrics job_id))"

section \<open>Abstract specifications\<close>

text \<open>
  Section 4.2 of the specification describes the term report over the list of terms
  as strings and the description text: the count, the share of terms found in the
  description ignoring case (0 when there are none), the mean length (0 when there
  are none), whether a term is one of the technical terms ignoring case, and the
  first five terms.
\<close>

definition terms_spec :: "string \<Rightarrow> string list \<Rightarrow> string \<Rightarrow> json \<Rightarrow> terms_report" where
  "terms_spec job_id ss desc sample =
     \<lparr>tq_job_id = job_id,
      terms_count = length ss,
      terms_coverage =
        (if ss = [] then PyInt 0
         else PyFloat (of_nat (length (filter (\<lambda>s. py_str_in (py_lower s) (py_lower desc)) ss))
                       / of_nat (length ss))),
      avg_term_length =
        (if ss = [] then PyInt 0 else PyFloat (of_nat (sum_list (map length ss)) / of_nat (length ss))),
      has_technical_terms = (\<exists>s\<in>set ss. py_lower s \<in> set technical_terms),
      sample_terms = sample\<rparr>"

text \<open>
  The terms a \<open>required_terms\<close> value iterates to, when it is a string (its
  characters) or a list of strings; \<^term>\<open>None\<close> for every other value.
\<close>

fun json_strs :: "json list \<Rightarrow> string list option" where
  "json_strs [] = Some []"
| "json_strs (JStr s # ts) = map_option (Cons s) (json_strs ts)"
| "json_strs (t # ts) = None"

fun terms_view :: "json \<Rightarrow> string list option" where
  "terms_view (JStr s) = Some (map (\<lambda>c. [c]) s)"
| "terms_view (JArr ts) = json_strs ts"
| "terms_view x = None"

fun str_view :: "json \<Rightarrow> string option" where
  "str_view (JStr s) = Some s"
| "str_view x = None"

text \<open>
  Section 4.2 of the specification describes the completeness report over the
  record: how many of the four required fields are present and non-empty, the fixed
  total 4, their share, whether a salary is present, and the length of the
  description.
\<close>

definition completeness_spec :: "string \<Rightarrow> (string \<times> json) list \<Rightarrow> nat \<Rightarrow> completeness_report" where
  "completeness_spec job_id kvs dlen =
     (let present = length (filter (\<lambda>f. py_truthy (dict_get kvs f JNull)) required_fields)
      in \<lparr>cr_job_id = job_id, required_fields_present = present, required_fields_total = 4,
          completeness_score = PyFloat (of_nat present / 4),
          has_salary = py_truthy (dict_get kvs ''salary'' JNull), description_length = dlen\<rparr>)"

text \<open>The job id a report carries, in either shape.\<close>

fun report_job_id :: "('r \<Rightarrow> string) \<Rightarrow> 'r eval_report \<Rightarrow> string" where
  "report_job_id f (Metrics m) = f m"
| "report_job_id f (ErrorReport j e) = j"

section \<open>Inputs of the examples\<close>

text \<open>The record and the index entry of the end-to-end examples of section 8 of the specification.\<close>

definition example_job :: json where
  "example_job = JObj [(''description'', JStr ''We need a Python expert.''), (''title'', JStr ''Eng'')]"

definition example_entry :: json where
  "example_entry =
     JObj [(''job_id'', JStr ''42''), (''required_terms'', JArr [JStr ''python'', JStr ''leadership''])]"

text \<open>An index entry whose \<open>required_terms\<close> is a string rather than a list.\<close>

definition example_string_entry :: json where
  "example_string_entry = JObj [(''job_id'', JStr ''42''), (''required_terms'', JStr ''go'')]"

definition example_partial_job :: json where
  "example_partial_job =
     JObj [(''title'', JStr ''Eng''), (''company'', JStr ''Acme''), (''location'', JStr []),
           (''description'', JStr ''x'')]"

section \<open>The loops of the term metrics\<close>

lemma coverage_step_le: "coverage_step d t n = Inr m \<Longrightarrow> m \<le> Suc n"
  by (auto simp add: coverage_step_def py_bind_eq_Inr split: if_splits)

lemma coverage_count_le: "coverage_count ts d = Inr k \<Longrightarrow> k \<le> length ts"
  using py_fold_le_length [of "coverage_step d" ts 0 k] coverage_step_le
  by (simp add: coverage_count_def)

lemma coverage_count_strs:
  "coverage_count (map JStr ss) (JStr d) =
     Inr (length (filter (\<lambda>s. py_str_in (py_lower s) (py_lower d)) ss))"
proof -
  have "py_fold (\<lambda>s. coverage_step (JStr d) (JStr s)) ss 0
        = py_fold (\<lambda>s n. Inr (if py_str_in (py_lower s) (py_lower d) then Suc n else n)) ss 0"
    by (rule fun_cong [OF py_fold_cong]) (simp add: coverage_step_def)
  then show ?thesis
    by (simp add: coverage_count_def py_fold_map py_fold_count)
qed

lemma coverage_fold_Inr:
  "(\<exists>k. py_fold (coverage_step d) ts acc = Inr k) \<longleftrightarrow> ts = [] \<or> (list_all is_str ts \<and> is_str d)"
proof (induction ts arbitrary: acc)
  case Nil
  then show ?case by simp
next
  case (Cons t ts)
  show ?case
  proof (cases "is_str t \<and> is_str d")
    case True
    then obtain m where "coverage_step d t acc = Inr m"
      by (auto simp add: coverage_step_def is_str_iff)
    with Cons.IH [of m] True show ?thesis by auto
  next
    case False
    then have "\<nexists>m. coverage_step d t acc = Inr m"
      by (auto simp add: coverage_step_def py_bind_eq_Inr py_lower_val_Inr)
    then have "\<nexists>k. py_fold (coverage_step d) (t # ts) acc = Inr k"
      by (auto simp add: py_bind_eq_Inr)
    with False show ?thesis by auto
  qed
qed

lemma coverage_count_Inl:
  assumes "ts \<noteq> []" and "\<not> (list_all is_str ts \<and> is_str d)"
  obtains ex where "coverage_count ts d = Inl ex"
  using assms coverage_fold_Inr [of d ts 0]
  by (cases "coverage_count ts d") (auto simp add: coverage_count_def)

lemma total_length_strs: "total_length (map JStr ss) = Inr (sum_list (map length ss))"
proof -
  have "py_fold (\<lambda>s. length_step (JStr s)) ss 0 = py_fold (\<lambda>s n. Inr (n + length s)) ss 0"
    by (rule fun_cong [OF py_fold_cong]) (simp add: length_step_def)
  then show ?thesis
    by (simp add: total_length_def py_fold_map py_fold_sum)
qed

lemma any_technical_strs:
  "any_technical (map JStr ss) = Inr (\<exists>s\<in>set ss. py_lower s \<in> set technical_terms)"
  by (induction ss) simp_all

section \<open>The term metrics refine their specification\<close>

lemma json_strs_Some: "json_strs ts = Some ss \<longleftrightarrow> ts = map JStr ss"
  by (induction ts arbitrary: ss rule: json_strs.induct) (auto simp add: Cons_eq_map_conv)

lemma json_strs_map [simp]: "json_strs (map JStr ss) = Some ss"
  by (simp add: json_strs_Some)

lemma terms_view_facts:
  assumes "terms_view rt = Some ss"
  shows "py_iter rt = Inr (map JStr ss)" and "py_len rt = Inr (length ss)"
    and "py_truthy rt \<longleftrightarrow> ss \<noteq> []"
    and "\<exists>sample. py_slice_to rt 5 = Inr sample \<and> py_len sample = Inr (min 5 (length ss))"
  using assms by (cases rt; auto simp add: json_strs_Some comp_def take_map)+

text \<open>
  Refinement: on a dict entry whose \<open>required_terms\<close> iterates to the strings
  \<open>ss\<close>, and a dict record whose description is a string whenever there are terms,
  the body of the evaluator computes the abstract report.
\<close>

lemma terms_metrics_refines:
  assumes view: "terms_view (dict_get ek ''required_terms'' (JArr [])) = Some ss"
    and desc: "ss = [] \<or> str_view (dict_get dk ''description'' (JStr [])) = Some d"
    and sample: "py_slice_to (dict_get ek ''required_terms'' (JArr [])) 5 = Inr sample"
  shows "terms_metrics jid (JObj dk) (JObj ek) = Inr (terms_spec jid ss d sample)"
proof -
  note facts = terms_view_facts [OF view]
  show ?thesis
  proof (cases "ss = []")
    case True
    with facts sample show ?thesis
      by (simp add: terms_metrics_def terms_spec_def)
  next
    case False
    with desc have "dict_get dk ''description'' (JStr []) = JStr d"
      by (cases "dict_get dk ''description'' (JStr [])") simp_all
    with False facts sample show ?thesis
      by (simp add: terms_metrics_def terms_spec_def coverage_count_strs total_length_strs
          any_technical_strs)
  qed
qed

lemma terms_metrics_view_None:
  assumes "terms_view (dict_get ek ''required_terms'' (JArr [])) = None"
  shows "\<nexists>r. terms_metrics jid (JObj dk) (JObj ek) = Inr r"
proof (cases "dict_get ek ''required_terms'' (JArr [])")
  case (JArr ts)
  with assms have "ts \<noteq> []" and "\<not> list_all is_str ts"
    by (auto simp add: list_all_is_str_iff json_strs_Some)
  then obtain ex where "coverage_count ts (dict_get dk ''description'' (JStr [])) = Inl ex"
    using coverage_count_Inl [of ts "dict_get dk ''description'' (JStr [])"] by auto
  with JArr \<open>ts \<noteq> []\<close> show ?thesis by (simp add: terms_metrics_def)
next
  case (JObj kvs)
  then show ?thesis
    by (auto simp add: terms_metrics_def py_bind_eq_Inr)
qed (use assms in \<open>simp_all add: terms_metrics_def\<close>)

lemma terms_metrics_desc_None:
  assumes "terms_view (dict_get ek ''required_terms'' (JArr [])) = Some ss" and "ss \<noteq> []"
    and "str_view (dict_get dk ''description'' (JStr [])) = None"
  shows "\<nexists>r. terms_metrics jid (JObj dk) (JObj ek) = Inr r"
proof -
  note facts = terms_view_facts [OF assms(1)]
  from assms(3) have "\<not> is_str (dict_get dk ''description'' (JStr []))"
    by (cases "dict_get dk ''description'' (JStr [])") simp_all
  with assms(2) obtain ex where
    "coverage_count (map JStr ss) (dict_get dk ''description'' (JStr [])) = Inl ex"
    using coverage_count_Inl [of "map JStr ss" "dict_get dk ''description'' (JStr [])"] by auto
  with facts assms(2) show ?thesis by (simp add: terms_metrics_def)
qed

lemma terms_metrics_Inr_iff:
  "(\<exists>r. terms_metrics jid d e = Inr r) \<longleftrightarrow>
     (\<exists>dk ek ss. d = JObj dk \<and> e = JObj ek
        \<and> terms_view (dict_get ek ''required_terms'' (JArr [])) = Some ss
        \<and> (ss = [] \<or> (\<exists>s. str_view (dict_get dk ''description'' (JStr [])) = Some s)))"
  (is "?lhs \<longleftrightarrow> ?rhs")
proof
  assume ?rhs
  then obtain dk ek ss where d: "d = JObj dk" and e: "e = JObj ek"
    and view: "terms_view (dict_get ek ''required_terms'' (JArr [])) = Some ss"
    and desc: "ss = [] \<or> (\<exists>s. str_view (dict_get dk ''description'' (JStr [])) = Some s)"
    by blast
  from desc obtain s where "ss = [] \<or> str_view (dict_get dk ''description'' (JStr [])) = Some s"
    by blast
  moreover obtain sample where "py_slice_to (dict_get ek ''required_terms'' (JArr [])) 5 = Inr sample"
    using terms_view_facts(4) [OF view] by blast
  ultimately show ?lhs
    using terms_metrics_refines [OF view] d e by blast
next
  assume ?lhs
  then obtain r where r: "terms_metrics jid d e = Inr r" by blast
  obtain ek where e: "e = JObj ek"
    using r by (cases e) (simp_all add: terms_metrics_def)
  obtain dk where d: "d = JObj dk"
    using r e by (cases d) (simp_all add: terms_metrics_def)
  obtain ss where view: "terms_view (dict_get ek ''required_terms'' (JArr [])) = Some ss"
    using r d e terms_metrics_view_None
    by (cases "terms_view (dict_get ek ''required_terms'' (JArr []))") blast+
  have "ss = [] \<or> (\<exists>s. str_view (dict_get dk ''description'' (JStr [])) = Some s)"
    using r d e view terms_metrics_desc_None by fastforce
  with d e view show ?rhs by blast
qed

lemma terms_metrics_Inr_spec:
  assumes "terms_metrics jid d e = Inr r"
  obtains dk ek ss desc sample where "d = JObj dk" and "e = JObj ek"
    and "terms_view (dict_get ek ''required_terms'' (JArr [])) = Some ss"
    and "py_slice_to (dict_get ek ''required_terms'' (JArr [])) 5 = Inr sample"
    and "r = terms_spec jid ss desc sample"
proof -
  from assms obtain dk ek ss where d: "d = JObj dk" and e: "e = JObj ek"
    and view: "terms_view (dict_get ek ''required_terms'' (JArr [])) = Some ss"
    and desc: "ss = [] \<or> (\<exists>s. str_view (dict_get dk ''description'' (JStr [])) = Some s)"
    using terms_metrics_Inr_iff by blast
  from desc obtain s where desc': "ss = [] \<or> str_view (dict_get dk ''description'' (JStr [])) = Some s"
    by blast
  obtain sample where sample: "py_slice_to (dict_get ek ''required_terms'' (JArr [])) 5 = Inr sample"
    using terms_view_facts(4) [OF view] by blast
  from terms_metrics_refines [OF view desc' sample] assms d e
  have "r = terms_spec jid ss s sample" by simp
  with d e view sample that show ?thesis by blast
qed

lemma terms_spec_coverage_bounds:
  "0 \<le> py_num_val (terms_coverage (terms_spec jid ss d sample))
   \<and> py_num_val (terms_coverage (terms_spec jid ss d sample)) \<le> 1"
  using frac_nat_bounds [OF length_filter_le] by (simp add: terms_spec_def)

lemma evaluate_terms_Metrics:
  "evaluate_required_terms_quality lj li jid = Metrics r \<longleftrightarrow>
     (\<exists>d e. lj jid = Inr d \<and> li jid = Inr e \<and> terms_metrics jid d e = Inr r)"
  by (auto simp add: evaluate_required_terms_quality_def catch_report_def py_bind_eq_Inr
      split: sum.splits)

lemma evaluate_terms_Metrics_spec:
  assumes "evaluate_required_terms_quality lj li jid = Metrics r"
  obtains dk ek ss desc sample where "lj jid = Inr (JObj dk)" and "li jid = Inr (JObj ek)"
    and "terms_view (dict_get ek ''required_terms'' (JArr [])) = Some ss"
    and "py_slice_to (dict_get ek ''required_terms'' (JArr [])) 5 = Inr sample"
    and "r = terms_spec jid ss desc sample"
  using assms by (auto simp add: evaluate_terms_Metrics elim!: terms_metrics_Inr_spec)

section \<open>The completeness metrics refine their specification\<close>

lemma count_present_dict:
  "count_present (JObj kvs) names =
     Inr (length (filter (\<lambda>f. py_truthy (dict_get kvs f JNull)) names))"
proof -
  have "py_fold (present_step (JObj kvs)) names 0
        = py_fold (\<lambda>f n. Inr (if py_truthy (dict_get kvs f JNull) then Suc n else n)) names 0"
    by (rule fun_cong [OF py_fold_cong]) (simp add: present_step_def)
  then show ?thesis by (simp add: count_present_def py_fold_count)
qed

lemma count_present_not_dict:
  assumes "\<forall>kvs. x \<noteq> JObj kvs"
  shows "count_present x (f # fs) = Inl (AttributeError (py_type_name x) ''get'')"
  using assms by (cases x) (simp_all add: count_present_def present_step_def)

lemma completeness_metrics_refines:
  assumes "py_len (dict_get kvs ''description'' (JStr [])) = Inr n"
  shows "completeness_metrics jid (JObj kvs) = Inr (completeness_spec jid kvs n)"
  using assms
  by (simp add: completeness_metrics_def completeness_spec_def count_present_dict
      required_fields_def Let_def)

lemma completeness_metrics_Inr_iff:
  "(\<exists>r. completeness_metrics jid d = Inr r) \<longleftrightarrow>
     (\<exists>kvs n. d = JObj kvs \<and> py_len (dict_get kvs ''description'' (JStr [])) = Inr n)"
proof
  assume "\<exists>r. completeness_metrics jid d = Inr r"
  then obtain r where r: "completeness_metrics jid d = Inr r" by blast
  obtain kvs where d: "d = JObj kvs"
    using r count_present_not_dict [of d "''title''"]
    by (cases d) (simp_all add: completeness_metrics_def required_fields_def)
  with r show "\<exists>kvs n. d = JObj kvs \<and> py_len (dict_get kvs ''description'' (JStr [])) = Inr n"
    by (cases "py_len (dict_get kvs ''description'' (JStr []))")
      (simp_all add: completeness_metrics_def count_present_dict required_fields_def)
next
  assume "\<exists>kvs n. d = JObj kvs \<and> py_len (dict_get kvs ''description'' (JStr [])) = Inr n"
  then show "\<exists>r. completeness_metrics jid d = Inr r"
    using completeness_metrics_refines by blast
qed

lemma evaluate_completeness_Metrics:
  "evaluate_extraction_completeness lj jid = Metrics r \<longleftrightarrow>
     (\<exists>d. lj jid = Inr d \<and> completeness_metrics jid d = Inr r)"
  by (auto simp add: evaluate_extraction_completeness_def catch_report_def py_bind_eq_Inr
      split: sum.splits)

lemma evaluate_completeness_Metrics_spec:
  assumes "evaluate_extraction_completeness lj jid = Metrics r"
  obtains kvs n where "lj jid = Inr (JObj kvs)"
    and "py_len (dict_get kvs ''description'' (JStr [])) = Inr n"
    and "r = completeness_spec jid kvs n"
proof -
  from assms obtain d where ld: "lj jid = Inr d" and m: "completeness_metrics jid d = Inr r"
    by (auto simp add: evaluate_completeness_Metrics)
  then obtain kvs n where "d = JObj kvs" and n: "py_len (dict_get kvs ''description'' (JStr [])) = Inr n"
    using completeness_metrics_Inr_iff by blast
  with ld m completeness_metrics_refines [OF n] that show ?thesis by simp
qed

lemma required_fields_present_le:
  "length (filter P required_fields) \<le> 4"
  using length_filter_le [of P required_fields] by (simp add: required_fields_def)

section \<open>Both reports carry the job id\<close>

lemma evaluate_terms_job_id:
  "report_job_id tq_job_id (evaluate_required_terms_quality lj li jid) = jid"
  by (auto simp add: evaluate_required_terms_quality_def catch_report_def terms_metrics_def
      py_bind_eq_Inr split: sum.splits)

lemma evaluate_completeness_job_id:
  "report_job_id cr_job_id (evaluate_extraction_completeness lj jid) = jid"
  by (auto simp add: evaluate_extraction_completeness_def catch_report_def completeness_metrics_def
      py_bind_eq_Inr split: sum.splits)

lemma evaluate_completeness_score_unit:
  assumes "evaluate_extraction_completeness lj jid = Metrics r"
  shows "0 \<le> py_num_val (completeness_score r) \<and> py_num_val (completeness_score r) \<le> 1"
proof -
  from assms obtain kvs n where r: "r = completeness_spec jid kvs n"
    by (rule evaluate_completeness_Metrics_spec)
  have "length (filter (\<lambda>f. py_truthy (dict_get kvs f JNull)) required_fields) \<le> 4"
    by (rule required_fields_present_le)
  from frac_nat_bounds [OF this] show ?thesis by (simp add: r completeness_spec_def Let_def)
qed

section \<open>Exceptions the metrics never raise\<close>

text \<open>
  \<open>ZeroDivisionError\<close> can only come from \<^const>\<open>py_truediv\<close>; every other operation
  of the bodies raises something else. A division by \<open>len(required_terms)\<close> sits
  under the test \<open>if required_terms\<close>, which makes the length positive.
\<close>

lemma py_ops_not_zde [simp]:
  "py_get x k d \<noteq> Inl ZeroDivisionError" "py_len x \<noteq> Inl ZeroDivisionError"
  "py_iter x \<noteq> Inl ZeroDivisionError" "py_lower_val x \<noteq> Inl ZeroDivisionError"
  "py_slice_to x n \<noteq> Inl ZeroDivisionError"
  by (cases x; simp)+

lemma truediv_by_len:
  assumes "py_truthy x"
  shows "py_bind (py_len x) (py_truediv k) \<noteq> Inl ZeroDivisionError"
proof (cases "py_len x")
  case (Inr n)
  with assms have "0 < n" by (simp add: py_len_truthy)
  with Inr show ?thesis by simp
qed (use py_ops_not_zde(2) [of x] in auto)

lemma loop_steps_not_zde:
  "coverage_count ts d \<noteq> Inl ZeroDivisionError" "total_length ts \<noteq> Inl ZeroDivisionError"
  "any_technical ts \<noteq> Inl ZeroDivisionError" "count_present x names \<noteq> Inl ZeroDivisionError"
proof -
  show "coverage_count ts d \<noteq> Inl ZeroDivisionError"
    unfolding coverage_count_def coverage_step_def
    by (rule py_fold_not_Inl) (simp add: py_bind_not_Inl)
  show "total_length ts \<noteq> Inl ZeroDivisionError"
    unfolding total_length_def length_step_def
    by (rule py_fold_not_Inl) (simp add: py_bind_not_Inl)
  show "any_technical ts \<noteq> Inl ZeroDivisionError"
    by (induction ts) (simp_all add: py_bind_not_Inl)
  show "count_present x names \<noteq> Inl ZeroDivisionError"
    unfolding count_present_def present_step_def
    by (rule py_fold_not_Inl) (simp add: py_bind_not_Inl)
qed

section \<open>Properties of the evaluators\<close>

text \<open>
  C1: the coverage reported for a job is a fraction between 0 and 1, whatever the
  loaders return.
\<close>

theorem terms_coverage_in_unit:
  assumes "evaluate_required_terms_quality lj li jid = Metrics r"
  shows "0 \<le> py_num_val (terms_coverage r) \<and> py_num_val (terms_coverage r) \<le> 1"
proof -
  from assms obtain ss desc sample where "r = terms_spec jid ss desc sample"
    by (rule evaluate_terms_Metrics_spec)
  then show ?thesis using terms_spec_coverage_bounds by simp
qed

theorem terms_coverage_in_unit_witness:
  "evaluate_required_terms_quality (\<lambda>_. Inr example_job) (\<lambda>_. Inr example_entry) ''42'' =
     Metrics \<lparr>tq_job_id = ''42'', terms_count = 2, terms_coverage = PyFloat (1 / 2),
              avg_term_length = PyFloat 8, has_technical_terms = True,
              sample_terms = JArr [JStr ''python'', JStr ''leadership'']\<rparr>
   \<and> 0 \<le> py_num_val (PyFloat (1 / 2)) \<and> py_num_val (PyFloat (1 / 2)) \<le> 1"
proof -
  have h: "evaluate_required_terms_quality (\<lambda>_. Inr example_job) (\<lambda>_. Inr example_entry) ''42'' =
     Metrics \<lparr>tq_job_id = ''42'', terms_count = 2, terms_coverage = PyFloat (1 / 2),
              avg_term_length = PyFloat 8, has_technical_terms = True,
              sample_terms = JArr [JStr ''python'', JStr ''leadership'']\<rparr>"
    by code_simp
  show ?thesis using h terms_coverage_in_unit [OF h] by simp
qed

text \<open>
  C2: an entry without required terms (the key missing or an empty list) gives a
  report, never an error: the divisions by \<open>len(required_terms)\<close> and the
  lowering of the description are not evaluated, the coverage and the mean length
  are the integer 0, whatever the record's description holds (also a value that is
  not a string).
\<close>

theorem terms_empty_no_division:
  assumes "lj jid = Inr (JObj dk)" and "li jid = Inr (JObj ek)"
    and "dict_get ek ''required_terms'' (JArr []) = JArr []"
  shows "evaluate_required_terms_quality lj li jid =
           Metrics \<lparr>tq_job_id = jid, terms_count = 0, terms_coverage = PyInt 0,
                    avg_term_length = PyInt 0, has_technical_terms = False, sample_terms = JArr []\<rparr>"
  using assms
  by (simp add: evaluate_required_terms_quality_def catch_report_def terms_metrics_def
      coverage_count_def total_length_def)

theorem terms_empty_no_division_witness:
  "evaluate_required_terms_quality (\<lambda>_. Inr (JObj [(''description'', JNull)]))
     (\<lambda>_. Inr (JObj [(''job_id'', JStr ''7'')])) ''7'' =
     Metrics \<lparr>tq_job_id = ''7'', terms_count = 0, terms_coverage = PyInt 0,
              avg_term_length = PyInt 0, has_technical_terms = False, sample_terms = JArr []\<rparr>"
proof -
  have h1: "(\<lambda>_. Inr (JObj [(''description'', JNull)]) :: py_exc + json) ''7'' = Inr (JObj [(''description'', JNull)])"
    and h2: "(\<lambda>_. Inr (JObj [(''job_id'', JStr ''7'')]) :: py_exc + json) ''7'' = Inr (JObj [(''job_id'', JStr ''7'')])"
    by simp_all
  have h3: "dict_get [(''job_id'', JStr ''7'')] ''required_terms'' (JArr []) = JArr []" by code_simp
  show ?thesis
    by (rule terms_empty_no_division [where lj = "\<lambda>_. Inr (JObj [(''description'', JNull)])"
          and li = "\<lambda>_. Inr (JObj [(''job_id'', JStr ''7'')])" and jid = "''7''", OF h1 h2 h3])
qed

text \<open>
  C3: neither evaluator ever raises \<open>ZeroDivisionError\<close>, on any record and any index
  entry: no error report of either is a division by zero.
\<close>

theorem metrics_no_zero_division:
  "terms_metrics jid d e \<noteq> Inl ZeroDivisionError \<and> completeness_metrics jid d \<noteq> Inl ZeroDivisionError"
proof
  have cov: "py_bind (py_iter rt) (\<lambda>ts. py_bind (coverage_count ts desc)
               (\<lambda>k. py_bind (py_len rt) (py_truediv k))) \<noteq> Inl ZeroDivisionError"
    if "py_truthy rt" for rt desc
  proof (rule py_bind_not_Inl)
    fix ts
    show "py_bind (coverage_count ts desc) (\<lambda>k. py_bind (py_len rt) (py_truediv k))
          \<noteq> Inl ZeroDivisionError"
      by (rule py_bind_not_Inl) (simp_all add: loop_steps_not_zde truediv_by_len that)
  qed simp
  have avg: "py_bind (py_iter rt) (\<lambda>ts. py_bind (total_length ts)
               (\<lambda>t. py_bind (py_len rt) (py_truediv t))) \<noteq> Inl ZeroDivisionError"
    if "py_truthy rt" for rt
  proof (rule py_bind_not_Inl)
    fix ts
    show "py_bind (total_length ts) (\<lambda>t. py_bind (py_len rt) (py_truediv t))
          \<noteq> Inl ZeroDivisionError"
      by (rule py_bind_not_Inl) (simp_all add: loop_steps_not_zde truediv_by_len that)
  qed simp
  show "terms_metrics jid d e \<noteq> Inl ZeroDivisionError"
    unfolding terms_metrics_def
    by (intro py_bind_not_Inl) (simp_all add: cov avg loop_steps_not_zde)
  show "completeness_metrics jid d \<noteq> Inl ZeroDivisionError"
    unfolding completeness_metrics_def
    by (intro py_bind_not_Inl) (simp_all add: loop_steps_not_zde required_fields_def
        py_truediv_def)
qed

text \<open>
  C4: on a record whose description is a string and an entry whose required terms are
  a list of strings, the term report is the one section 4.2 of the specification
  describes (\<^const>\<open>terms_spec\<close>), with the first five terms as sample.
\<close>

theorem terms_report_refines:
  assumes "lj jid = Inr (JObj dk)" and "li jid = Inr (JObj ek)"
    and "dict_get ek ''required_terms'' (JArr []) = JArr (map JStr ss)"
    and "dict_get dk ''description'' (JStr []) = JStr d"
  shows "evaluate_required_terms_quality lj li jid =
           Metrics (terms_spec jid ss d (JArr (take 5 (map JStr ss))))"
proof -
  have "terms_metrics jid (JObj dk) (JObj ek) = Inr (terms_spec jid ss d (JArr (take 5 (map JStr ss))))"
    by (rule terms_metrics_refines) (simp_all add: assms(3,4))
  with assms(1,2) show ?thesis by (simp add: evaluate_required_terms_quality_def catch_report_def)
qed

theorem terms_report_refines_witness:
  "evaluate_required_terms_quality (\<lambda>_. Inr example_job) (\<lambda>_. Inr example_entry) ''42'' =
     Metrics (terms_spec ''42'' [''python'', ''leadership''] ''We need a Python expert.''
       (JArr (take 5 (map JStr [''python'', ''leadership'']))))"
  unfolding example_job_def example_entry_def
  by (rule terms_report_refines) code_simp+

text \<open>
  C5: on a record that is a dict whose description has a length, the completeness
  report is the one section 4.2 of the specification describes
  (\<^const>\<open>completeness_spec\<close>): the number of required fields present and
  non-empty, the total 4, their share, whether a salary is present, and the length of
  the description.
\<close>

theorem completeness_report_refines:
  assumes "lj jid = Inr (JObj kvs)"
    and "py_len (dict_get kvs ''description'' (JStr [])) = Inr n"
  shows "evaluate_extraction_completeness lj jid = Metrics (completeness_spec jid kvs n)"
  using assms completeness_metrics_refines [OF assms(2)]
  by (simp add: evaluate_extraction_completeness_def catch_report_def)

theorem completeness_report_refines_witness:
  "evaluate_extraction_completeness (\<lambda>_. Inr example_partial_job) ''42'' =
     Metrics (completeness_spec ''42''
       [(''title'', JStr ''Eng''), (''company'', JStr ''Acme''), (''location'', JStr []),
        (''description'', JStr ''x'')] 1)"
  unfolding example_partial_job_def
  by (rule completeness_report_refines) code_simp+

text \<open>
  C6: the completeness score is always one of 0, 1/4, 1/2, 3/4 and 1.
\<close>

theorem completeness_score_quarters:
  assumes "evaluate_extraction_completeness lj jid = Metrics r"
  shows "completeness_score r \<in> {PyFloat 0, PyFloat (1/4), PyFloat (1/2), PyFloat (3/4), PyFloat 1}"
proof -
  from assms obtain kvs n where r: "r = completeness_spec jid kvs n"
    by (rule evaluate_completeness_Metrics_spec)
  define p where "p = length (filter (\<lambda>f. py_truthy (dict_get kvs f JNull)) required_fields)"
  have "p \<le> 4" unfolding p_def by (rule required_fields_present_le)
  then have "p = 0 \<or> p = 1 \<or> p = 2 \<or> p = 3 \<or> p = 4" by arith
  moreover have "completeness_score r = PyFloat (of_nat p / 4)"
    by (simp add: r completeness_spec_def p_def Let_def)
  ultimately show ?thesis by auto
qed

theorem completeness_score_quarters_witness:
  "evaluate_extraction_completeness (\<lambda>_. Inr example_partial_job) ''42'' =
     Metrics \<lparr>cr_job_id = ''42'', required_fields_present = 3, required_fields_total = 4,
              completeness_score = PyFloat (3 / 4), has_salary = False, description_length = 1\<rparr>
   \<and> PyFloat (3 / 4) \<in> {PyFloat 0, PyFloat (1/4), PyFloat (1/2), PyFloat (3/4), PyFloat 1}"
proof -
  have h: "evaluate_extraction_completeness (\<lambda>_. Inr example_partial_job) ''42'' =
     Metrics \<lparr>cr_job_id = ''42'', required_fields_present = 3, required_fields_total = 4,
              completeness_score = PyFloat (3 / 4), has_salary = False, description_length = 1\<rparr>"
    by code_simp
  show ?thesis using h completeness_score_quarters [OF h] by simp
qed


text \<open>
  C21: the sample of a term report is \<open>required_terms[:5]\<close> of the index entry, and
  \<open>required_terms\<close> has one of two types: a list of strings, and the sample is its
  first five strings; or a single string, and the sample is its first five
  characters, as a string. No other value of \<open>required_terms\<close> gives a report.
\<close>

theorem terms_sample_type:
  assumes "evaluate_required_terms_quality lj li jid = Metrics r"
  shows "\<exists>ek. li jid = Inr (JObj ek) \<and>
           ((\<exists>ss. dict_get ek ''required_terms'' (JArr []) = JArr (map JStr ss) \<and>
                  sample_terms r = JArr (map JStr (take 5 ss)) \<and> terms_count r = length ss) \<or>
            (\<exists>s. dict_get ek ''required_terms'' (JArr []) = JStr s \<and>
                 sample_terms r = JStr (take 5 s) \<and> terms_count r = length s))"
proof -
  from assms obtain dk ek ss desc sample where e: "li jid = Inr (JObj ek)"
    and view: "terms_view (dict_get ek ''required_terms'' (JArr [])) = Some ss"
    and sl: "py_slice_to (dict_get ek ''required_terms'' (JArr [])) 5 = Inr sample"
    and r: "r = terms_spec jid ss desc sample"
    by (rule evaluate_terms_Metrics_spec)
  show ?thesis
  proof (cases "dict_get ek ''required_terms'' (JArr [])")
    case (JStr s)
    with view sl r e show ?thesis by (auto simp add: terms_spec_def)
  next
    case (JArr ts)
    with view sl r e show ?thesis by (auto simp add: terms_spec_def json_strs_Some take_map)
  qed (use view in simp_all)
qed

theorem terms_sample_type_witness:
  "evaluate_required_terms_quality (\<lambda>_. Inr example_job) (\<lambda>_. Inr example_string_entry) ''42'' =
     Metrics \<lparr>tq_job_id = ''42'', terms_count = 2, terms_coverage = PyFloat (1 / 2),
              avg_term_length = PyFloat 1, has_technical_terms = False, sample_terms = JStr ''go''\<rparr> \<and>
   (\<exists>ek. Inr example_string_entry = (Inr (JObj ek) :: py_exc + json) \<and>
      ((\<exists>ss. dict_get ek ''required_terms'' (JArr []) = JArr (map JStr ss) \<and>
             JStr ''go'' = JArr (map JStr (take 5 ss)) \<and> (2::nat) = length ss) \<or>
       (\<exists>s. dict_get ek ''required_terms'' (JArr []) = JStr s \<and>
            JStr ''go'' = JStr (take 5 s) \<and> (2::nat) = length s)))"
proof -
  have h: "evaluate_required_terms_quality (\<lambda>_. Inr example_job) (\<lambda>_. Inr example_string_entry) ''42'' =
     Metrics \<lparr>tq_job_id = ''42'', terms_count = 2, terms_coverage = PyFloat (1 / 2),
              avg_term_length = PyFloat 1, has_technical_terms = False, sample_terms = JStr ''go''\<rparr>"
    by code_simp
  from terms_sample_type [OF h] show ?thesis by (intro conjI h) simp
qed

text \<open>
  C22: an entry whose \<open>required_terms\<close> is a string is evaluated as the list of its
  characters: every character is a term (so \<open>terms_count\<close> is the length of the
  string and the coverage is the share of its characters found in the description),
  and the sample is the string's first five characters.
\<close>

theorem terms_string_terms_are_chars:
  assumes "lj jid = Inr (JObj dk)" and "li jid = Inr (JObj ek)"
    and "dict_get ek ''required_terms'' (JArr []) = JStr s"
    and "dict_get dk ''description'' (JStr []) = JStr d"
  shows "evaluate_required_terms_quality lj li jid =
           Metrics (terms_spec jid (map (\<lambda>c. [c]) s) d (JStr (take 5 s)))"
proof -
  have "terms_metrics jid (JObj dk) (JObj ek) = Inr (terms_spec jid (map (\<lambda>c. [c]) s) d (JStr (take 5 s)))"
    by (rule terms_metrics_refines) (simp_all add: assms(3,4))
  with assms(1,2) show ?thesis by (simp add: evaluate_required_terms_quality_def catch_report_def)
qed

theorem terms_string_terms_are_chars_witness:
  "evaluate_required_terms_quality (\<lambda>_. Inr example_job) (\<lambda>_. Inr example_string_entry) ''42'' =
     Metrics (terms_spec ''42'' [''g'', ''o''] ''We need a Python expert.'' (JStr ''go''))"
proof -
  have h1: "(\<lambda>_. Inr example_job :: py_exc + json) ''42'' =
              Inr (JObj [(''description'', JStr ''We need a Python expert.''), (''title'', JStr ''Eng'')])"
    and h2: "(\<lambda>_. Inr example_string_entry :: py_exc + json) ''42'' =
              Inr (JObj [(''job_id'', JStr ''42''), (''required_terms'', JStr ''go'')])"
    by (simp_all add: example_job_def example_string_entry_def)
  have h3: "dict_get [(''job_id'', JStr ''42''), (''required_terms'', JStr ''go'')] ''required_terms'' (JArr []) =
              JStr ''go''"
    and h4: "dict_get [(''description'', JStr ''We need a Python expert.''), (''title'', JStr ''Eng'')]
               ''description'' (JStr []) = JStr ''We need a Python expert.''"
    by code_simp+
  from terms_string_terms_are_chars [OF h1 h2 h3 h4] show ?thesis by simp
qed

end
