(* ===== verification/FileSys.thy ===== *)
theory FileSys
  imports PyJson
begin

text \<open>
  The part of the operating system and of Python's standard library the Record
  Loader calls: a file system as a tree of directories with a current working
  directory, path resolution as POSIX does it, \<open>os.path.split\<close> and
  \<open>os.path.join\<close>, \<open>os.path.lexists\<close>, \<open>os.path.isdir\<close>, \<open>os.scandir\<close>, reading a
  file with \<open>open(p, 'r')\<close>, and \<open>glob.glob\<close> with \<open>fnmatch\<close> (CPython 3.11,
  \<open>glob.py\<close> and \<open>fnmatch.py\<close>). None of this is code of the repository; it is the
  environment in which \<open>load_job_data\<close> and \<open>load_index_entry\<close> run.
\<close>

section \<open>File systems\<close>

text \<open>
  A node is a file with its (decoded) text or a directory with its entries, in the
  order \<open>os.scandir\<close> reports them. There are no symbolic links. The current working
  directory is an absolute path, a list of names from the root.
\<close>

datatype fs_node = File string | Dir "(string \<times> fs_node) list"

record fsys =
  fs_root :: fs_node
  fs_cwd :: "string list"

fun fs_child :: "fs_node \<Rightarrow> string \<Rightarrow> fs_node option" where
  "fs_child (Dir es) n = map_of es n"
| "fs_child (File t) n = None"

fun node_at :: "fs_node \<Rightarrow> string list \<Rightarrow> fs_node option" where
  "node_at n [] = Some n"
| "node_at n (c # cs) = (case fs_child n c of None \<Rightarrow> None | Some m \<Rightarrow> node_at m cs)"

fun is_dir_node :: "fs_node \<Rightarrow> bool" where
  "is_dir_node (Dir es) = True"
| "is_dir_node (File t) = False"

text \<open>
  A well-formed tree: the names of a directory are distinct, non-empty, free of
  \<open>/\<close>, and neither \<open>.\<close> nor \<open>..\<close>; the root and the working directory are
  directories.
\<close>

definition valid_name :: "string \<Rightarrow> bool" where
  "valid_name n = (n \<noteq> [] \<and> CHR ''/'' \<notin> set n \<and> n \<noteq> ''.'' \<and> n \<noteq> ''..'')"

fun node_wf :: "fs_node \<Rightarrow> bool" where
  "node_wf (File t) = True"
| "node_wf (Dir es) = (distinct (map fst es) \<and> (\<forall>e \<in> set es. valid_name (fst e) \<and> node_wf (snd e)))"

definition fs_wf :: "fsys \<Rightarrow> bool" where
  "fs_wf w =
     (node_wf (fs_root w) \<and> is_dir_node (fs_root w) \<and>
      (case node_at (fs_root w) (fs_cwd w) of Some n \<Rightarrow> is_dir_node n | None \<Rightarrow> False))"

section \<open>Path resolution\<close>

text \<open>\<open>p.split('/')\<close>.\<close>

fun path_comps :: "string \<Rightarrow> string list" where
  "path_comps [] = [[]]"
| "path_comps (c # s) =
     (let r = path_comps s in if c = CHR ''/'' then [] # r else (c # hd r) # tl r)"

text \<open>
  The kernel's lookup of a path component by component, from a directory \<open>cur\<close>:
  an empty component and \<open>.\<close> stay, \<open>..\<close> goes to the parent (the root is its own
  parent), a name must be an entry of the current directory, and every component
  but the last must lead to a directory (\<open>ENOTDIR\<close> otherwise, as for \<open>f/\<close> when
  \<open>f\<close> is a file).
\<close>

datatype path_err = ENOENT | ENOTDIR

fun walk :: "fs_node \<Rightarrow> string list \<Rightarrow> string list \<Rightarrow> path_err + string list" where
  "walk r cur [] = Inr cur"
| "walk r cur (c # cs) =
     (if c = [] \<or> c = ''.'' then walk r cur cs
      else if c = ''..'' then walk r (butlast cur) cs
      else case node_at r (cur @ [c]) of
             None \<Rightarrow> Inl ENOENT
           | Some (Dir es) \<Rightarrow> walk r (cur @ [c]) cs
           | Some (File t) \<Rightarrow> if cs = [] then Inr (cur @ [c]) else Inl ENOTDIR)"

text \<open>An empty path names nothing; a path starting with \<open>/\<close> starts at the root.\<close>

definition resolve :: "fsys \<Rightarrow> string \<Rightarrow> path_err + string list" where
  "resolve w p =
     (if p = [] then Inl ENOENT
      else walk (fs_root w) (if hd p = CHR ''/'' then [] else fs_cwd w) (path_comps p))"

definition lexists :: "fsys \<Rightarrow> string \<Rightarrow> bool" where
  "lexists w p = (case resolve w p of Inl e \<Rightarrow> False | Inr q \<Rightarrow> True)"

definition isdir :: "fsys \<Rightarrow> string \<Rightarrow> bool" where
  "isdir w p =
     (case resolve w p of Inl e \<Rightarrow> False
      | Inr q \<Rightarrow> (case node_at (fs_root w) q of Some n \<Rightarrow> is_dir_node n | None \<Rightarrow> False))"

text \<open>
  \<open>open(p, 'r').read()\<close>: the text of a file; a missing path, a path through a file,
  and a directory raise the \<open>OSError\<close> CPython raises, with its message.
\<close>

definition read_file :: "fsys \<Rightarrow> string \<Rightarrow> py_exc + string" where
  "read_file w p =
     (case resolve w p of
        Inl ENOENT \<Rightarrow> Inl (FileNotFoundError (''[Errno 2] No such file or directory: '' @ py_repr_str p))
      | Inl ENOTDIR \<Rightarrow> Inl (NotADirectoryError p)
      | Inr q \<Rightarrow> (case node_at (fs_root w) q of
                   Some (File t) \<Rightarrow> Inr t
                 | _ \<Rightarrow> Inl (IsADirectoryError p)))"

text \<open>
  \<open>glob._iterdir\<close>: the names \<open>os.scandir\<close> lists in a directory (the working
  directory for the empty path), only those of directories when \<open>dironly\<close>; every
  \<open>OSError\<close> gives no name.
\<close>

definition listdir :: "fsys \<Rightarrow> string \<Rightarrow> bool \<Rightarrow> string list" where
  "listdir w d dironly =
     (case resolve w (if d = [] then ''.'' else d) of
        Inl e \<Rightarrow> []
      | Inr q \<Rightarrow> (case node_at (fs_root w) q of
                   Some (Dir es) \<Rightarrow> map fst (if dironly then filter (is_dir_node \<circ> snd) es else es)
                 | _ \<Rightarrow> []))"

section \<open>\<open>os.path.split\<close> and \<open>os.path.join\<close>\<close>

text \<open>
  \<open>posixpath.split\<close>: the tail is what follows the last \<open>/\<close>; the head is what
  precedes it, with trailing slashes removed unless it consists of slashes only.
\<close>

definition rstrip_slash :: "string \<Rightarrow> string" where
  "rstrip_slash s = rev (dropWhile (\<lambda>c. c = CHR ''/'') (rev s))"

definition path_split :: "string \<Rightarrow> string \<times> string" where
  "path_split p =
     (let i = length p - length (takeWhile (\<lambda>c. c \<noteq> CHR ''/'') (rev p));
          head = take i p; tail = drop i p
      in (if head \<noteq> [] \<and> (\<exists>c \<in> set head. c \<noteq> CHR ''/'') then rstrip_slash head else head, tail))"

text \<open>\<open>posixpath.join(a, b)\<close>.\<close>

definition path_join :: "string \<Rightarrow> string \<Rightarrow> string" where
  "path_join a b =
     (if b \<noteq> [] \<and> hd b = CHR ''/'' then b
      else if a = [] \<or> last a = CHR ''/'' then a @ b
      else a @ CHR ''/'' # b)"

text \<open>\<open>glob._join\<close>: \<open>dirname or basename\<close> when one of them is empty.\<close>

definition glob_join :: "string \<Rightarrow> string \<Rightarrow> string" where
  "glob_join a b = (if a = [] \<or> b = [] then a @ b else path_join a b)"

section \<open>\<open>fnmatch\<close>\<close>

text \<open>
  \<open>fnmatch.translate\<close> turns a pattern into a regular expression; \<open>fnmatchcase\<close>
  matches the whole name against it (with \<open>re.DOTALL\<close>). The model keeps the items
  the translation produces: \<open>*\<close> (a run of stars is one), \<open>?\<close>, a literal character,
  and a bracket expression as a character class, negated or not, given by its
  ranges (a single character \<open>c\<close> is the range \<open>(c, c)\<close>). Matching is the
  regular expression's: \<open>*\<close> matches any string. CPython writes an interior
  \<open>STAR fixed\<close> as the atomic group \<open>(?>.*?fixed)\<close>; on these patterns that
  matches the same names as \<open>.*fixed\<close>.
\<close>

datatype pat_item = PStar | PAny | PLit char | PClass bool "(char \<times> char) list"

text \<open>\<open>s.find(c, k)\<close>: the first index from \<open>k\<close> on that holds \<open>c\<close>.\<close>

fun str_find :: "char \<Rightarrow> string \<Rightarrow> nat \<Rightarrow> nat option" where
  "str_find c [] k = None"
| "str_find c (x # xs) k =
     (if k = 0 \<and> x = c then Some 0 else map_option Suc (str_find c xs (k - 1)))"

text \<open>
  The chunks of a bracket expression that holds a hyphen: the text is cut at each
  hyphen found from the position after the first character (after \<open>!x\<close> when
  negated), the search resuming two characters past the cut.
\<close>

function bracket_chunks :: "string \<Rightarrow> nat \<Rightarrow> string list" where
  "bracket_chunks s k =
     (case str_find (CHR ''-'') s k of
        None \<Rightarrow> [s]
      | Some i \<Rightarrow> take i s # bracket_chunks (drop (Suc i) s) 2)"
  by pat_completeness auto
termination
proof (relation "measure (\<lambda>(s, k). length s)")
  have bound: "str_find c t m = Some j \<Longrightarrow> j < length t" for c t m j
    by (induction c t m arbitrary: j rule: str_find.induct) (auto split: if_splits)
  fix s :: string and k i
  assume "str_find CHR ''-'' s k = Some i"
  with bound show "((drop (Suc i) s, 2), (s, k)) \<in> measure (\<lambda>(s, k). length s)" by fastforce
qed simp

text \<open>
  An empty last chunk (the expression ends with a hyphen) is replaced by a hyphen
  appended to the chunk before it.
\<close>

definition close_chunks :: "string list \<Rightarrow> string list" where
  "close_chunks cs =
     (if last cs = [] \<and> length cs \<ge> 2
      then butlast (butlast cs) @ [last (butlast cs) @ ''-'']
      else if last cs = [] then butlast cs else cs)"

text \<open>
  ``Remove empty ranges'': from the right, two neighbouring chunks whose boundary
  would be a reversed range \<open>a-b\<close> with \<open>a > b\<close> are joined without both
  boundary characters.
\<close>

fun merge_chunks :: "string list \<Rightarrow> string list" where
  "merge_chunks [] = []"
| "merge_chunks (c # cs) =
     (case merge_chunks cs of
        [] \<Rightarrow> [c]
      | d # ds \<Rightarrow> if last c > hd d then (butlast c @ tl d) # ds else c # d # ds)"

text \<open>
  The class text: the chunks' characters are literals (backslashes and hyphens
  inside a chunk are escaped), joined by the unescaped hyphens that make ranges.
\<close>

datatype class_tok = CLit char | CHyph

fun join_chunks :: "string list \<Rightarrow> class_tok list" where
  "join_chunks [] = []"
| "join_chunks [c] = map CLit c"
| "join_chunks (c # cs) = map CLit c @ CHyph # join_chunks cs"

fun tok_char :: "class_tok \<Rightarrow> char" where
  "tok_char (CLit c) = c"
| "tok_char CHyph = CHR ''-''"

text \<open>
  How \<open>re\<close> reads a class: an item followed by a hyphen and another item is a
  range; a hyphen that does not start a range is the character \<open>-\<close>.
\<close>

fun class_ranges :: "class_tok list \<Rightarrow> (char \<times> char) list" where
  "class_ranges [] = []"
| "class_ranges (t # CHyph # u # ts) = (tok_char t, tok_char u) # class_ranges ts"
| "class_ranges (t # ts) = (tok_char t, tok_char t) # class_ranges ts"

text \<open>
  The bracket expression with text \<open>stuff\<close> (what stands between \<open>[\<close> and \<open>]\<close>):
  negated when the class text starts with \<open>!\<close>. An empty class never matches, and
  the class \<open>!\<close> alone matches any character, as CPython's special cases do.
\<close>

definition bracket_item :: "string \<Rightarrow> pat_item" where
  "bracket_item stuff =
     (let toks = (if CHR ''-'' \<notin> set stuff then map CLit stuff
                  else join_chunks (merge_chunks (close_chunks
                         (bracket_chunks stuff (if hd stuff = CHR ''!'' then 2 else 1)))))
      in case toks of
           CLit c # ts \<Rightarrow> if c = CHR ''!'' then PClass True (class_ranges ts)
                         else PClass False (class_ranges toks)
         | _ \<Rightarrow> PClass False (class_ranges toks))"

text \<open>
  Where the bracket that opens at the head of \<open>s\<close> (the text after \<open>[\<close>) closes:
  a leading \<open>!\<close> and then a leading \<open>]\<close> are part of the expression.
\<close>

definition bracket_end :: "string \<Rightarrow> nat option" where
  "bracket_end s =
     (let j0 = (if s \<noteq> [] \<and> hd s = CHR ''!'' then 1 else 0);
          j1 = (if j0 < length s \<and> s ! j0 = CHR '']'' then Suc j0 else j0)
      in str_find (CHR '']'') s j1)"

function fn_translate :: "string \<Rightarrow> pat_item list" where
  "fn_translate [] = []"
| "fn_translate (c # s) =
     (if c = CHR ''*'' then PStar # fn_translate (dropWhile (\<lambda>x. x = CHR ''*'') s)
      else if c = CHR ''?'' then PAny # fn_translate s
      else if c = CHR ''['' then
        (case bracket_end s of
           None \<Rightarrow> PLit c # fn_translate s
         | Some j \<Rightarrow> bracket_item (take j s) # fn_translate (drop (Suc j) s))
      else PLit c # fn_translate s)"
  by pat_completeness auto
termination
  by (relation "measure length") (simp_all add: le_imp_less_Suc length_dropWhile_le)

fun item_ok :: "pat_item \<Rightarrow> char \<Rightarrow> bool" where
  "item_ok PAny c = True"
| "item_ok (PLit d) c = (c = d)"
| "item_ok (PClass neg rs) c = (neg \<noteq> (\<exists>r \<in> set rs. fst r \<le> c \<and> c \<le> snd r))"
| "item_ok PStar c = True"

fun pmatch :: "pat_item list \<Rightarrow> string \<Rightarrow> bool" where
  "pmatch [] s = (s = [])"
| "pmatch (PStar # ps) [] = pmatch ps []"
| "pmatch (PStar # ps) (c # s) = (pmatch ps (c # s) \<or> pmatch (PStar # ps) s)"
| "pmatch (p # ps) [] = False"
| "pmatch (p # ps) (c # s) = (item_ok p c \<and> pmatch ps s)"

definition fnmatch :: "string \<Rightarrow> string \<Rightarrow> bool" where
  "fnmatch name pat = pmatch (fn_translate pat) name"

section \<open>\<open>glob\<close>\<close>

definition has_magic :: "string \<Rightarrow> bool" where
  "has_magic s = (\<exists>c \<in> set s. c = CHR ''*'' \<or> c = CHR ''?'' \<or> c = CHR ''['')"

definition is_hidden :: "string \<Rightarrow> bool" where
  "is_hidden s = (s \<noteq> [] \<and> hd s = CHR ''.'')"

text \<open>\<open>glob._glob1\<close>: the names of the directory that match, hidden names only for a
  hidden pattern.\<close>

definition glob1 :: "fsys \<Rightarrow> string \<Rightarrow> string \<Rightarrow> bool \<Rightarrow> string list" where
  "glob1 w d pat dironly =
     (let names = listdir w d dironly;
          names' = (if is_hidden pat then names else filter (\<lambda>x. \<not> is_hidden x) names)
      in filter (\<lambda>x. fnmatch x pat) names')"

text \<open>\<open>glob._glob0\<close>: a literal name, if it exists.\<close>

definition glob0 :: "fsys \<Rightarrow> string \<Rightarrow> string \<Rightarrow> string list" where
  "glob0 w d base =
     (if base \<noteq> [] then (if lexists w (glob_join d base) then [base] else [])
      else if isdir w d then [base] else [])"

text \<open>
  \<open>glob._iglob\<close> (not recursive, hidden names excluded): a pattern without magic is
  itself if it exists; otherwise the directory part is globbed first (for
  directories only) when it has magic, and each name of the last part is joined
  to each directory found.
\<close>

function iglob :: "fsys \<Rightarrow> string \<Rightarrow> bool \<Rightarrow> string list" where
  "iglob w pathname dironly =
     (let (dirname, basename) = path_split pathname in
      if \<not> has_magic pathname then
        (if basename \<noteq> [] then (if lexists w pathname then [pathname] else [])
         else if isdir w dirname then [pathname] else [])
      else if dirname = [] then glob1 w [] basename dironly
      else
        let dirs = (if dirname \<noteq> pathname \<and> has_magic dirname then iglob w dirname True
                    else [dirname])
        in concat (map (\<lambda>d. map (path_join d)
                 (if has_magic basename then glob1 w d basename dironly else glob0 w d basename))
               dirs))"
  by pat_completeness auto
termination
proof (relation "measure (\<lambda>(w, p, d). length p)")
  fix w :: fsys and dironly :: bool and pathname dn bn :: string and x
  assume x: "x = path_split pathname" and split: "(dn, bn) = x"
    and "\<not> \<not> has_magic pathname" and "dn \<noteq> []" and ne: "dn \<noteq> pathname \<and> has_magic dn"
  define h where "h = take (length pathname - length (takeWhile (\<lambda>c. c \<noteq> CHR ''/'') (rev pathname))) pathname"
  have rtrim: "prefix (rstrip_slash h) h"
  proof
    show "h = rstrip_slash h @ rev (takeWhile (\<lambda>c. c = CHR ''/'') (rev h))"
      unfolding rstrip_slash_def rev_append [symmetric] takeWhile_dropWhile_id by simp
  qed
  from x split have "dn = fst (path_split pathname)" by (metis fst_conv)
  then have "dn = rstrip_slash h \<or> dn = h"
    by (simp add: path_split_def Let_def h_def)
  moreover have "prefix h pathname" unfolding h_def by (rule take_is_prefix)
  ultimately have "prefix dn pathname" using rtrim by (auto intro: prefix_order.trans)
  with ne have "length dn < length pathname"
    using prefix_length_less [of dn pathname] by (simp add: strict_prefix_def)
  then show "((w, dn, True), (w, pathname, dironly)) \<in> measure (\<lambda>(w, p, d). length p)" by simp
qed simp

text \<open>\<open>glob.glob(pathname)\<close>.\<close>

definition glob :: "fsys \<Rightarrow> string \<Rightarrow> string list" where
  "glob w pathname = iglob w pathname False"

section \<open>Matching a pattern of literals and one star\<close>

lemma pmatch_lits:
  "pmatch (map PLit xs @ ps) s \<longleftrightarrow> (\<exists>t. s = xs @ t \<and> pmatch ps t)"
proof (induction xs arbitrary: s)
  case Nil
  then show ?case by simp
next
  case (Cons x xs)
  then show ?case by (cases s) auto
qed

lemma pmatch_star_lits: "pmatch (PStar # map PLit ys) s \<longleftrightarrow> suffix ys s"
proof (induction s)
  case Nil
  then show ?case using pmatch_lits [of ys "[]" "[]"] by simp
next
  case (Cons c s)
  then show ?case using pmatch_lits [of ys "[]" "c # s"] by (auto simp add: suffix_Cons)
qed

lemma fnmatch_job_iff: "fnmatch n ''job-*.json'' \<longleftrightarrow> (\<exists>m. n = ''job-'' @ m @ ''.json'')"
proof -
  have tr: "fn_translate ''job-*.json'' = map PLit ''job-'' @ PStar # map PLit ''.json''"
    by simp
  show ?thesis
    unfolding fnmatch_def tr pmatch_lits pmatch_star_lits suffix_def by auto
qed

section \<open>Splitting and globbing a path\<close>

lemma set_rstrip_slash: "set (rstrip_slash s) \<subseteq> set s"
  by (auto simp add: rstrip_slash_def dest: set_dropWhileD)

lemma rstrip_slash_snoc [simp]: "rstrip_slash (a @ ''/'') = rstrip_slash a"
  by (simp add: rstrip_slash_def)

lemma rstrip_slash_last:
  assumes "\<exists>c \<in> set s. c \<noteq> CHR ''/''"
  shows "rstrip_slash s \<noteq> [] \<and> last (rstrip_slash s) \<noteq> CHR ''/''"
proof -
  from assms have ne: "dropWhile (\<lambda>c. c = CHR ''/'') (rev s) \<noteq> []"
    by (simp add: dropWhile_eq_Nil_conv)
  then have "hd (dropWhile (\<lambda>c. c = CHR ''/'') (rev s)) \<noteq> CHR ''/''"
    using hd_dropWhile by blast
  with ne show ?thesis by (simp add: rstrip_slash_def last_rev)
qed

lemma path_split_snoc:
  assumes "CHR ''/'' \<notin> set b"
  shows "path_split (a @ CHR ''/'' # b) =
           (if \<exists>c \<in> set a. c \<noteq> CHR ''/'' then rstrip_slash a else a @ ''/'', b)"
proof -
  have "takeWhile (\<lambda>c. c \<noteq> CHR ''/'') (rev b @ CHR ''/'' # rev a) = rev b"
    using assms by (subst takeWhile_append2) auto
  then have "takeWhile (\<lambda>c. c \<noteq> CHR ''/'') (rev (a @ CHR ''/'' # b)) = rev b"
    by simp
  then show ?thesis
    by (simp add: path_split_def Let_def)
qed

text \<open>A pattern whose directory part has no magic lists that one directory.\<close>

lemma glob_literal_dir:
  assumes "path_split p = (d, b)" and "has_magic p" and "has_magic b"
    and "\<not> has_magic d" and "d \<noteq> []"
  shows "glob w p = map (path_join d) (glob1 w d b False)"
  unfolding glob_def by (subst iglob.simps) (simp add: assms del: iglob.simps)

lemma glob1_job:
  "glob1 w d ''job-*.json'' False = filter (\<lambda>n. fnmatch n ''job-*.json'') (listdir w d False)"
  by (auto simp add: glob1_def is_hidden_def fnmatch_job_iff intro: filter_cong)

text \<open>
  The pattern of \<open>load_job_data\<close>: when the job id has no magic character, the
  directory part is taken literally and the result lists, in directory order, the
  names of the form \<open>job-*.json\<close> of \<open>logs/<job_id>\<close> joined to it.
\<close>

lemma glob_job_files:
  assumes "\<not> has_magic jid"
  shows "glob w (''logs/'' @ jid @ ''/job-*.json'') =
           map (\<lambda>n. rstrip_slash (''logs/'' @ jid) @ ''/'' @ n)
             (filter (\<lambda>n. fnmatch n ''job-*.json'') (listdir w (rstrip_slash (''logs/'' @ jid)) False))"
proof -
  define d where "d = rstrip_slash (''logs/'' @ jid)"
  have split: "path_split (''logs/'' @ jid @ ''/job-*.json'') = (d, ''job-*.json'')"
    using path_split_snoc [of "''job-*.json''" "''logs/'' @ jid"] by (simp add: d_def)
  have nomagic: "\<not> has_magic d"
    using assms set_rstrip_slash [of "''logs/'' @ jid"] by (auto simp add: has_magic_def d_def)
  have d: "d \<noteq> []" "last d \<noteq> CHR ''/''"
    using rstrip_slash_last [of "''logs/'' @ jid"] by (auto simp add: d_def)
  have "glob w (''logs/'' @ jid @ ''/job-*.json'') = map (path_join d) (glob1 w d ''job-*.json'' False)"
    by (rule glob_literal_dir [OF split _ _ nomagic d(1)]) (simp_all add: has_magic_def)
  also have "\<dots> = map (\<lambda>n. d @ ''/'' @ n) (filter (\<lambda>n. fnmatch n ''job-*.json'') (listdir w d False))"
    by (auto simp add: glob1_job path_join_def d fnmatch_job_iff)
  finally show ?thesis unfolding d_def .
qed

section \<open>Globbing through a directory pattern\<close>

lemma rstrip_slash_id: "s \<noteq> [] \<Longrightarrow> last s \<noteq> CHR ''/'' \<Longrightarrow> rstrip_slash s = s"
  by (cases s rule: rev_cases) (simp_all add: rstrip_slash_def)

lemma iglob_literal_dir:
  assumes "path_split p = (d, b)" and "has_magic p" and "has_magic b"
    and "\<not> has_magic d" and "d \<noteq> []"
  shows "iglob w p dironly = map (path_join d) (glob1 w d b dironly)"
  by (subst iglob.simps) (simp add: assms del: iglob.simps)

text \<open>A pattern whose directory part has magic globs that part first, for directories only.\<close>

lemma iglob_magic_dir:
  assumes "path_split p = (d, b)" and "has_magic p" and "has_magic b" and "has_magic d"
    and "d \<noteq> []" and "d \<noteq> p"
  shows "iglob w p dironly = concat (map (\<lambda>D. map (path_join D) (glob1 w D b dironly)) (iglob w d True))"
  by (subst iglob.simps) (simp add: assms del: iglob.simps)

text \<open>
  The pattern of \<open>load_job_data\<close> for a job id with magic and without \<open>/\<close>: the job
  id is matched against the subdirectories of \<open>logs\<close>, and the record names of
  every directory it matches are listed.
\<close>

lemma glob_job_files_magic:
  assumes "has_magic jid" and "CHR ''/'' \<notin> set jid"
  shows "glob w (''logs/'' @ jid @ ''/job-*.json'') =
           concat (map (\<lambda>D. map (path_join D) (filter (\<lambda>n. fnmatch n ''job-*.json'') (listdir w D False)))
             (map (path_join ''logs'') (glob1 w ''logs'' jid True)))"
proof -
  define L where "L = ''logs/'' @ jid"
  have ne: "jid \<noteq> []" using assms(1) by (auto simp add: has_magic_def)
  with assms(2) have last: "last jid \<noteq> CHR ''/''" using last_in_set by fastforce
  have L: "rstrip_slash L = L" unfolding L_def using ne last by (intro rstrip_slash_id) simp_all
  have s1: "path_split (L @ CHR ''/'' # ''job-*.json'') = (L, ''job-*.json'')"
    using path_split_snoc [of "''job-*.json''" L] L by (simp add: L_def)
  have s2: "path_split (''logs'' @ CHR ''/'' # jid) = (''logs'', jid)"
    using path_split_snoc [of jid "''logs''"] assms(2) by (simp add: rstrip_slash_def)
  have "iglob w L True = map (path_join ''logs'') (glob1 w ''logs'' jid True)"
    using s2 assms(1) unfolding L_def
    by (intro iglob_literal_dir) (simp_all add: has_magic_def)
  moreover have "glob w (L @ CHR ''/'' # ''job-*.json'') =
      concat (map (\<lambda>D. map (path_join D) (glob1 w D ''job-*.json'' False)) (iglob w L True))"
    unfolding glob_def using s1 assms(1)
    by (intro iglob_magic_dir) (auto simp add: has_magic_def L_def)
  ultimately show ?thesis by (simp add: L_def glob1_job)
qed

section \<open>Resolving a path through \<open>..\<close>\<close>

lemma path_comps_ne [simp]: "path_comps s \<noteq> []"
  by (induction s) (simp_all add: Let_def)

lemma path_comps_append: "path_comps (a @ CHR ''/'' # b) = path_comps a @ path_comps b"
  by (induction a) (simp_all add: Let_def)

text \<open>When \<open>logs\<close> is a directory, \<open>logs/../p\<close> resolves as \<open>p\<close> does.\<close>

lemma resolve_logs_parent:
  assumes "isdir w ''logs''" and "p \<noteq> []" and "hd p \<noteq> CHR ''/''"
  shows "resolve w (''logs/../'' @ p) = resolve w p"
proof -
  obtain es where es: "node_at (fs_root w) (fs_cwd w @ [''logs'']) = Some (Dir es)"
    using assms(1) by (auto simp add: isdir_def resolve_def split: option.splits fs_node.splits sum.splits)
  have eq: "''logs/../'' @ p = ''logs'' @ CHR ''/'' # ''..'' @ CHR ''/'' # p" by simp
  have "path_comps (''logs/../'' @ p) = ''logs'' # ''..'' # path_comps p"
    unfolding eq path_comps_append by simp
  then show ?thesis using es assms(2,3) by (simp add: resolve_def)
qed

end
