(* ===== verification/Loader.thy ===== *)
theory Loader
  imports FileSys
begin

text \<open>
  The Record Loader: \<open>load_job_data\<close> and \<open>load_index_entry\<close> of
  \<open>evaluators.py\<close>. Both read the file system of theory \<open>FileSys\<close> and decode JSON
  through a \<^typ>\<open>json_decoder\<close>, the interface to \<open>json.loads\<close>: it gives the
  document or the message of the \<open>JSONDecodeError\<close> it raises. Each loader, applied
  to a decoder and a file system, is a \<open>loader\<close> of theory \<open>Metrics\<close>.
\<close>

section \<open>Decoding\<close>

definition decode_json :: "json_decoder \<Rightarrow> string \<Rightarrow> py_exc + json" where
  "decode_json dec s = (case dec s of Inl m \<Rightarrow> Inl (JSONDecodeError m) | Inr j \<Rightarrow> Inr j)"

section \<open>The most recent record of a job\<close>

text \<open>
  Lines 29--41: \<open>glob.glob(f"{job_dir}/job-*.json")\<close>, \<open>FileNotFoundError\<close> when
  nothing matches, else \<open>max\<close> of the paths, opened in text mode (universal
  newlines) and given to \<open>json.load\<close>.
\<close>

definition load_job_data :: "json_decoder \<Rightarrow> fsys \<Rightarrow> string \<Rightarrow> py_exc + json" where
  "load_job_data dec w job_id =
     (let job_dir = ''logs/'' @ job_id;
          job_files = glob w (job_dir @ ''/job-*.json'')
      in if job_files = [] then Inl (FileNotFoundError (''No job files found for '' @ job_id))
         else
           let latest_job_file = py_max_from (hd job_files) (tl job_files)
           in py_bind (read_file w latest_job_file) (\<lambda>text.
              decode_json dec (py_univ_newlines text)))"

section \<open>The index entry of a job\<close>

definition index_path :: string where
  "index_path = ''data/index.jsonl''"

text \<open>
  Lines 50--55: the loop over the lines of the index. Each line is stripped and
  decoded; a line that does not decode, or decodes to something without \<open>get\<close>,
  ends the scan with its exception; the first entry whose \<open>job_id\<close> equals the
  requested one is returned; after the last line, \<open>ValueError\<close>.
\<close>

fun scan_index :: "json_decoder \<Rightarrow> string \<Rightarrow> string list \<Rightarrow> py_exc + json" where
  "scan_index dec job_id [] = Inl (ValueError (''Job ID '' @ job_id @ '' not found in index''))"
| "scan_index dec job_id (line # lines) =
     py_bind (decode_json dec (py_strip line)) (\<lambda>entry.
     py_bind (py_get entry ''job_id'' JNull) (\<lambda>v.
     if v = JStr job_id then Inr entry else scan_index dec job_id lines))"

text \<open>
  Lines 43--55. \<open>os.path.exists\<close> follows symbolic links; the model has none, so it
  is \<^const>\<open>lexists\<close>.
\<close>

definition load_index_entry :: "json_decoder \<Rightarrow> fsys \<Rightarrow> string \<Rightarrow> py_exc + json" where
  "load_index_entry dec w job_id =
     (if \<not> lexists w index_path
      then Inl (FileNotFoundError ''No index.jsonl found. Run extract-for-eval first.'')
      else py_bind (read_file w index_path) (\<lambda>text.
           scan_index dec job_id (py_file_lines text)))"

section \<open>The job directory and its record files\<close>

text \<open>
  The names of \<open>logs/<job_id>\<close> that \<open>job-*.json\<close> matches, in directory order,
  and the directory as \<open>glob\<close> writes it.
\<close>

definition job_dir_path :: "string \<Rightarrow> string" where
  "job_dir_path jid = rstrip_slash (''logs/'' @ jid)"

definition job_names :: "fsys \<Rightarrow> string \<Rightarrow> string list" where
  "job_names w jid = filter (\<lambda>n. fnmatch n ''job-*.json'') (listdir w (job_dir_path jid) False)"

section \<open>Lines the index scan passes or returns\<close>

text \<open>A line the scan passes: it decodes to a dict whose \<open>job_id\<close> is another.\<close>

definition skipped_line :: "json_decoder \<Rightarrow> string \<Rightarrow> string \<Rightarrow> bool" where
  "skipped_line dec jid l =
     (case decode_json dec (py_strip l) of
        Inr (JObj kvs) \<Rightarrow> dict_get kvs ''job_id'' JNull \<noteq> JStr jid
      | _ \<Rightarrow> False)"

definition matching_line :: "json_decoder \<Rightarrow> string \<Rightarrow> string \<Rightarrow> json \<Rightarrow> bool" where
  "matching_line dec jid l e =
     (case decode_json dec (py_strip l) of
        Inr (JObj kvs) \<Rightarrow> dict_get kvs ''job_id'' JNull = JStr jid \<and> e = JObj kvs
      | _ \<Rightarrow> False)"

section \<open>An index as the extraction pipeline writes it\<close>

text \<open>
  The index is written outside this repository, one JSON document per line. Given
  an encoder \<open>enc\<close>, the text of the index of a list of entries, and the lines an
  encoder must produce: not empty, without line breaks, without white space at
  either end (as \<open>json.dumps\<close> and \<open>JSON.stringify\<close> produce).
\<close>

definition index_text :: "(json \<Rightarrow> string) \<Rightarrow> json list \<Rightarrow> string" where
  "index_text enc entries = concat (map (\<lambda>e. enc e @ [CHR 0x0A]) entries)"

definition line_ok :: "string \<Rightarrow> bool" where
  "line_ok s =
     (s \<noteq> [] \<and> CHR 0x0A \<notin> set s \<and> CHR 0x0D \<notin> set s \<and> \<not> py_isspace (hd s) \<and> \<not> py_isspace (last s))"

section \<open>Inputs of the examples\<close>

text \<open>
  A working directory with two records of job \<open>42\<close> and a file that is not a
  record, and an index of three lines, the last a second entry for \<open>42\<close>. The
  decoder is the table of what \<open>json.loads\<close> gives for these texts.
\<close>

definition example_record_old :: string where
  \<open>example_record_old = ''{"title": "Eng"}''\<close>

definition example_record_new :: string where
  \<open>example_record_new = ''{"description": "We need a Python expert.", "title": "Eng"}''\<close>

definition example_index :: string where
  \<open>example_index =
     ''{"job_id": "7", "required_terms": []}'' @ [CHR 0x0A] @
     ''{"job_id": "42", "required_terms": ["python", "leadership"]}'' @ [CHR 0x0A] @
     ''{"job_id": "42", "required_terms": ["go"]}'' @ [CHR 0x0A]\<close>

definition example_fs :: fsys where
  "example_fs =
     \<lparr>fs_root = Dir [
        (''logs'', Dir [(''42'', Dir [(''job-20240101.json'', File example_record_old),
                                      (''notes.txt'', File []),
                                      (''job-20240215.json'', File example_record_new)])]),
        (''data'', Dir [(''index.jsonl'', File example_index)])],
      fs_cwd = []\<rparr>"

definition example_docs :: "(string \<times> json) list" where
  \<open>example_docs =
     [(''{"title": "Eng"}'', JObj [(''title'', JStr ''Eng'')]),
      (''{"description": "We need a Python expert.", "title": "Eng"}'',
        JObj [(''description'', JStr ''We need a Python expert.''), (''title'', JStr ''Eng'')]),
      (''{"job_id": "7", "required_terms": []}'',
        JObj [(''job_id'', JStr ''7''), (''required_terms'', JArr [])]),
      (''{"job_id": "42", "required_terms": ["python", "leadership"]}'',
        JObj [(''job_id'', JStr ''42''), (''required_terms'', JArr [JStr ''python'', JStr ''leadership''])]),
      (''{"job_id": "42", "required_terms": ["go"]}'',
        JObj [(''job_id'', JStr ''42''), (''required_terms'', JArr [JStr ''go''])])]\<close>

text \<open>A working directory with a directory \<open>secret\<close> beside \<open>logs\<close>.\<close>

definition example_fs_escape :: fsys where
  "example_fs_escape =
     \<lparr>fs_root = Dir [(''logs'', Dir []), (''secret'', Dir [(''job-1.json'', File example_record_old)])],
      fs_cwd = []\<rparr>"

text \<open>The encoder that wrote \<^const>\<open>example_index\<close>: the inverse of the table.\<close>

definition example_encoder :: "json \<Rightarrow> string" where
  "example_encoder e = (case find (\<lambda>(s, j). j = e) example_docs of Some (s, j) \<Rightarrow> s | None \<Rightarrow> [])"

definition example_decoder :: json_decoder where
  "example_decoder s =
     (case map_of example_docs s of Some j \<Rightarrow> Inr j
      | None \<Rightarrow> Inl ''Expecting value: line 1 column 1 (char 0)'')"

section \<open>Which file \<open>load_job_data\<close> reads\<close>

text \<open>
  For a job id without magic characters, \<open>load_job_data\<close> reads the greatest name
  matching \<open>job-*.json\<close> in the job's directory, whatever the order of the
  directory.
\<close>

lemma load_job_data_names:
  assumes "\<not> has_magic jid"
  shows "load_job_data dec w jid =
           (if job_names w jid = [] then Inl (FileNotFoundError (''No job files found for '' @ jid))
            else py_bind (read_file w (job_dir_path jid @ ''/'' @ Max (set (job_names w jid))))
                   (\<lambda>text. decode_json dec (py_univ_newlines text)))"
proof -
  let ?ns = "job_names w jid" and ?d = "job_dir_path jid @ ''/''"
  have g: "glob w (''logs/'' @ jid @ ''/job-*.json'') = map (\<lambda>n. ?d @ n) ?ns"
    using glob_job_files [OF assms] by (simp add: job_names_def job_dir_path_def)
  show ?thesis
  proof (cases "?ns = []")
    case False
    then have "Max (set (map (\<lambda>n. ?d @ n) ?ns)) = ?d @ Max (set ?ns)"
      using Max_append_left [of "set ?ns" ?d] by simp
    with False show ?thesis
      unfolding load_job_data_def Let_def append_assoc g by (simp add: py_max_from_list)
  qed (unfold load_job_data_def Let_def append_assoc g, simp)
qed

section \<open>Which entry \<open>load_index_entry\<close> returns\<close>

text \<open>
  The scan returns an entry exactly when the lines are some skipped lines, then a
  line that decodes to a dict with the requested \<open>job_id\<close>, which is that entry.
\<close>

lemma scan_index_Inr:
  "scan_index dec jid ls = Inr e \<longleftrightarrow>
     (\<exists>pre l post. ls = pre @ l # post \<and> list_all (skipped_line dec jid) pre \<and> matching_line dec jid l e)"
proof (induction ls)
  case Nil
  then show ?case by simp
next
  case (Cons l ls)
  show ?case
  proof (cases "decode_json dec (py_strip l)")
    case (Inl x)
    then show ?thesis
      unfolding Cons_first_hit by (simp add: skipped_line_def matching_line_def)
  next
    case (Inr j)
    then show ?thesis
      unfolding Cons_first_hit Cons.IH [symmetric]
      by (cases j) (auto simp add: skipped_line_def matching_line_def)
  qed
qed

lemma scan_index_skipped:
  "list_all (skipped_line dec jid) ls \<Longrightarrow>
     scan_index dec jid ls = Inl (ValueError (''Job ID '' @ jid @ '' not found in index''))"
proof (induction ls)
  case Nil
  then show ?case by simp
next
  case (Cons l ls)
  then obtain kvs where "decode_json dec (py_strip l) = Inr (JObj kvs)"
    and "dict_get kvs ''job_id'' JNull \<noteq> JStr jid"
    by (auto simp add: skipped_line_def split: sum.splits json.splits)
  with Cons show ?case by simp
qed

lemma read_file_lexists: "read_file w p = Inr t \<Longrightarrow> lexists w p"
  by (auto simp add: read_file_def lexists_def split: sum.splits path_err.splits)

lemma scan_index_not_FileNotFound: "scan_index dec jid ls \<noteq> Inl (FileNotFoundError m)"
proof (induction ls)
  case (Cons l ls)
  then show ?case
    by (cases "decode_json dec (py_strip l)")
      (auto simp add: decode_json_def py_bind_eq_Inl py_get_Inr split: sum.splits json.splits
        elim: py_get.elims)
qed simp

lemma read_file_not_index_message:
  "read_file w p \<noteq> Inl (FileNotFoundError ''No index.jsonl found. Run extract-for-eval first.'')"
  by (auto simp add: read_file_def py_repr_str_def split: sum.splits path_err.splits option.splits
      fs_node.splits)

section \<open>Reading back an index\<close>

lemma scan_index_encoded:
  assumes "\<forall>e\<in>set entries. decode_json dec (py_strip (enc e @ [CHR 0x0A])) = Inr e \<and> is_dict e"
  shows "scan_index dec jid (map (\<lambda>e. enc e @ [CHR 0x0A]) entries) =
           (case find (\<lambda>e. py_get e ''job_id'' JNull = Inr (JStr jid)) entries of
              Some e \<Rightarrow> Inr e
            | None \<Rightarrow> Inl (ValueError (''Job ID '' @ jid @ '' not found in index'')))"
  using assms
proof (induction entries)
  case Nil
  then show ?case by simp
next
  case (Cons e entries)
  then obtain kvs where e: "e = JObj kvs" by (cases e) auto
  with Cons show ?case by simp
qed

lemma index_text_lines:
  assumes "\<forall>e\<in>set entries. line_ok (enc e)"
  shows "py_file_lines (index_text enc entries) = map (\<lambda>e. enc e @ [CHR 0x0A]) entries"
proof -
  have "py_file_lines (concat (map (\<lambda>l. l @ [CHR 0x0A]) (map enc entries))) =
          map (\<lambda>l. l @ [CHR 0x0A]) (map enc entries)"
    using assms by (intro py_file_lines_terminated) (auto simp add: line_ok_def)
  then show ?thesis by (simp add: index_text_def comp_def)
qed

section \<open>Properties of the Record Loader\<close>

text \<open>
  C7: for a job id without glob magic and a job directory with at least one
  \<open>job-*.json\<close> name, \<open>load_job_data\<close> decodes the file with the lexicographically
  greatest such name, whatever the order of the directory.
\<close>

theorem load_job_data_latest:
  assumes "\<not> has_magic jid" and "job_names w jid \<noteq> []"
  shows "load_job_data dec w jid =
           py_bind (read_file w (job_dir_path jid @ ''/'' @ Max (set (job_names w jid))))
             (\<lambda>text. decode_json dec (py_univ_newlines text))"
  using load_job_data_names [OF assms(1)] assms(2) by simp

theorem load_job_data_latest_witness:
  "\<not> has_magic ''42'' \<and> job_names example_fs ''42'' \<noteq> [] \<and>
   load_job_data example_decoder example_fs ''42'' =
     py_bind (read_file example_fs (job_dir_path ''42'' @ ''/'' @ Max (set (job_names example_fs ''42''))))
       (\<lambda>text. decode_json example_decoder (py_univ_newlines text))"
proof -
  have h1: "\<not> has_magic ''42''" by code_simp
  have h2: "job_names example_fs ''42'' \<noteq> []" by code_simp
  show ?thesis by (intro conjI h1 h2 load_job_data_latest [OF h1 h2])
qed

text \<open>
  C8: for a job id without glob magic whose directory holds no \<open>job-*.json\<close> name
  (or does not exist), \<open>load_job_data\<close> raises \<open>FileNotFoundError\<close> with the message
  \<open>No job files found for <job_id>\<close>.
\<close>

theorem load_job_data_no_files:
  assumes "\<not> has_magic jid" and "job_names w jid = []"
  shows "load_job_data dec w jid = Inl (FileNotFoundError (''No job files found for '' @ jid))"
  using load_job_data_names [OF assms(1)] assms(2) by simp

theorem load_job_data_no_files_witness:
  "\<not> has_magic ''7'' \<and> job_names example_fs ''7'' = [] \<and>
   load_job_data example_decoder example_fs ''7'' = Inl (FileNotFoundError (''No job files found for '' @ ''7''))"
proof -
  have h1: "\<not> has_magic ''7''" by code_simp
  have h2: "job_names example_fs ''7'' = []" by code_simp
  show ?thesis by (intro conjI h1 h2 load_job_data_no_files [OF h1 h2])
qed

text \<open>
  C9: when the index can be read, \<open>load_index_entry\<close> returns an entry exactly when
  some line decodes to a dict with the requested \<open>job_id\<close> and every line before it
  decodes to a dict with another \<open>job_id\<close>; the entry is that first matching line's.
  A later duplicate is never returned.
\<close>

theorem load_index_entry_first:
  assumes "read_file w index_path = Inr text"
  shows "load_index_entry dec w jid = Inr e \<longleftrightarrow>
           (\<exists>pre l post. py_file_lines text = pre @ l # post \<and>
              list_all (skipped_line dec jid) pre \<and> matching_line dec jid l e)"
  using assms read_file_lexists [OF assms] by (simp add: load_index_entry_def scan_index_Inr)

theorem load_index_entry_first_witness:
  "read_file example_fs index_path = Inr example_index \<and>
   load_index_entry example_decoder example_fs ''42'' =
     Inr (JObj [(''job_id'', JStr ''42''), (''required_terms'', JArr [JStr ''python'', JStr ''leadership''])]) \<and>
   (\<exists>pre l post. py_file_lines example_index = pre @ l # post \<and>
      list_all (skipped_line example_decoder ''42'') pre \<and>
      matching_line example_decoder ''42'' l
        (JObj [(''job_id'', JStr ''42''), (''required_terms'', JArr [JStr ''python'', JStr ''leadership''])]))"
proof -
  have h: "read_file example_fs index_path = Inr example_index" by code_simp
  have r: "load_index_entry example_decoder example_fs ''42'' =
     Inr (JObj [(''job_id'', JStr ''42''), (''required_terms'', JArr [JStr ''python'', JStr ''leadership''])])"
    by code_simp
  show ?thesis by (intro conjI h r) (simp only: load_index_entry_first [OF h, symmetric] r)
qed

text \<open>
  C10: when the index can be read and every line of it decodes to a dict with
  another \<open>job_id\<close>, \<open>load_index_entry\<close> raises \<open>ValueError\<close> with the message
  \<open>Job ID <job_id> not found in index\<close>.
\<close>

theorem load_index_entry_not_found:
  assumes "read_file w index_path = Inr text"
    and "list_all (skipped_line dec jid) (py_file_lines text)"
  shows "load_index_entry dec w jid = Inl (ValueError (''Job ID '' @ jid @ '' not found in index''))"
  using assms read_file_lexists [OF assms(1)] by (simp add: load_index_entry_def scan_index_skipped)

theorem load_index_entry_not_found_witness:
  "read_file example_fs index_path = Inr example_index \<and>
   list_all (skipped_line example_decoder ''9'') (py_file_lines example_index) \<and>
   load_index_entry example_decoder example_fs ''9'' = Inl (ValueError (''Job ID '' @ ''9'' @ '' not found in index''))"
proof -
  have h1: "read_file example_fs index_path = Inr example_index" by code_simp
  have h2: "list_all (skipped_line example_decoder ''9'') (py_file_lines example_index)" by code_simp
  show ?thesis by (intro conjI h1 h2 load_index_entry_not_found [OF h1 h2])
qed

text \<open>
  C11: \<open>load_index_entry\<close> raises \<open>FileNotFoundError\<close> with the message
  \<open>No index.jsonl found. Run extract-for-eval first.\<close> exactly when
  \<open>data/index.jsonl\<close> does not exist: no other failure, reading or scanning the
  index, gives that message.
\<close>

theorem load_index_entry_missing_index:
  "load_index_entry dec w jid = Inl (FileNotFoundError ''No index.jsonl found. Run extract-for-eval first.'')
     \<longleftrightarrow> \<not> lexists w index_path"
  by (auto simp add: load_index_entry_def py_bind_eq_Inl read_file_not_index_message
      scan_index_not_FileNotFound)

text \<open>
  C12: the job id is put into the glob pattern unescaped. For a job id with a glob
  character (and no \<open>/\<close>), the job id is matched as a pattern against the
  subdirectories of \<open>logs\<close>, and \<open>load_job_data\<close> reads the greatest record path
  among the \<open>job-*.json\<close> files of all the directories it matches: \<open>*\<close> reads the
  latest record of some other job.
\<close>

theorem load_job_data_glob_injection:
  assumes "has_magic jid" and "CHR ''/'' \<notin> set jid"
  shows "load_job_data dec w jid =
           (let files = concat (map (\<lambda>D. map (path_join D)
                          (filter (\<lambda>n. fnmatch n ''job-*.json'') (listdir w D False)))
                          (map (path_join ''logs'') (glob1 w ''logs'' jid True)))
            in if files = [] then Inl (FileNotFoundError (''No job files found for '' @ jid))
               else py_bind (read_file w (Max (set files))) (\<lambda>text. decode_json dec (py_univ_newlines text)))"
proof -
  define files where "files = concat (map (\<lambda>D. map (path_join D)
                          (filter (\<lambda>n. fnmatch n ''job-*.json'') (listdir w D False)))
                          (map (path_join ''logs'') (glob1 w ''logs'' jid True)))"
  have g: "glob w (''logs/'' @ jid @ ''/job-*.json'') = files"
    unfolding files_def by (rule glob_job_files_magic [OF assms])
  show ?thesis
    unfolding files_def [symmetric] Let_def load_job_data_def append_assoc g
    by (simp add: py_max_from_list)
qed

theorem load_job_data_glob_injection_witness:
  "load_job_data example_decoder example_fs ''4*'' =
     (let files = concat (map (\<lambda>D. map (path_join D)
                    (filter (\<lambda>n. fnmatch n ''job-*.json'') (listdir example_fs D False)))
                    (map (path_join ''logs'') (glob1 example_fs ''logs'' ''4*'' True)))
      in if files = [] then Inl (FileNotFoundError (''No job files found for '' @ ''4*''))
         else py_bind (read_file example_fs (Max (set files)))
                (\<lambda>text. decode_json example_decoder (py_univ_newlines text)))"
proof -
  have h1: "has_magic ''4*''" and h2: "CHR ''/'' \<notin> set ''4*''" by code_simp+
  show ?thesis by (rule load_job_data_glob_injection [OF h1 h2])
qed

text \<open>
  C13: a job id \<open>../d\<close> leaves \<open>logs\<close>: when \<open>logs\<close> is a directory, the record
  names \<open>load_job_data\<close> chooses from are those of the directory \<open>d\<close> beside
  \<open>logs\<close>, and the path it opens resolves to that directory's file.
\<close>

theorem load_job_data_path_traversal:
  assumes "\<not> has_magic d" and "d \<noteq> []" and "CHR ''/'' \<notin> set d" and "isdir w ''logs''"
  shows "job_names w (''../'' @ d) = filter (\<lambda>n. fnmatch n ''job-*.json'') (listdir w d False) \<and>
         load_job_data dec w (''../'' @ d) =
           (if job_names w (''../'' @ d) = []
            then Inl (FileNotFoundError (''No job files found for '' @ ''../'' @ d))
            else py_bind (read_file w (''logs/../'' @ d @ ''/'' @ Max (set (job_names w (''../'' @ d)))))
                   (\<lambda>text. decode_json dec (py_univ_newlines text))) \<and>
         (\<forall>n. resolve w (''logs/../'' @ d @ ''/'' @ n) = resolve w (d @ ''/'' @ n))"
proof -
  have hd: "hd d \<noteq> CHR ''/''" using assms(2,3) hd_in_set by fastforce
  have last: "last d \<noteq> CHR ''/''" using assms(2,3) last_in_set by fastforce
  have "rstrip_slash (''logs/../'' @ d) = ''logs/../'' @ d"
    using assms(2) last by (intro rstrip_slash_id) simp_all
  then have dir: "job_dir_path (''../'' @ d) = ''logs/../'' @ d" by (simp add: job_dir_path_def)
  have ld: "listdir w (''logs/../'' @ d) False = listdir w d False"
    using resolve_logs_parent [OF assms(4) assms(2) hd] assms(2) by (simp add: listdir_def)
  have names: "job_names w (''../'' @ d) = filter (\<lambda>n. fnmatch n ''job-*.json'') (listdir w d False)"
    unfolding job_names_def dir ld ..
  have nomagic: "\<not> has_magic (''../'' @ d)" using assms(1) by (simp add: has_magic_def)
  have res: "resolve w (''logs/../'' @ d @ ''/'' @ n) = resolve w (d @ ''/'' @ n)" for n
    using resolve_logs_parent [OF assms(4), of "d @ ''/'' @ n"] assms(2) hd by simp
  show ?thesis
    by (intro conjI names allI res load_job_data_names [OF nomagic, of dec w, unfolded dir append_assoc])
qed

theorem load_job_data_path_traversal_witness:
  "job_names example_fs_escape (''../'' @ ''secret'') =
     filter (\<lambda>n. fnmatch n ''job-*.json'') (listdir example_fs_escape ''secret'' False) \<and>
   load_job_data example_decoder example_fs_escape (''../'' @ ''secret'') =
     (if job_names example_fs_escape (''../'' @ ''secret'') = []
      then Inl (FileNotFoundError (''No job files found for '' @ ''../'' @ ''secret''))
      else py_bind (read_file example_fs_escape (''logs/../'' @ ''secret'' @ ''/'' @
                     Max (set (job_names example_fs_escape (''../'' @ ''secret'')))))
             (\<lambda>text. decode_json example_decoder (py_univ_newlines text))) \<and>
   (\<forall>n. resolve example_fs_escape (''logs/../'' @ ''secret'' @ ''/'' @ n) =
        resolve example_fs_escape (''secret'' @ ''/'' @ n))"
proof -
  have h1: "\<not> has_magic ''secret''" and h2: "''secret'' \<noteq> []" and h3: "CHR ''/'' \<notin> set ''secret''"
    and h4: "isdir example_fs_escape ''logs''"
    by code_simp+
  show ?thesis by (rule load_job_data_path_traversal [OF h1 h2 h3 h4])
qed

text \<open>
  C23: an index written by an encoder that the decoder inverts, one dict per line,
  reads back: \<open>load_index_entry\<close> returns the first entry written with the requested
  \<open>job_id\<close>, and raises \<open>ValueError\<close> when no entry has it.
\<close>

theorem index_roundtrip:
  assumes "\<forall>e\<in>set entries. dec (enc e) = Inr e \<and> line_ok (enc e) \<and> is_dict e"
    and "read_file w index_path = Inr (index_text enc entries)"
  shows "load_index_entry dec w jid =
           (case find (\<lambda>e. py_get e ''job_id'' JNull = Inr (JStr jid)) entries of
              Some e \<Rightarrow> Inr e
            | None \<Rightarrow> Inl (ValueError (''Job ID '' @ jid @ '' not found in index'')))"
proof -
  have "\<forall>e\<in>set entries. decode_json dec (py_strip (enc e @ [CHR 0x0A])) = Inr e \<and> is_dict e"
    using assms(1) by (auto simp add: py_strip_line line_ok_def decode_json_def)
  moreover have "py_file_lines (index_text enc entries) = map (\<lambda>e. enc e @ [CHR 0x0A]) entries"
    using assms(1) by (intro index_text_lines) simp
  ultimately show ?thesis
    using assms(2) read_file_lexists [OF assms(2)] scan_index_encoded
    by (simp add: load_index_entry_def)
qed

theorem index_roundtrip_witness:
  "load_index_entry example_decoder example_fs ''42'' =
     Inr (JObj [(''job_id'', JStr ''42''), (''required_terms'', JArr [JStr ''python'', JStr ''leadership''])])"
proof -
  define es where "es = [JObj [(''job_id'', JStr ''7''), (''required_terms'', JArr [])],
     JObj [(''job_id'', JStr ''42''), (''required_terms'', JArr [JStr ''python'', JStr ''leadership''])],
     JObj [(''job_id'', JStr ''42''), (''required_terms'', JArr [JStr ''go''])]]"
  have h1: "\<forall>e\<in>set es. example_decoder (example_encoder e) = Inr e \<and> line_ok (example_encoder e) \<and> is_dict e"
    unfolding es_def by code_simp
  have h2: "read_file example_fs index_path = Inr (index_text example_encoder es)"
    unfolding es_def by code_simp
  have h3: "find (\<lambda>e. py_get e ''job_id'' JNull = Inr (JStr ''42'')) es =
              Some (JObj [(''job_id'', JStr ''42''), (''required_terms'', JArr [JStr ''python'', JStr ''leadership''])])"
    unfolding es_def by code_simp
  show ?thesis using index_roundtrip [OF h1 h2, of "''42''"] h3 by simp
qed

end
