(* ===== verification/Setup.thy ===== *)
theory Setup
  imports Prelude
begin

text \<open>
  The LangSmith setup check, \<open>check_langsmith_setup\<close> of \<open>evaluators.py\<close> (lines
  110--131). Its inputs are the environment the module sees: whether the
  \<open>langsmith\<close> import succeeded (\<open>LANGSMITH_AVAILABLE\<close>, lines 22--27), the value of
  \<open>LANGSMITH_API_KEY\<close>, and what \<open>Client(api_key=k).list_datasets(limit=1)\<close> does for
  a key \<open>k\<close>: return, or raise an exception whose \<open>str\<close> is given. Its output is the
  list of lines it prints and the boolean it returns. The lines start with an emoji,
  a code point outside the characters of the model, so each printed line is a
  constructor of \<open>setup_msg\<close>.
\<close>

record ls_env =
  langsmith_available :: bool
  langsmith_api_key :: "string option"
  list_datasets :: "string \<Rightarrow> string + unit"

datatype setup_msg =
    NotAvailableMsg
  | ApiKeyMissingMsg
  | AddApiKeyHintMsg
  | ConnectedMsg
  | ConnectionFailedMsg string
  | CheckApiKeyHintMsg

text \<open>
  Each early \<open>return False\<close> is a branch; \<open>if not api_key\<close> is false for a missing
  variable and for an empty one; every exception of the connection test is caught
  and printed.
\<close>

definition check_langsmith_setup :: "ls_env \<Rightarrow> setup_msg list \<times> bool" where
  "check_langsmith_setup env =
     (if \<not> langsmith_available env then ([NotAvailableMsg], False)
      else case langsmith_api_key env of
        None \<Rightarrow> ([ApiKeyMissingMsg, AddApiKeyHintMsg], False)
      | Some api_key \<Rightarrow>
          if api_key = [] then ([ApiKeyMissingMsg, AddApiKeyHintMsg], False)
          else case list_datasets env api_key of
                 Inr u \<Rightarrow> ([ConnectedMsg], True)
               | Inl e \<Rightarrow> ([ConnectionFailedMsg e, CheckApiKeyHintMsg], False))"

text \<open>
  An environment is ready when the package is installed, the key is set and not
  empty, and the connection test with that key succeeds.
\<close>

definition ls_ready :: "ls_env \<Rightarrow> bool" where
  "ls_ready env =
     (langsmith_available env \<and>
      (case langsmith_api_key env of
         None \<Rightarrow> False
       | Some k \<Rightarrow> k \<noteq> [] \<and> list_datasets env k = Inr ()))"

section \<open>Inputs of the examples\<close>

definition example_env :: ls_env where
  "example_env = \<lparr>langsmith_available = True, langsmith_api_key = Some ''lsv2_key'',
     list_datasets = (\<lambda>k. if k = ''lsv2_key'' then Inr () else Inl ''401 Unauthorized'')\<rparr>"

section \<open>Properties of the setup check\<close>

text \<open>
  C14: the setup check returns \<open>True\<close> exactly when the environment is ready, and
  then it prints exactly the success line; otherwise it returns \<open>False\<close> and never
  prints the success line.
\<close>

theorem check_langsmith_setup_iff_ready:
  "snd (check_langsmith_setup env) = ls_ready env \<and>
   (ConnectedMsg \<in> set (fst (check_langsmith_setup env)) \<longleftrightarrow> ls_ready env)"
  by (auto simp add: check_langsmith_setup_def ls_ready_def split: option.splits sum.splits)

end
