(* ===== verification/Batch.thy ===== *)
theory Batch
  imports Metrics Loader Setup
begin

text \<open>
  The batch driver, \<open>main\<close> of \<open>evaluators.py\<close> (lines 133--222): it runs the setup
  check, reads every job id of \<open>data/index.jsonl\<close>, evaluates the term quality and
  then the completeness of each job through the Record Loader, and summarises the
  successful reports. The model returns what the run computes: whether LangSmith
  is connected, the job ids, the two lists of reports in order, and the summary
  figures (exact quotients; the source prints them rounded with \<open>:.1%\<close> and
  \<open>:.1f\<close>). A run either stops at the missing index, or raises out of \<open>main\<close>
  while reading the index, or completes.

  The evaluators are written for \<open>job_id: str\<close>, and the specification makes the
  index's \<open>job_id\<close> a string. A run whose index yields a job id of another type
  is reported as such and not evaluated: the model does not follow the
  evaluators on non-string ids.
\<close>

record terms_summary =
  avg_terms :: rat
  avg_coverage :: rat
  tech_terms_pct :: rat

record completeness_summary =
  avg_completeness :: rat
  salary_pct :: rat

record batch_run =
  langsmith_connected :: bool
  run_job_ids :: "string list"
  terms_results :: "terms_report eval_report list"
  completeness_results :: "completeness_report eval_report list"
  terms_stats :: "terms_summary option"
  completeness_stats :: "completeness_summary option"

datatype batch_outcome =
    NoIndex bool
  | Crashed py_exc
  | JobIdNotStr json
  | Completed batch_run

section \<open>Reading the job ids\<close>

text \<open>
  Lines 148--152: \<open>entry = json.loads(line.strip())\<close> and
  \<open>job_ids.append(entry['job_id'])\<close>; nothing catches an exception here.
\<close>

definition index_step :: "json_decoder \<Rightarrow> string \<Rightarrow> json list \<Rightarrow> py_exc + json list" where
  "index_step dec line job_ids =
     py_bind (decode_json dec (py_strip line)) (\<lambda>entry.
     py_bind (py_subscript entry ''job_id'') (\<lambda>v.
     Inr (job_ids @ [v])))"

definition read_job_ids :: "json_decoder \<Rightarrow> string list \<Rightarrow> py_exc + json list" where
  "read_job_ids dec lines = py_fold (index_step dec) lines []"

text \<open>The job ids as strings, or the first that is not one.\<close>

fun str_job_ids :: "json list \<Rightarrow> json + string list" where
  "str_job_ids [] = Inr []"
| "str_job_ids (JStr s # vs) = (case str_job_ids vs of Inl v \<Rightarrow> Inl v | Inr ss \<Rightarrow> Inr (s # ss))"
| "str_job_ids (v # vs) = Inl v"

section \<open>Summary statistics\<close>

text \<open>\<open>[r for r in results if 'error' not in r]\<close>: the reports that are metrics.\<close>

fun successful :: "'r eval_report list \<Rightarrow> 'r list" where
  "successful [] = []"
| "successful (Metrics m # rs) = m # successful rs"
| "successful (ErrorReport j e # rs) = successful rs"

text \<open>Lines 195--202, under \<open>if successful_terms\<close>.\<close>

definition summarize_terms :: "terms_report list \<Rightarrow> terms_summary option" where
  "summarize_terms rs =
     (if rs = [] then None
      else Some \<lparr>avg_terms = of_nat (sum_list (map terms_count rs)) / of_nat (length rs),
                 avg_coverage = sum_list (map (\<lambda>r. py_num_val (terms_coverage r)) rs) / of_nat (length rs),
                 tech_terms_pct = of_nat (length (filter has_technical_terms rs)) / of_nat (length rs)\<rparr>)"

text \<open>Lines 204--209, under \<open>if successful_completeness\<close>.\<close>

definition summarize_completeness :: "completeness_report list \<Rightarrow> completeness_summary option" where
  "summarize_completeness rs =
     (if rs = [] then None
      else Some \<lparr>avg_completeness =
                   sum_list (map (\<lambda>r. py_num_val (completeness_score r)) rs) / of_nat (length rs),
                 salary_pct = of_nat (length (filter has_salary rs)) / of_nat (length rs)\<rparr>)"

section \<open>The run\<close>

text \<open>
  Lines 133--222. Each evaluation loads its files afresh through the loaders; the
  file system does not change during the run.
\<close>

definition evaluators_main :: "ls_env \<Rightarrow> json_decoder \<Rightarrow> fsys \<Rightarrow> batch_outcome" where
  "evaluators_main env dec w =
     (let connected = snd (check_langsmith_setup env) in
      if \<not> lexists w index_path then NoIndex connected
      else case py_bind (read_file w index_path) (\<lambda>text. read_job_ids dec (py_file_lines text)) of
        Inl e \<Rightarrow> Crashed e
      | Inr ids \<Rightarrow>
          (case str_job_ids ids of
             Inl v \<Rightarrow> JobIdNotStr v
           | Inr jids \<Rightarrow>
               let terms_results =
                     map (evaluate_required_terms_quality (load_job_data dec w) (load_index_entry dec w)) jids;
                   completeness_results = map (evaluate_extraction_completeness (load_job_data dec w)) jids
               in Completed \<lparr>langsmith_connected = connected, run_job_ids = jids,
                    terms_results = terms_results, completeness_results = completeness_results,
                    terms_stats = summarize_terms (successful terms_results),
                    completeness_stats = summarize_completeness (successful completeness_results)\<rparr>))"

text \<open>An index line \<open>main\<close> can read a job id from: it decodes to a dict with the key.\<close>

definition has_job_id :: "json_decoder \<Rightarrow> string \<Rightarrow> bool" where
  "has_job_id dec l =
     (case decode_json dec (py_strip l) of
        Inr (JObj kvs) \<Rightarrow> dict_lookup kvs ''job_id'' \<noteq> None
      | _ \<Rightarrow> False)"

section \<open>Inputs of the examples\<close>

text \<open>The working directory of theory \<open>Loader\<close> with one more index line, which lacks \<open>job_id\<close>.\<close>

definition example_bad_line :: string where
  \<open>example_bad_line = ''{"title": "Eng"}'' @ [CHR 0x0A]\<close>

definition example_fs_bad_index :: fsys where
  "example_fs_bad_index =
     example_fs\<lparr>fs_root := Dir [(''data'', Dir [(''index.jsonl'', File (example_index @ example_bad_line))])]\<rparr>"

section \<open>Lemmas on the run\<close>

lemma str_job_ids_map_JStr [simp]: "str_job_ids (map JStr ss) = Inr ss"
  by (induction ss) simp_all

lemma successful_Metrics: "m \<in> set (successful rs) \<Longrightarrow> Metrics m \<in> set rs"
  by (induction rs rule: successful.induct) auto

lemma str_job_ids_Inr: "str_job_ids vs = Inr ss \<Longrightarrow> vs = map JStr ss"
  by (induction vs arbitrary: ss rule: str_job_ids.induct) (auto split: sum.splits)

lemma evaluators_main_Completed:
  assumes "evaluators_main env dec w = Completed r"
  shows "terms_results r =
           map (evaluate_required_terms_quality (load_job_data dec w) (load_index_entry dec w)) (run_job_ids r) \<and>
         completeness_results r = map (evaluate_extraction_completeness (load_job_data dec w)) (run_job_ids r) \<and>
         terms_stats r = summarize_terms (successful (terms_results r)) \<and>
         completeness_stats r = summarize_completeness (successful (completeness_results r))"
  using assms by (auto simp add: evaluators_main_def Let_def split: if_splits sum.splits)

lemma evaluators_main_connected:
  "evaluators_main env dec w = Completed r \<Longrightarrow> langsmith_connected r = snd (check_langsmith_setup env)"
  by (auto simp add: evaluators_main_def Let_def split: if_splits sum.splits)

text \<open>The job ids read from the lines an encoder wrote, one entry per line.\<close>

lemma read_job_ids_encoded:
  assumes "\<forall>e\<in>set entries. decode_json dec (py_strip (enc e @ [CHR 0x0A])) = Inr e"
    and "list_all2 (\<lambda>e j. py_subscript e ''job_id'' = Inr (JStr j)) entries jids"
  shows "py_fold (index_step dec) (map (\<lambda>e. enc e @ [CHR 0x0A]) entries) acc = Inr (acc @ map JStr jids)"
  using assms
proof (induction entries arbitrary: jids acc)
  case Nil
  then show ?case by simp
next
  case (Cons e entries)
  then obtain j js where "jids = j # js" and "py_subscript e ''job_id'' = Inr (JStr j)"
    and "list_all2 (\<lambda>e j. py_subscript e ''job_id'' = Inr (JStr j)) entries js"
    by (auto simp add: list_all2_Cons1)
  with Cons show ?case by (simp add: index_step_def)
qed

lemma terms_summary_unit:
  assumes "\<And>m. m \<in> set rs \<Longrightarrow> \<exists>lj li jid. evaluate_required_terms_quality lj li jid = Metrics m"
    and "summarize_terms rs = Some s"
  shows "0 \<le> avg_coverage s \<and> avg_coverage s \<le> 1 \<and> 0 \<le> tech_terms_pct s \<and> tech_terms_pct s \<le> 1"
proof -
  have "0 \<le> py_num_val (terms_coverage m) \<and> py_num_val (terms_coverage m) \<le> 1" if "m \<in> set rs" for m
  proof -
    from assms(1) [OF that] obtain lj li jid where "evaluate_required_terms_quality lj li jid = Metrics m"
      by blast
    then obtain ss desc sample where "m = terms_spec jid ss desc sample"
      by (rule evaluate_terms_Metrics_spec)
    then show ?thesis using terms_spec_coverage_bounds by simp
  qed
  moreover from assms(2) have "rs \<noteq> []" by (simp add: summarize_terms_def split: if_splits)
  ultimately show ?thesis
    using assms(2) mean_in_unit [of rs "\<lambda>r. py_num_val (terms_coverage r)"]
      frac_nat_bounds [OF length_filter_le [of has_technical_terms rs]]
    by (auto simp add: summarize_terms_def)
qed

lemma completeness_summary_unit:
  assumes "\<And>m. m \<in> set rs \<Longrightarrow> \<exists>lj jid. evaluate_extraction_completeness lj jid = Metrics m"
    and "summarize_completeness rs = Some s"
  shows "0 \<le> avg_completeness s \<and> avg_completeness s \<le> 1 \<and> 0 \<le> salary_pct s \<and> salary_pct s \<le> 1"
proof -
  have "0 \<le> py_num_val (completeness_score m) \<and> py_num_val (completeness_score m) \<le> 1"
    if "m \<in> set rs" for m
    using assms(1) [OF that] evaluate_completeness_score_unit by blast
  moreover from assms(2) have "rs \<noteq> []" by (simp add: summarize_completeness_def split: if_splits)
  ultimately show ?thesis
    using assms(2) mean_in_unit [of rs "\<lambda>r. py_num_val (completeness_score r)"]
      frac_nat_bounds [OF length_filter_le [of has_salary rs]]
    by (auto simp add: summarize_completeness_def)
qed

lemma read_job_ids_prefix:
  assumes "list_all (has_job_id dec) pre"
  shows "\<exists>vs. py_fold (index_step dec) pre acc = Inr vs"
proof (rule py_fold_total)
  fix x acc
  assume "x \<in> set pre"
  with assms have "has_job_id dec x" by (simp add: list_all_iff)
  then obtain kvs v where "decode_json dec (py_strip x) = Inr (JObj kvs)"
    and "dict_lookup kvs ''job_id'' = Some v"
    by (auto simp add: has_job_id_def split: sum.splits json.splits)
  then show "\<exists>acc'. index_step dec x acc = Inr acc'" by (simp add: index_step_def)
qed

section \<open>Properties of the batch run\<close>


text \<open>
  C15: when the index can be read and every line gives a string job id, \<open>main\<close>
  completes and evaluates every job: one term report and one completeness report
  per job id, in the index's order, each carrying its job id, whether the job's
  evaluation failed or not. One job's failure does not stop the others.
\<close>

theorem evaluators_main_every_job:
  assumes "read_file w index_path = Inr text"
    and "read_job_ids dec (py_file_lines text) = Inr (map JStr jids)"
  shows "\<exists>r. evaluators_main env dec w = Completed r \<and> run_job_ids r = jids \<and>
           map (report_job_id tq_job_id) (terms_results r) = jids \<and>
           map (report_job_id cr_job_id) (completeness_results r) = jids"
  using assms read_file_lexists [OF assms(1)]
  by (simp add: evaluators_main_def Let_def comp_def evaluate_terms_job_id evaluate_completeness_job_id)

theorem evaluators_main_every_job_witness:
  "read_file example_fs index_path = Inr example_index \<and>
   read_job_ids example_decoder (py_file_lines example_index) = Inr (map JStr [''7'', ''42'', ''42'']) \<and>
   (\<exists>r. evaluators_main example_env example_decoder example_fs = Completed r \<and>
        run_job_ids r = [''7'', ''42'', ''42''] \<and>
        map (report_job_id tq_job_id) (terms_results r) = [''7'', ''42'', ''42''] \<and>
        map (report_job_id cr_job_id) (completeness_results r) = [''7'', ''42'', ''42''])"
proof -
  have h1: "read_file example_fs index_path = Inr example_index" by code_simp
  have h2: "read_job_ids example_decoder (py_file_lines example_index) = Inr (map JStr [''7'', ''42'', ''42''])"
    by code_simp
  show ?thesis by (intro conjI h1 h2 evaluators_main_every_job [OF h1 h2])
qed

text \<open>
  C16: in a completed run, the summary figures that are printed as percentages are
  between 0 and 1: the mean coverage and the share of jobs with technical terms over
  the successful term reports, the mean completeness and the share of jobs with a
  salary over the successful completeness reports.
\<close>

theorem evaluators_main_summary_bounds:
  assumes "evaluators_main env dec w = Completed r"
  shows "(\<forall>s. terms_stats r = Some s \<longrightarrow>
            0 \<le> avg_coverage s \<and> avg_coverage s \<le> 1 \<and> 0 \<le> tech_terms_pct s \<and> tech_terms_pct s \<le> 1) \<and>
         (\<forall>s. completeness_stats r = Some s \<longrightarrow>
            0 \<le> avg_completeness s \<and> avg_completeness s \<le> 1 \<and> 0 \<le> salary_pct s \<and> salary_pct s \<le> 1)"
proof -
  note run = evaluators_main_Completed [OF assms]
  have "\<exists>lj li jid. evaluate_required_terms_quality lj li jid = Metrics m"
    if "m \<in> set (successful (terms_results r))" for m
  proof -
    from successful_Metrics [OF that] run obtain jid where
      "evaluate_required_terms_quality (load_job_data dec w) (load_index_entry dec w) jid = Metrics m"
      by (auto simp add: image_iff)
    then show ?thesis by blast
  qed
  moreover have "\<exists>lj jid. evaluate_extraction_completeness lj jid = Metrics m"
    if "m \<in> set (successful (completeness_results r))" for m
  proof -
    from successful_Metrics [OF that] run obtain jid where
      "evaluate_extraction_completeness (load_job_data dec w) jid = Metrics m"
      by (auto simp add: image_iff)
    then show ?thesis by blast
  qed
  ultimately show ?thesis
    using run terms_summary_unit completeness_summary_unit by metis
qed

theorem evaluators_main_summary_bounds_witness:
  "evaluators_main example_env example_decoder example_fs =
     Completed \<lparr>langsmith_connected = True, run_job_ids = [''7'', ''42'', ''42''],
       terms_results = map (evaluate_required_terms_quality (load_job_data example_decoder example_fs)
                              (load_index_entry example_decoder example_fs)) [''7'', ''42'', ''42''],
       completeness_results = map (evaluate_extraction_completeness (load_job_data example_decoder example_fs))
                                [''7'', ''42'', ''42''],
       terms_stats = Some \<lparr>avg_terms = 2, avg_coverage = 1 / 2, tech_terms_pct = 1\<rparr>,
       completeness_stats = Some \<lparr>avg_completeness = 1 / 2, salary_pct = 0\<rparr>\<rparr> \<and>
   0 \<le> avg_coverage \<lparr>avg_terms = 2, avg_coverage = 1 / 2, tech_terms_pct = 1\<rparr>"
proof -
  have h: "evaluators_main example_env example_decoder example_fs =
     Completed \<lparr>langsmith_connected = True, run_job_ids = [''7'', ''42'', ''42''],
       terms_results = map (evaluate_required_terms_quality (load_job_data example_decoder example_fs)
                              (load_index_entry example_decoder example_fs)) [''7'', ''42'', ''42''],
       completeness_results = map (evaluate_extraction_completeness (load_job_data example_decoder example_fs))
                                [''7'', ''42'', ''42''],
       terms_stats = Some \<lparr>avg_terms = 2, avg_coverage = 1 / 2, tech_terms_pct = 1\<rparr>,
       completeness_stats = Some \<lparr>avg_completeness = 1 / 2, salary_pct = 0\<rparr>\<rparr>"
    by code_simp
  have "0 \<le> avg_coverage \<lparr>avg_terms = 2, avg_coverage = 1 / 2, tech_terms_pct = (1::rat)\<rparr>"
    using evaluators_main_summary_bounds [OF h] by simp
  with h show ?thesis by (intro conjI)
qed

text \<open>
  C17: \<open>main\<close> aborts the whole run on one bad index line: if, after lines that give
  job ids, a line decodes to a dict without \<open>job_id\<close>, the \<open>KeyError\<close> of
  \<open>entry['job_id']\<close> escapes \<open>main\<close> and no job is evaluated.
\<close>

theorem evaluators_main_crash_without_job_id:
  assumes "read_file w index_path = Inr text"
    and "py_file_lines text = pre @ l # post"
    and "list_all (has_job_id dec) pre"
    and "decode_json dec (py_strip l) = Inr (JObj kvs)"
    and "dict_lookup kvs ''job_id'' = None"
  shows "evaluators_main env dec w = Crashed (KeyError ''job_id'')"
proof -
  obtain vs where "py_fold (index_step dec) pre [] = Inr vs"
    using read_job_ids_prefix [OF assms(3)] by blast
  with assms(2,4,5) have "read_job_ids dec (py_file_lines text) = Inl (KeyError ''job_id'')"
    by (simp add: read_job_ids_def py_fold_append index_step_def)
  with assms(1) read_file_lexists [OF assms(1)] show ?thesis
    by (simp add: evaluators_main_def Let_def)
qed

theorem evaluators_main_crash_without_job_id_witness:
  "read_file example_fs_bad_index index_path = Inr (example_index @ example_bad_line) \<and>
   py_file_lines (example_index @ example_bad_line) =
     py_file_lines example_index @ (example_bad_line) # [] \<and>
   list_all (has_job_id example_decoder) (py_file_lines example_index) \<and>
   decode_json example_decoder (py_strip (example_bad_line)) = Inr (JObj [(''title'', JStr ''Eng'')]) \<and>
   dict_lookup [(''title'', JStr ''Eng'')] ''job_id'' = None \<and>
   evaluators_main example_env example_decoder example_fs_bad_index = Crashed (KeyError ''job_id'')"
proof -
  have h1: "read_file example_fs_bad_index index_path = Inr (example_index @ example_bad_line)"
    by code_simp
  have h2: "py_file_lines (example_index @ example_bad_line) =
     py_file_lines example_index @ (example_bad_line) # []"
    by code_simp
  have h3: "list_all (has_job_id example_decoder) (py_file_lines example_index)" by code_simp
  have h4: "decode_json example_decoder (py_strip (example_bad_line)) =
     Inr (JObj [(''title'', JStr ''Eng'')])" by code_simp
  have h5: "dict_lookup [(''title'', JStr ''Eng'')] ''job_id'' = None" by code_simp
  show ?thesis
    by (intro conjI h1 h2 h3 h4 h5 evaluators_main_crash_without_job_id [OF h1 h2 h3 h4 h5])
qed

end
