(* ===== verification/CLI.thy ===== *)
theory CLI
  imports Batch
begin

text \<open>
  The command-line interface, \<open>main\<close> of \<open>cli.py\<close> (lines 20--91), from the parsed
  arguments on: \<open>argparse\<close> itself is a library the source only configures, so its
  result, the \<open>argparse.Namespace\<close> with the four arguments of lines 25--44, is the
  input of the model. The output is what \<open>main\<close> prints, one event per block of
  lines, and the exit status it returns to \<open>sys.exit\<close>. Theory \<open>Args\<close> models
  \<open>parse_args\<close> for this parser; \<open>ArgparseError\<close> is the message it
  prints before exiting with status 2.
\<close>

record cli_args =
  arg_job_id :: "string option"
  check_setup :: bool
  terms_only :: bool
  completeness_only :: bool

datatype cli_event =
    SetupCheckHeader
  | SetupLines "setup_msg list"
  | JobIdRequired
  | HelpText
  | EvaluationHeader string
  | TermsOutput "terms_report eval_report"
  | CompletenessOutput "completeness_report eval_report"
  | SetupTip
  | ArgparseError string

text \<open>
  Lines 48--91. \<open>--check-setup\<close> wins over everything else; \<open>if not args.job_id\<close>
  rejects a missing and an empty job id; the setup check runs before the
  evaluations; \<open>--completeness-only\<close> skips the term report and \<open>--terms-only\<close> the
  completeness report; the tip is printed when LangSmith is not connected; the
  status is 0 whatever the evaluations report.
\<close>

definition cli_main :: "ls_env \<Rightarrow> json_decoder \<Rightarrow> fsys \<Rightarrow> cli_args \<Rightarrow> cli_event list \<times> int" where
  "cli_main env dec w args =
     (if check_setup args then
        (let (msgs, is_connected) = check_langsmith_setup env
         in ([SetupCheckHeader, SetupLines msgs], if is_connected then 0 else 1))
      else case arg_job_id args of
        None \<Rightarrow> ([JobIdRequired, HelpText], 1)
      | Some job_id \<Rightarrow>
        if job_id = [] then ([JobIdRequired, HelpText], 1)
        else
        let (msgs, langsmith_connected) = check_langsmith_setup env;
            terms = (if \<not> completeness_only args
                     then [TermsOutput (evaluate_required_terms_quality (load_job_data dec w)
                                          (load_index_entry dec w) job_id)]
                     else []);
            completeness = (if \<not> terms_only args
                            then [CompletenessOutput (evaluate_extraction_completeness (load_job_data dec w) job_id)]
                            else []);
            tip = (if \<not> langsmith_connected then [SetupTip] else [])
        in ([EvaluationHeader job_id, SetupLines msgs] @ terms @ completeness @ tip, 0))"

section \<open>Inputs of the examples\<close>

definition example_args :: cli_args where
  "example_args = \<lparr>arg_job_id = Some ''42'', check_setup = False, terms_only = False,
     completeness_only = False\<rparr>"

section \<open>Properties of the command-line interface\<close>

text \<open>
  C18: the exit status of the command: with \<open>--check-setup\<close>, 0 exactly when
  LangSmith is installed, configured with a non-empty key and reachable; otherwise
  1 without a job id (missing or empty) and 0 with one, whatever the evaluations
  report. The help text of the positional argument (line 28) says the job id is
  optional and that all jobs are analysed without one; the code exits with 1
  instead.
\<close>

theorem cli_exit_status:
  "snd (cli_main env dec w args) =
     (if check_setup args then (if ls_ready env then 0 else 1)
      else if arg_job_id args = None \<or> arg_job_id args = Some [] then 1 else 0)"
  by (auto simp add: cli_main_def check_langsmith_setup_def ls_ready_def Let_def
      split: option.splits sum.splits prod.splits)

text \<open>
  C19: with a job id and without \<open>--check-setup\<close>, the term report is printed
  exactly when \<open>--completeness-only\<close> is not given, and the completeness report
  exactly when \<open>--terms-only\<close> is not given; each printed report is the evaluator's
  on the file-system loaders. Giving both flags evaluates nothing.
\<close>

theorem cli_reports_selected:
  assumes "\<not> check_setup args" and "arg_job_id args = Some jid" and "jid \<noteq> []"
  shows "(\<forall>r. TermsOutput r \<in> set (fst (cli_main env dec w args)) \<longleftrightarrow>
            \<not> completeness_only args \<and>
            r = evaluate_required_terms_quality (load_job_data dec w) (load_index_entry dec w) jid) \<and>
         (\<forall>r. CompletenessOutput r \<in> set (fst (cli_main env dec w args)) \<longleftrightarrow>
            \<not> terms_only args \<and> r = evaluate_extraction_completeness (load_job_data dec w) jid)"
  using assms by (auto simp add: cli_main_def Let_def split: prod.splits)

theorem cli_reports_selected_witness:
  "\<not> check_setup example_args \<and> arg_job_id example_args = Some ''42'' \<and> ''42'' \<noteq> [] \<and>
   (\<forall>r. CompletenessOutput r \<in> set (fst (cli_main example_env example_decoder example_fs example_args)) \<longleftrightarrow>
      \<not> terms_only example_args \<and>
      r = evaluate_extraction_completeness (load_job_data example_decoder example_fs) ''42'')"
proof -
  have h1: "\<not> check_setup example_args" and h2: "arg_job_id example_args = Some ''42''"
    and h3: "''42'' \<noteq> []"
    by (simp_all add: example_args_def)
  show ?thesis using cli_reports_selected [OF h1 h2 h3] h1 h2 h3 by blast
qed

end
