(* ===== verification/Args.thy ===== *)
theory Args
  imports CLI
begin

text \<open>
  The argument parser of \<open>cli.py\<close> (lines 22--46): an \<open>argparse.ArgumentParser\<close>
  with the optional positional \<open>job_id\<close> (\<open>nargs="?"\<close>), the three \<open>store_true\<close>
  flags and the automatic \<open>-h/--help\<close>, and \<open>parser.parse_args(argv)\<close>. The model
  follows \<open>_parse_known_args\<close> of CPython 3.11's \<open>argparse.py\<close> for this
  configuration: every argument is first classified (a positional, the separator
  \<open>--\<close>, or an option, where an unambiguous prefix of a long option selects it and
  an ambiguous one is an error); then the options are applied in order and the
  first run of positionals fills \<open>job_id\<close> (pattern \<open>-*A?-*\<close>, the first \<open>--\<close>
  removed); what is left over is reported as unrecognized. \<open>-h\<close> prints the help
  and exits with 0, every error prints the usage and exits with 2. The parser
  has no option that looks like a negative number, so \<open>-5\<close> and \<open>-1.5\<close> are
  positionals. Finally \<open>cli_run\<close> is \<open>sys.exit(main(argv))\<close>, lines
  94--95.
\<close>

datatype arg_action = ActHelp | ActCheckSetup | ActTermsOnly | ActCompletenessOnly

text \<open>\<open>parser._option_string_actions\<close>, in the order the options were added.\<close>

definition option_string_actions :: "(string \<times> arg_action) list" where
  "option_string_actions =
     [(''-h'', ActHelp), (''--help'', ActHelp), (''--check-setup'', ActCheckSetup),
      (''--terms-only'', ActTermsOnly), (''--completeness-only'', ActCompletenessOnly)]"

text \<open>\<open>'/'.join(action.option_strings)\<close>, the name an \<open>ArgumentError\<close> gives.\<close>

fun action_name :: "arg_action \<Rightarrow> string" where
  "action_name ActHelp = ''-h/--help''"
| "action_name ActCheckSetup = ''--check-setup''"
| "action_name ActTermsOnly = ''--terms-only''"
| "action_name ActCompletenessOnly = ''--completeness-only''"

text \<open>
  How \<open>_parse_optional\<close> classifies one argument: a positional, the separator,
  or an option with the action it selects (\<^const>\<open>None\<close> for an unknown one),
  the option string, whether the explicit argument came after an \<open>=\<close>, and the
  explicit argument.
\<close>

datatype arg_class =
    ArgPos
  | ArgSep
  | ArgOpt "arg_action option" string bool "string option"

datatype parse_result =
    ParsedArgs cli_args
  | ShowHelp
  | UsageError string

text \<open>\<open>s.startswith(p)\<close> and \<open>s.partition('=')\<close>.\<close>

definition starts_with :: "string \<Rightarrow> string \<Rightarrow> bool" where
  "starts_with s p = (take (length p) s = p)"

definition partition_eq :: "string \<Rightarrow> string \<times> bool \<times> string" where
  "partition_eq s =
     (takeWhile (\<lambda>c. c \<noteq> CHR ''='') s, CHR ''='' \<in> set s, drop 1 (dropWhile (\<lambda>c. c \<noteq> CHR ''='') s))"

text \<open>
  \<open>_negative_number_matcher\<close>, \<open>^-\d+$|^-\d*\.\d+$\<close>; \<open>$\<close> also matches before a
  final newline.
\<close>

definition is_digit :: "char \<Rightarrow> bool" where
  "is_digit c = (CHR ''0'' \<le> c \<and> c \<le> CHR ''9'')"

definition neg_number_full :: "string \<Rightarrow> bool" where
  "neg_number_full s =
     (case s of
        c # r \<Rightarrow> c = CHR ''-'' \<and>
          (let rest = dropWhile is_digit r in
           (r \<noteq> [] \<and> rest = []) \<or>
           (rest \<noteq> [] \<and> hd rest = CHR ''.'' \<and> tl rest \<noteq> [] \<and> list_all is_digit (tl rest)))
      | [] \<Rightarrow> False)"

definition looks_negative :: "string \<Rightarrow> bool" where
  "looks_negative s = (neg_number_full s \<or> (s \<noteq> [] \<and> last s = CHR 0x0A \<and> neg_number_full (butlast s)))"

text \<open>
  \<open>_get_option_tuples\<close>: a \<open>--\<close> argument matches the options it is a prefix of
  (up to an \<open>=\<close>); a single-dash one matches an option equal to its first two
  characters, with the rest as explicit argument, or an option it is a prefix of.
\<close>

definition option_tuples :: "string \<Rightarrow> (arg_action \<times> string \<times> bool \<times> string option) list" where
  "option_tuples s =
     (if 2 \<le> length s \<and> s ! 1 = CHR ''-''
      then (let (pre, sep, x) = partition_eq s
            in [(a, opt, sep, if sep then Some x else None).
                  (opt, a) \<leftarrow> option_string_actions, starts_with opt pre])
      else [(a, opt, False, if opt = take 2 s then Some (drop 2 s) else None).
              (opt, a) \<leftarrow> option_string_actions, opt = take 2 s \<or> starts_with opt s])"

text \<open>
  \<open>_parse_optional\<close>: how one argument before \<open>--\<close> is classified, or the
  ambiguity error it raises.
\<close>

definition parse_optional :: "string \<Rightarrow> string + arg_class" where
  "parse_optional s =
     (if s = [] \<or> hd s \<noteq> CHR ''-'' then Inr ArgPos
      else case map_of option_string_actions s of
        Some a \<Rightarrow> Inr (ArgOpt (Some a) s False None)
      | None \<Rightarrow>
        if length s = 1 then Inr ArgPos
        else
          let (opt, sep, x) = partition_eq s in
          case (if sep then map_of option_string_actions opt else None) of
            Some a \<Rightarrow> Inr (ArgOpt (Some a) opt True (Some x))
          | None \<Rightarrow>
            (case option_tuples s of
               [] \<Rightarrow> (if looks_negative s \<or> CHR '' '' \<in> set s then Inr ArgPos
                      else Inr (ArgOpt None s False None))
             | [(a, opt, sep, x)] \<Rightarrow> Inr (ArgOpt (Some a) opt sep x)
             | ts \<Rightarrow> Inl (''ambiguous option: '' @ s @ '' could match '' @
                         py_join '', '' (map (\<lambda>(a, opt, sep, x). opt) ts))))"

text \<open>The classification of all arguments: everything after the first \<open>--\<close> is positional.\<close>

fun classify_args :: "string list \<Rightarrow> string + arg_class list" where
  "classify_args [] = Inr []"
| "classify_args (s # ss) =
     (if s = ''--'' then Inr (ArgSep # map (\<lambda>x. ArgPos) ss)
      else py_bind (parse_optional s) (\<lambda>c. py_bind (classify_args ss) (\<lambda>cs. Inr (c # cs))))"

text \<open>
  \<open>consume_optional\<close> for a flag: the actions it stands for and a left-over
  argument, or its error. A single-dash flag with an explicit argument (not after
  \<open>=\<close>, not starting with \<open>-\<close>) reads it as more single-dash flags; an unknown flag
  there ends the chain and the rest is left over. Any other explicit argument is
  an error, since no flag takes an argument.
\<close>

definition ignored_explicit :: "arg_action \<Rightarrow> string \<Rightarrow> string" where
  "ignored_explicit a x = ''argument '' @ action_name a @ '': ignored explicit argument '' @ py_repr_str x"

function opt_chain :: "arg_action \<Rightarrow> string \<Rightarrow> bool \<Rightarrow> string option \<Rightarrow> string + arg_action list \<times> string option" where
  "opt_chain a opt sep None = Inr ([a], None)"
| "opt_chain a opt sep (Some x) =
     (if opt ! 1 \<noteq> CHR ''-'' \<and> x \<noteq> [] then
        (if sep \<or> hd x = CHR ''-'' then Inl (ignored_explicit a x)
         else case map_of option_string_actions [CHR ''-'', hd x] of
           None \<Rightarrow> Inr ([a], Some (CHR ''-'' # x))
         | Some a' \<Rightarrow>
             (case (if tl x = [] then opt_chain a' [CHR ''-'', hd x] False None
                    else if hd (tl x) = CHR ''='' then opt_chain a' [CHR ''-'', hd x] True (Some (tl (tl x)))
                    else opt_chain a' [CHR ''-'', hd x] False (Some (tl x))) of
                Inl m \<Rightarrow> Inl m
              | Inr (acts, left) \<Rightarrow> Inr (a # acts, left)))
      else Inl (ignored_explicit a x))"
  by pat_completeness auto

termination
  by (relation "measure (\<lambda>(a, opt, sep, x). case x of None \<Rightarrow> 0 | Some s \<Rightarrow> Suc (length s))") auto

text \<open>\<open>take_action\<close> for the flags: \<open>store_true\<close> sets the field.\<close>

fun set_flag :: "arg_action \<Rightarrow> cli_args \<Rightarrow> cli_args" where
  "set_flag ActCheckSetup ns = ns\<lparr>check_setup := True\<rparr>"
| "set_flag ActTermsOnly ns = ns\<lparr>terms_only := True\<rparr>"
| "set_flag ActCompletenessOnly ns = ns\<lparr>completeness_only := True\<rparr>"
| "set_flag ActHelp ns = ns"

text \<open>
  The first run of positionals fills \<open>job_id\<close>: the separators before it, at most
  one argument, the separators after it; the first \<open>--\<close> is removed from what was
  taken. The rest of the run is left over.
\<close>

definition take_positional :: "(string \<times> arg_class) list \<Rightarrow> string option \<times> (string \<times> arg_class) list" where
  "take_positional run =
     (let d1 = takeWhile (\<lambda>(s, c). c = ArgSep) run;
          r1 = dropWhile (\<lambda>(s, c). c = ArgSep) run;
          (a, r2) = (case r1 of (s, ArgPos) # r \<Rightarrow> ([(s, ArgPos)], r) | _ \<Rightarrow> ([], r1));
          d2 = takeWhile (\<lambda>(s, c). c = ArgSep) r2;
          rest = dropWhile (\<lambda>(s, c). c = ArgSep) r2;
          vals = remove1 ''--'' (map fst (d1 @ a @ d2))
      in (case vals of [] \<Rightarrow> None | v # vs \<Rightarrow> Some v, rest))"

fun is_opt :: "arg_class \<Rightarrow> bool" where
  "is_opt (ArgOpt a opt sep e) = True"
| "is_opt c = False"

text \<open>
  The main loop of \<open>_parse_known_args\<close>, with the namespace, whether \<open>job_id\<close> has
  been consumed, and the left-over arguments; then \<open>parse_args\<close>' test of the
  left-overs.
\<close>

function consume :: "(string \<times> arg_class) list \<Rightarrow> cli_args \<Rightarrow> bool \<Rightarrow> string list \<Rightarrow> parse_result" where
  "consume [] ns pos_done extras =
     (if extras = [] then ParsedArgs ns else UsageError (''unrecognized arguments: '' @ py_join '' '' extras))"
| "consume ((s, ArgOpt None opt sep e) # rest) ns pos_done extras = consume rest ns pos_done (extras @ [s])"
| "consume ((s, ArgOpt (Some a) opt sep e) # rest) ns pos_done extras =
     (case opt_chain a opt sep e of
        Inl msg \<Rightarrow> UsageError msg
      | Inr (acts, left) \<Rightarrow>
          if ActHelp \<in> set acts then ShowHelp
          else consume rest (fold set_flag acts ns) pos_done (extras @ (case left of None \<Rightarrow> [] | Some l \<Rightarrow> [l])))"
| "consume ((s, ArgPos) # rest) ns pos_done extras =
     (let run = takeWhile (\<lambda>(s, c). \<not> is_opt c) ((s, ArgPos) # rest);
          after = dropWhile (\<lambda>(s, c). \<not> is_opt c) ((s, ArgPos) # rest)
      in if pos_done then consume after ns True (extras @ map fst run)
         else let (v, left) = take_positional run
              in consume after (ns\<lparr>arg_job_id := v\<rparr>) True (extras @ map fst left))"
| "consume ((s, ArgSep) # rest) ns pos_done extras =
     (let run = takeWhile (\<lambda>(s, c). \<not> is_opt c) ((s, ArgSep) # rest);
          after = dropWhile (\<lambda>(s, c). \<not> is_opt c) ((s, ArgSep) # rest)
      in if pos_done then consume after ns True (extras @ map fst run)
         else let (v, left) = take_positional run
              in consume after (ns\<lparr>arg_job_id := v\<rparr>) True (extras @ map fst left))"
  by pat_completeness auto

termination
  by (relation "measure (\<lambda>(xs, ns, p, e). length xs)") (auto simp add: length_dropWhile_le le_imp_less_Suc)

definition default_args :: cli_args where
  "default_args = \<lparr>arg_job_id = None, check_setup = False, terms_only = False, completeness_only = False\<rparr>"

definition parse_cli :: "string list \<Rightarrow> parse_result" where
  "parse_cli argv =
     (case classify_args argv of
        Inl msg \<Rightarrow> UsageError msg
      | Inr cs \<Rightarrow> consume (zip argv cs) default_args False [])"

text \<open>\<open>sys.exit(main(argv))\<close>: the parser's exit, or \<open>main\<close> from line 48 on.\<close>

definition cli_run :: "ls_env \<Rightarrow> json_decoder \<Rightarrow> fsys \<Rightarrow> string list \<Rightarrow> cli_event list \<times> int" where
  "cli_run env dec w argv =
     (case parse_cli argv of
        ShowHelp \<Rightarrow> ([HelpText], 0)
      | UsageError msg \<Rightarrow> ([ArgparseError msg], 2)
      | ParsedArgs args \<Rightarrow> cli_main env dec w args)"


text \<open>
  The command line that asks for a namespace: the flags it sets in long form, then
  the job id after \<open>--\<close>, so that any string is taken as the job id.
\<close>

definition render_flags :: "cli_args \<Rightarrow> string list" where
  "render_flags a =
     (if check_setup a then [''--check-setup''] else []) @
     (if terms_only a then [''--terms-only''] else []) @
     (if completeness_only a then [''--completeness-only''] else [])"

definition render_args :: "cli_args \<Rightarrow> string list" where
  "render_args a = render_flags a @ (case arg_job_id a of None \<Rightarrow> [] | Some j \<Rightarrow> [''--'', j])"

text \<open>The arguments that abbreviate a long option: its prefixes longer than \<open>--\<close>.\<close>

definition abbreviations :: "string list" where
  "abbreviations =
     concat (map (\<lambda>(opt, a). map (\<lambda>n. take n opt) [3..<Suc (length opt)])
       (filter (\<lambda>(opt, a). starts_with opt ''--'') option_string_actions))"

section \<open>Lemmas on the parser\<close>

lemma classify_sep [simp]: "classify_args (''--'' # ss) = Inr (ArgSep # map (\<lambda>x. ArgPos) ss)"
  by simp

lemma parse_optional_flags [simp]:
  "parse_optional ''--check-setup'' = Inr (ArgOpt (Some ActCheckSetup) ''--check-setup'' False None)"
  "parse_optional ''--terms-only'' = Inr (ArgOpt (Some ActTermsOnly) ''--terms-only'' False None)"
  "parse_optional ''--completeness-only'' =
     Inr (ArgOpt (Some ActCompletenessOnly) ''--completeness-only'' False None)"
  by (simp_all add: parse_optional_def option_string_actions_def)

lemma parse_optional_pos:
  "s = [] \<or> hd s \<noteq> CHR ''-'' \<Longrightarrow> parse_optional s = Inr ArgPos"
  by (auto simp add: parse_optional_def)

text \<open>The flags of \<^const>\<open>render_flags\<close> are classified as themselves and set their fields.\<close>

lemma classify_render_flags:
  "classify_args (render_flags a @ rest) =
     py_bind (classify_args rest) (\<lambda>cs. Inr (map (\<lambda>f. ArgOpt (Some (if f = ''--check-setup'' then ActCheckSetup
        else if f = ''--terms-only'' then ActTermsOnly else ActCompletenessOnly)) f False None) (render_flags a) @ cs))"
  by (simp add: render_flags_def py_bind_def split: sum.splits)

lemma consume_render_flags:
  "consume (zip (render_flags a) (map (\<lambda>f. ArgOpt (Some (if f = ''--check-setup'' then ActCheckSetup
        else if f = ''--terms-only'' then ActTermsOnly else ActCompletenessOnly)) f False None) (render_flags a)) @ rest)
     ns p extras =
   consume rest (ns\<lparr>check_setup := check_setup ns \<or> check_setup a, terms_only := terms_only ns \<or> terms_only a,
                    completeness_only := completeness_only ns \<or> completeness_only a\<rparr>) p extras"
  by (cases a) (simp add: render_flags_def)


lemma consume_render_flags_only:
  "consume (zip (render_flags a) (map (\<lambda>f. ArgOpt (Some (if f = ''--check-setup'' then ActCheckSetup
        else if f = ''--terms-only'' then ActTermsOnly else ActCompletenessOnly)) f False None) (render_flags a)))
     ns p extras =
   consume [] (ns\<lparr>check_setup := check_setup ns \<or> check_setup a, terms_only := terms_only ns \<or> terms_only a,
                  completeness_only := completeness_only ns \<or> completeness_only a\<rparr>) p extras"
  using consume_render_flags [where rest = "[]"] by simp

lemma take_positional_sep [simp]: "take_positional [(''--'', ArgSep), (j, ArgPos)] = (Some j, [])"
  by (simp add: take_positional_def)


lemma starts_with_take: "starts_with s p \<Longrightarrow> p = take (length p) s \<and> length p \<le> length s"
proof -
  assume "starts_with s p"
  then have p: "take (length p) s = p" by (simp add: starts_with_def)
  then have "length (take (length p) s) = length p" by simp
  then have "length p \<le> length s" by simp
  with p show ?thesis by simp
qed

lemma concat_map_mem: "x \<in> set xs \<Longrightarrow> y \<in> set (f x) \<Longrightarrow> y \<in> set (concat (map f xs))"
  by (induction xs) auto

lemma abbreviations_complete:
  assumes "(opt, act) \<in> set option_string_actions" and "starts_with opt ''--''"
    and "starts_with opt p" and "2 < length p"
  shows "p \<in> set abbreviations"
proof -
  from starts_with_take [OF assms(3)] have p: "p = take (length p) opt" and le: "length p \<le> length opt"
    by blast+
  from le assms(4) have "length p \<in> set [3..<Suc (length opt)]"
    unfolding set_upt atLeastLessThan_iff by linarith
  then have "take (length p) opt \<in> (\<lambda>n. take n opt) ` set [3..<Suc (length opt)]" by (rule imageI)
  then have mem: "p \<in> set (map (\<lambda>n. take n opt) [3..<Suc (length opt)])"
    by (simp only: set_map p [symmetric])
  have "(opt, act) \<in> set (filter (\<lambda>(opt, a). starts_with opt ''--'') option_string_actions)"
    using assms(1,2) by (simp only: set_filter mem_Collect_eq case_prod_conv)
  moreover have "p \<in> set ((\<lambda>(opt, a). map (\<lambda>n. take n opt) [3..<Suc (length opt)]) (opt, act))"
    using mem by (simp only: case_prod_conv)
  ultimately show ?thesis unfolding abbreviations_def by (rule concat_map_mem)
qed

section \<open>Properties of the parser\<close>

text \<open>
  C26: printing a namespace as a command line and parsing it gives the namespace
  back, for every job id (also one that starts with \<open>-\<close> or is empty) and every
  combination of flags.
\<close>

theorem parse_cli_roundtrip: "parse_cli (render_args a) = ParsedArgs a"
  by (cases a) (auto simp add: render_args_def parse_cli_def classify_render_flags consume_render_flags
      consume_render_flags_only default_args_def split: option.splits)

text \<open>
  C27: the usage line of the module, \<open>evaluate-jobs <job_id>\<close> followed by flags,
  parses to that job id and those flags whenever the job id does not start with
  \<open>-\<close>.
\<close>

theorem parse_cli_job_first:
  assumes "jid = [] \<or> hd jid \<noteq> CHR ''-''"
  shows "parse_cli (jid # render_flags a) = ParsedArgs (a\<lparr>arg_job_id := Some jid\<rparr>)"
proof -
  have ne: "jid \<noteq> ''--''" using assms by auto
  then have tp: "take_positional [(jid, ArgPos)] = (Some jid, [])"
    by (simp add: take_positional_def)
  have cl: "classify_args (jid # render_flags a) =
     Inr (ArgPos # map (\<lambda>f. ArgOpt (Some (if f = ''--check-setup'' then ActCheckSetup
        else if f = ''--terms-only'' then ActTermsOnly else ActCompletenessOnly)) f False None) (render_flags a))"
    using parse_optional_pos [OF assms] ne classify_render_flags [where rest = "[]"] by simp
  show ?thesis
    using tp unfolding parse_cli_def cl
    by (cases a) (simp add: render_flags_def default_args_def)
qed

theorem parse_cli_job_first_witness:
  "(''42'' = [] \<or> hd ''42'' \<noteq> CHR ''-'') \<and>
   parse_cli [''42'', ''--terms-only''] =
     ParsedArgs \<lparr>arg_job_id = Some ''42'', check_setup = False, terms_only = True, completeness_only = False\<rparr>"
proof -
  have h: "''42'' = [] \<or> hd ''42'' \<noteq> CHR ''-''" by simp
  have r: "render_flags \<lparr>arg_job_id = None, check_setup = False, terms_only = True, completeness_only = False\<rparr> =
             [''--terms-only'']"
    by (simp add: render_flags_def)
  from parse_cli_job_first [OF h, of "\<lparr>arg_job_id = None, check_setup = False, terms_only = True,
    completeness_only = False\<rparr>"] h show ?thesis by (simp only: r) simp
qed

text \<open>
  C28: a long option may be abbreviated: every argument longer than \<open>--\<close> that is a
  prefix of long options of one action only selects that action (\<open>--t\<close> is
  \<open>--terms-only\<close>, \<open>--he\<close> is \<open>--help\<close>).
\<close>

theorem parse_cli_abbreviations:
  assumes "(opt, act) \<in> set option_string_actions" and "starts_with opt ''--''"
    and "starts_with opt p" and "2 < length p"
    and "\<forall>(opt', act') \<in> set option_string_actions. starts_with opt' p \<longrightarrow> act' = act"
  shows "parse_cli [p] = (if act = ActHelp then ShowHelp else ParsedArgs (set_flag act default_args))"
proof -
  have all: "\<forall>p \<in> set abbreviations. \<forall>(opt, act) \<in> set option_string_actions.
               (\<forall>(opt', act') \<in> set option_string_actions. starts_with opt' p \<longrightarrow> act' = act) \<longrightarrow>
               starts_with opt p \<longrightarrow>
               parse_cli [p] = (if act = ActHelp then ShowHelp else ParsedArgs (set_flag act default_args))"
    by code_simp
  from abbreviations_complete [OF assms(1-4)] all assms(1,3,5) show ?thesis by fastforce
qed

theorem parse_cli_abbreviations_witness:
  "parse_cli [''--t''] = ParsedArgs \<lparr>arg_job_id = None, check_setup = False, terms_only = True,
     completeness_only = False\<rparr>"
proof -
  have h1: "(''--terms-only'', ActTermsOnly) \<in> set option_string_actions"
    and h2: "starts_with ''--terms-only'' ''--''" and h3: "starts_with ''--terms-only'' ''--t''"
    and h4: "2 < length ''--t''"
    and h5: "\<forall>(opt', act') \<in> set option_string_actions. starts_with opt' ''--t'' \<longrightarrow> act' = ActTermsOnly"
    by code_simp+
  from parse_cli_abbreviations [OF h1 h2 h3 h4 h5] show ?thesis by (simp add: default_args_def)
qed

text \<open>
  C29: a job id that starts with \<open>-\<close> followed by a character other than \<open>-\<close> and
  \<open>h\<close>, and is neither a negative number nor contains a space, cannot be given the
  way the usage line shows: the parser takes it for an unknown option and exits
  with \<open>unrecognized arguments\<close>.
\<close>

theorem parse_cli_dash_job_id:
  assumes "2 \<le> length jid" and "hd jid = CHR ''-''" and "jid ! 1 \<noteq> CHR ''-''" and "jid ! 1 \<noteq> CHR ''h''"
    and "\<not> looks_negative jid" and "CHR '' '' \<notin> set jid"
  shows "parse_cli [jid] = UsageError (''unrecognized arguments: '' @ jid)"
proof -
  obtain c1 r where jid: "jid = CHR ''-'' # c1 # r"
    using assms(1,2) by (cases jid; cases "tl jid") auto
  with assms(3,4) have c1: "c1 \<noteq> CHR ''-''" "c1 \<noteq> CHR ''h''" by simp_all
  have none: "map_of option_string_actions jid = None"
    and none2: "map_of option_string_actions (takeWhile (\<lambda>c. c \<noteq> CHR ''='') jid) = None"
    using c1 by (auto simp add: jid option_string_actions_def)
  have "option_tuples jid = []"
    using c1 by (auto simp add: jid option_tuples_def option_string_actions_def starts_with_def)
  then show ?thesis
    using none none2 assms(5,6) jid c1
    by (simp add: parse_cli_def parse_optional_def partition_eq_def Let_def py_join_def)
qed

theorem parse_cli_dash_job_id_witness:
  "parse_cli [''-abc''] = UsageError (''unrecognized arguments: '' @ ''-abc'')"
proof -
  have h1: "2 \<le> length ''-abc''" and h2: "hd ''-abc'' = CHR ''-''" and h3: "''-abc'' ! 1 \<noteq> CHR ''-''"
    and h4: "''-abc'' ! 1 \<noteq> CHR ''h''" and h5: "\<not> looks_negative ''-abc''" and h6: "CHR '' '' \<notin> set ''-abc''"
    by code_simp+
  show ?thesis by (rule parse_cli_dash_job_id [OF h1 h2 h3 h4 h5 h6])
qed

text \<open>
  C30: the exit status of \<open>evaluate-jobs\<close> is 0, 1 or 2, and it is 2 exactly when
  the parser rejects the command line.
\<close>

theorem cli_run_exit_codes:
  "snd (cli_run env dec w argv) \<in> {0, 1, 2} \<and>
   (snd (cli_run env dec w argv) = 2 \<longleftrightarrow> (\<exists>m. parse_cli argv = UsageError m))"
  by (auto simp add: cli_run_def cli_main_def check_langsmith_setup_def Let_def
      split: parse_result.splits option.splits sum.splits prod.splits)

end
