(* ===== verification/Package.thy ===== *)
theory Package
  imports PyJson
begin

text \<open>
  The package layer: the two copies of \<open>job_extractor_eval/__init__.py\<close> (under
  \<open>src/components/\<close> and \<open>src/packages/\<close>, the same code) and the relative import
  of \<open>cli.py\<close> (lines 13--17). Importing a package executes its \<open>__init__.py\<close>; the
  statement \<open>from .evaluators import a, b\<close> first imports the submodule
  \<open>evaluators\<close> of the same package (executing it once), then binds each name to
  the object the submodule bound to it. A module's namespace is modelled as an
  association list (the last binding of a name wins, as in a dict); a package as
  its name and, for each submodule file it has, the outcome of executing it.
\<close>

datatype import_error =
    ModuleNotFoundError string
  | ImportError string

datatype py_obj =
    PyModuleObj string
  | PyFunctionObj string
  | PyTypeObj string
  | PyBoolObj bool
  | PyStrObj string
  | PyStrListObj "string list"

type_synonym namespace = "(string \<times> py_obj) list"

record py_package =
  pkg_name :: string
  pkg_submodules :: "(string \<times> (import_error + namespace)) list"

definition ns_lookup :: "namespace \<Rightarrow> string \<Rightarrow> py_obj option" where
  "ns_lookup ns n = map_of (rev ns) n"

section \<open>The import statement\<close>

text \<open>
  \<open>from .m import n1, ..., nk\<close> in package \<open>p\<close>: \<open>ModuleNotFoundError\<close> when \<open>p\<close> has
  no submodule \<open>m\<close>; the exception of the submodule's execution when it raises;
  otherwise the names in order, \<open>ImportError\<close> at the first the submodule does not
  bind. (CPython appends the file of the submodule to the \<open>ImportError\<close> message in
  parentheses; the model leaves out that suffix.)
\<close>

definition import_from :: "py_package \<Rightarrow> string \<Rightarrow> string list \<Rightarrow> namespace \<Rightarrow> import_error + namespace" where
  "import_from pkg m names ns =
     (let qual = pkg_name pkg @ ''.'' @ m in
      case map_of (pkg_submodules pkg) m of
        None \<Rightarrow> Inl (ModuleNotFoundError (''No module named '' @ py_repr_str qual))
      | Some (Inl e) \<Rightarrow> Inl e
      | Some (Inr mns) \<Rightarrow>
          py_fold (\<lambda>n ns. case ns_lookup mns n of
                      None \<Rightarrow> Inl (ImportError (''cannot import name '' @ py_repr_str n @
                                               '' from '' @ py_repr_str qual))
                    | Some v \<Rightarrow> Inr (ns @ [(n, v)])) names ns)"

section \<open>The modules\<close>

text \<open>
  The namespace \<open>evaluators.py\<close> leaves when its execution completes: the names its
  imports bind (lines 14--17; \<open>Client\<close> and \<open>evaluate\<close> only when \<open>langsmith\<close> is
  installed, lines 22--27), \<open>LANGSMITH_AVAILABLE\<close>, and the six functions its
  \<open>def\<close> statements bind, in order. The call \<open>load_dotenv()\<close> of line 20 changes the
  process environment, not the namespace.
\<close>

definition evaluators_namespace :: "bool \<Rightarrow> namespace" where
  "evaluators_namespace available =
     [(''json'', PyModuleObj ''json''), (''os'', PyModuleObj ''os''),
      (''List'', PyTypeObj ''typing.List''), (''Dict'', PyTypeObj ''typing.Dict''),
      (''Any'', PyTypeObj ''typing.Any''), (''load_dotenv'', PyFunctionObj ''load_dotenv'')] @
     (if available then [(''Client'', PyTypeObj ''langsmith.Client''),
                         (''evaluate'', PyFunctionObj ''evaluate'')] else []) @
     [(''LANGSMITH_AVAILABLE'', PyBoolObj available),
      (''load_job_data'', PyFunctionObj ''load_job_data''),
      (''load_index_entry'', PyFunctionObj ''load_index_entry''),
      (''evaluate_required_terms_quality'', PyFunctionObj ''evaluate_required_terms_quality''),
      (''evaluate_extraction_completeness'', PyFunctionObj ''evaluate_extraction_completeness''),
      (''check_langsmith_setup'', PyFunctionObj ''check_langsmith_setup''),
      (''main'', PyFunctionObj ''main'')]"

text \<open>
  \<open>__init__.py\<close>, lines 7--17 (both copies): \<open>__version__\<close>, the import of the two
  evaluators, \<open>__all__\<close>.
\<close>

definition package_init :: "py_package \<Rightarrow> import_error + namespace" where
  "package_init pkg =
     py_bind (import_from pkg ''evaluators''
                [''evaluate_required_terms_quality'', ''evaluate_extraction_completeness'']
                [(''__version__'', PyStrObj ''1.0.0'')]) (\<lambda>ns.
     Inr (ns @ [(''__all__'', PyStrListObj [''evaluate_required_terms_quality'',
                                             ''evaluate_extraction_completeness''])]))"

text \<open>\<open>cli.py\<close>, lines 10--17: its imports, the relative one from \<open>evaluators\<close> last.\<close>

definition cli_imports :: "py_package \<Rightarrow> import_error + namespace" where
  "cli_imports pkg =
     import_from pkg ''evaluators''
       [''evaluate_required_terms_quality'', ''evaluate_extraction_completeness'', ''check_langsmith_setup'']
       [(''sys'', PyModuleObj ''sys''), (''argparse'', PyModuleObj ''argparse''),
        (''Optional'', PyTypeObj ''typing.Optional'')]"

section \<open>The package\<close>

text \<open>
  The package under \<open>src/components/\<close> has \<open>evaluators.py\<close> (and \<open>cli.py\<close>); it
  is given for both outcomes of the \<open>langsmith\<close> import.
\<close>

definition components_package :: "bool \<Rightarrow> py_package" where
  "components_package available =
     \<lparr>pkg_name = ''job_extractor_eval'',
      pkg_submodules = [(''evaluators'', Inr (evaluators_namespace available))]\<rparr>"

section \<open>Lemmas on imports\<close>

lemma ns_lookup_append [simp]:
  "ns_lookup (ns @ [(n, v)]) m = (if m = n then Some v else ns_lookup ns m)"
  by (simp add: ns_lookup_def)

text \<open>
  When the submodule binds every name, the import succeeds and leaves each imported
  name bound to the submodule's object, and every other name as it was.
\<close>

lemma import_fold_binds:
  assumes "\<forall>n\<in>set names. ns_lookup mns n \<noteq> None"
  shows "\<exists>ns'. py_fold (\<lambda>n ns. case ns_lookup mns n of
                      None \<Rightarrow> Inl (ImportError (msg n))
                    | Some v \<Rightarrow> Inr (ns @ [(n, v)])) names ns = Inr ns' \<and>
           (\<forall>m. ns_lookup ns' m = (if m \<in> set names then ns_lookup mns m else ns_lookup ns m))"
  using assms
proof (induction names arbitrary: ns)
  case Nil
  then show ?case by simp
next
  case (Cons n names)
  then obtain v where v: "ns_lookup mns n = Some v" by auto
  from Cons obtain ns' where
    run: "py_fold (\<lambda>n ns. case ns_lookup mns n of
                      None \<Rightarrow> Inl (ImportError (msg n))
                    | Some v \<Rightarrow> Inr (ns @ [(n, v)])) names (ns @ [(n, v)]) = Inr ns'"
    and look: "\<forall>m. ns_lookup ns' m =
                 (if m \<in> set names then ns_lookup mns m else ns_lookup (ns @ [(n, v)]) m)"
    by fastforce
  show ?case using run look v by (auto simp add: v)
qed

lemma import_from_binds:
  assumes "map_of (pkg_submodules pkg) m = Some (Inr mns)"
    and "\<forall>n\<in>set names. ns_lookup mns n \<noteq> None"
  shows "\<exists>ns'. import_from pkg m names ns = Inr ns' \<and>
           (\<forall>k. ns_lookup ns' k = (if k \<in> set names then ns_lookup mns k else ns_lookup ns k))"
  using import_fold_binds [OF assms(2)] assms(1) by (simp add: import_from_def Let_def)

lemma cli_imports_components:
  "\<exists>ns. cli_imports (components_package available) = Inr ns \<and>
     ns_lookup ns ''check_langsmith_setup'' = Some (PyFunctionObj ''check_langsmith_setup'') \<and>
     ns_lookup ns ''evaluate_required_terms_quality'' = Some (PyFunctionObj ''evaluate_required_terms_quality'') \<and>
     ns_lookup ns ''evaluate_extraction_completeness'' = Some (PyFunctionObj ''evaluate_extraction_completeness'')"
proof -
  have "map_of (pkg_submodules (components_package available)) ''evaluators'' =
          Some (Inr (evaluators_namespace available))"
    by (simp add: components_package_def)
  moreover have "\<forall>n\<in>set [''evaluate_required_terms_quality'', ''evaluate_extraction_completeness'',
                          ''check_langsmith_setup'']. ns_lookup (evaluators_namespace available) n \<noteq> None"
    by (simp add: evaluators_namespace_def ns_lookup_def)
  ultimately show ?thesis unfolding cli_imports_def
    by (cases available) (auto dest!: import_from_binds simp add: evaluators_namespace_def ns_lookup_def)
qed

end
