(* ===== verification/Spec2Isabelle.thy ===== *)
theory Spec2Isabelle
  imports Args Package
begin

text \<open>
  \<^bold>\<open>A verification model of the job-extractor evaluation package.\<close>

  The package (\<open>src/components/evaluation/python/src/job_extractor_eval/\<close>) scores
  the output of an external extraction pipeline. \<open>evaluators.py\<close> holds the Record
  Loader (\<open>load_job_data\<close>, \<open>load_index_entry\<close>), the Metrics Evaluator
  (\<open>evaluate_required_terms_quality\<close>, \<open>evaluate_extraction_completeness\<close>), the
  LangSmith setup check (\<open>check_langsmith_setup\<close>) and a batch driver (\<open>main\<close>);
  \<open>cli.py\<close> holds the command \<open>main\<close>. The evaluators call the loaders; the batch
  driver and the command call the setup check and the evaluators.

  \<^bold>\<open>Theories.\<close>
  \<^item> \<open>Prelude\<close>: Python statements as values of \<open>'e + 'a\<close> (\<^const>\<open>py_bind\<close>, the
    loop \<^const>\<open>py_fold\<close>), the string built-ins the code calls (\<open>lower\<close>, \<open>strip\<close>,
    substring \<open>in\<close>, iteration over the lines of a text file with universal
    newlines), Python's \<open>max\<close>, and the list and arithmetic lemmas the components
    share.
  \<^item> \<open>PyJson\<close>: decoded JSON values as the datatype \<^typ>\<open>json\<close> (a dict is an
    association list: the last binding of a key wins, the keys keep their first
    position), the exceptions with CPython's \<open>str(e)\<close>, truthiness, \<open>len\<close>,
    iteration, \<open>.get\<close>, subscripts, slices and true division, each raising what
    CPython 3.11 raises on the other types.
  \<^item> \<open>Metrics\<close>: the Metrics Evaluator over any pair of loaders
    (\<^typ>\<open>loader\<close>). \<^const>\<open>terms_metrics\<close> and \<^const>\<open>completeness_metrics\<close> are the
    bodies of the two \<open>try\<close> blocks, key by key in evaluation order;
    \<^const>\<open>catch_report\<close> is the \<open>except Exception\<close>. The abstract specifications
    \<^const>\<open>terms_spec\<close> and \<^const>\<open>completeness_spec\<close> are section 4.2 of the
    specification; the refinement lemmas show the code computes them on
    well-typed input, and characterise exactly the input on which it fails.
  \<^item> \<open>FileSys\<close>: the environment of the loaders: a directory tree with a working
    directory, POSIX path resolution (\<open>.\<close>, \<open>..\<close>, \<open>ENOENT\<close>, \<open>ENOTDIR\<close>),
    \<open>open\<close> with its three \<open>OSError\<close>s, \<open>os.scandir\<close> in directory order, and
    \<open>glob.glob\<close> with \<open>fnmatch\<close> following CPython 3.11's \<open>glob.py\<close> and
    \<open>fnmatch.translate\<close> (bracket expressions, negation, ranges and their
    reversed-range rule). This is library code, not code of the repository, and
    is not in the map; it was compared with CPython on 1900 random pattern/name
    pairs and on 302 patterns over 40 random directory trees.
  \<^item> \<open>Loader\<close>: \<^const>\<open>load_job_data\<close> and \<^const>\<open>load_index_entry\<close> over a file system
    and a \<^typ>\<open>json_decoder\<close>, the interface to \<open>json.loads\<close>. The lemmas show
    which file is read (the greatest \<open>job-*.json\<close> name, for a job id without glob
    characters) and which index entry is returned (the first matching one).
  \<^item> \<open>Setup\<close>: \<^const>\<open>check_langsmith_setup\<close> over a record of the environment
    (package installed, \<open>LANGSMITH_API_KEY\<close>, outcome of the connection test).
  \<^item> \<open>Batch\<close>: \<^const>\<open>evaluators_main\<close>, the batch run: job ids read from the
    index, both evaluations of every job, the summary figures.
  \<^item> \<open>CLI\<close>: \<^const>\<open>cli_main\<close>, \<open>cli.main\<close> from the parsed arguments on, with its
    printed blocks and exit status.
  \<^item> \<open>Args\<close>: \<open>parser.parse_args\<close> of \<open>cli.py\<close> (lines 22--46) as
    \<^const>\<open>parse_cli\<close>, following CPython 3.11.10's \<open>argparse\<close> for this parser
    configuration (classification of each argument, unambiguous prefixes of long
    options, ambiguity errors, \<open>--\<close>, negative-number-like positionals, chains of
    single-dash flags, explicit \<open>=\<close> arguments, unrecognized left-overs); it was
    compared with the real \<open>argparse\<close> on 692 command lines and agreed on all.
    \<^const>\<open>cli_run\<close> is \<open>sys.exit(main(argv))\<close>.
  \<^item> \<open>Package\<close>: the package layer, \<open>__init__.py\<close> of both copies
    (\<^const>\<open>package_init\<close>) and the imports of \<open>cli.py\<close>
    (\<^const>\<open>cli_imports\<close>): \<open>from .evaluators import ...\<close> as
    \<^const>\<open>import_from\<close> over a package given by the outcome of executing each of
    its submodules, with \<^const>\<open>evaluators_namespace\<close> the namespace
    \<open>evaluators.py\<close> leaves.
  \<^item> This theory: the composition of the components on the file-system loaders,
    end to end, and the agreement of the batch driver with the command.

  \<^bold>\<open>What the lemmas show.\<close> The claims C1--C6 (\<open>Metrics\<close>) bound the coverage
  and the completeness score, show that an entry without terms gives a report with
  no division, that no division by zero is ever raised and that the reports refine
  the specification. C7--C13 (\<open>Loader\<close>) give the file and the entry the loaders
  pick and their errors, and show for every job id with a glob character or a
  \<open>..\<close> that it is not isolated from the glob pattern or from the path. C14
  (\<open>Setup\<close>) characterises a successful setup check. C15--C17 (\<open>Batch\<close>) show
  that a run evaluates every job and keeps its summary figures in \<open>[0, 1]\<close>, but
  aborts on one bad index line. C18--C19 (\<open>CLI\<close>) give the exit status and which
  reports are printed. C20 (here) gives both error reports for a job without
  records. C21--C22 (\<open>Metrics\<close>) give the type of the sample and the evaluation
  of a string \<open>required_terms\<close> character by character. C23 (\<open>Loader\<close>) shows
  that an index written by an encoder the decoder inverts reads back. C24--C25
  (here) run the batch over a written index and show that the batch and the command
  print the same reports for a job. C26--C30 (\<open>Args\<close>) show that a rendered
  command line parses back to its namespace, that the documented usage line
  parses, that flags may be abbreviated, that a job id starting with \<open>-\<close> is
  rejected unless it follows \<open>--\<close>, and bound the exit status of the command.
  The package layer (\<open>Package\<close>) has no claim of its own; its lemma shows that
  the imports of \<open>cli.py\<close> resolve in the components package.

  \<^bold>\<open>Bounds and fuel.\<close> Every loop of the code is over a finite list (the terms, the
  required fields, the lines of the index, the job ids, a directory's entries),
  so every function of the model is total and terminating: structural recursion,
  or a measure (the length of a string) for the line splitter, the bracket
  scanner, the pattern translation, the recursion of \<open>glob\<close> on the directory
  part, the argument loop of the parser (the arguments left) and a chain of
  single-dash flags (the explicit argument left). No fuel is needed. Floats are
  kept as the exact quotient they round; rounding to the nearest double is monotone and keeps 0, 1 and the quarters, so
  the bounds proved carry over.

  \<^bold>\<open>Not modelled.\<close> Console formatting and the emoji of printed lines (each
  printed block is a constructor); the text of the help and usage messages
  \<open>argparse\<close> prints; the LangSmith client (its connection outcome is an input);
  \<open>load_dotenv\<close> (the environment is an input); \<open>json.loads\<close> (an interface, with
  a table decoder for the examples); Unicode beyond code point 255 (Isabelle
  characters are bytes); symbolic links; a batch run over non-string job ids,
  which the evaluators are not written for (reported by the model as
  \<^const>\<open>JobIdNotStr\<close>); the lines the batch loops and the summary print (their
  values are the model's results); the file suffix CPython appends to an
  \<open>ImportError\<close> message; the index writer of the extraction pipeline, which is
  not part of this repository (\<^const>\<open>index_text\<close> is what it is assumed to
  write: one encoded entry per line).
\<close>

section \<open>End-to-end properties\<close>

text \<open>
  C20: for a job id without glob characters and without record files, both
  evaluators return the error report carrying the job id and the loader's
  message, and no metric.
\<close>

theorem missing_record_error_reports:
  assumes "\<not> has_magic jid" and "job_names w jid = []"
  shows "evaluate_required_terms_quality (load_job_data dec w) (load_index_entry dec w) jid =
           ErrorReport jid (''No job files found for '' @ jid) \<and>
         evaluate_extraction_completeness (load_job_data dec w) jid =
           ErrorReport jid (''No job files found for '' @ jid)"
  using load_job_data_names [OF assms(1), of dec w] assms(2)
  by (simp add: evaluate_required_terms_quality_def evaluate_extraction_completeness_def
      catch_report_def)

theorem missing_record_error_reports_witness:
  "\<not> has_magic ''7'' \<and> job_names example_fs ''7'' = [] \<and>
   evaluate_extraction_completeness (load_job_data example_decoder example_fs) ''7'' =
     ErrorReport ''7'' (''No job files found for '' @ ''7'')"
proof -
  have h1: "\<not> has_magic ''7''" by code_simp
  have h2: "job_names example_fs ''7'' = []" by code_simp
  from missing_record_error_reports [OF h1 h2, of example_decoder]
  show ?thesis using h1 h2 by blast
qed


text \<open>
  C24: the batch run over an index written by an encoder the decoder inverts, one
  dict per line with a string \<open>job_id\<close>, completes: it evaluates exactly the job
  ids written, in the order written, with both evaluators on the file-system
  loaders, and summarises the successful reports.
\<close>

theorem batch_over_written_index:
  assumes "\<forall>e\<in>set entries. dec (enc e) = Inr e \<and> line_ok (enc e)"
    and "list_all2 (\<lambda>e j. py_subscript e ''job_id'' = Inr (JStr j)) entries jids"
    and "read_file w index_path = Inr (index_text enc entries)"
  shows "evaluators_main env dec w =
           Completed \<lparr>langsmith_connected = snd (check_langsmith_setup env), run_job_ids = jids,
             terms_results = map (evaluate_required_terms_quality (load_job_data dec w) (load_index_entry dec w)) jids,
             completeness_results = map (evaluate_extraction_completeness (load_job_data dec w)) jids,
             terms_stats = summarize_terms (successful
               (map (evaluate_required_terms_quality (load_job_data dec w) (load_index_entry dec w)) jids)),
             completeness_stats = summarize_completeness (successful
               (map (evaluate_extraction_completeness (load_job_data dec w)) jids))\<rparr>"
proof -
  have "\<forall>e\<in>set entries. decode_json dec (py_strip (enc e @ [CHR 0x0A])) = Inr e"
    using assms(1) by (auto simp add: py_strip_line line_ok_def decode_json_def)
  from read_job_ids_encoded [OF this assms(2), of "[]"]
  have ids: "read_job_ids dec (map (\<lambda>e. enc e @ [CHR 0x0A]) entries) = Inr (map JStr jids)"
    by (simp add: read_job_ids_def)
  have lines: "py_file_lines (index_text enc entries) = map (\<lambda>e. enc e @ [CHR 0x0A]) entries"
    using assms(1) by (intro index_text_lines) simp
  show ?thesis
    using read_file_lexists [OF assms(3)] assms(3)
    by (simp add: evaluators_main_def Let_def lines ids)
qed

theorem batch_over_written_index_witness:
  "evaluators_main example_env example_decoder example_fs =
     Completed \<lparr>langsmith_connected = snd (check_langsmith_setup example_env), run_job_ids = [''7'', ''42'', ''42''],
       terms_results = map (evaluate_required_terms_quality (load_job_data example_decoder example_fs)
                              (load_index_entry example_decoder example_fs)) [''7'', ''42'', ''42''],
       completeness_results = map (evaluate_extraction_completeness (load_job_data example_decoder example_fs))
                                [''7'', ''42'', ''42''],
       terms_stats = summarize_terms (successful
         (map (evaluate_required_terms_quality (load_job_data example_decoder example_fs)
                (load_index_entry example_decoder example_fs)) [''7'', ''42'', ''42''])),
       completeness_stats = summarize_completeness (successful
         (map (evaluate_extraction_completeness (load_job_data example_decoder example_fs))
           [''7'', ''42'', ''42'']))\<rparr>"
proof -
  define es where "es = [JObj [(''job_id'', JStr ''7''), (''required_terms'', JArr [])],
     JObj [(''job_id'', JStr ''42''), (''required_terms'', JArr [JStr ''python'', JStr ''leadership''])],
     JObj [(''job_id'', JStr ''42''), (''required_terms'', JArr [JStr ''go''])]]"
  have h1: "\<forall>e\<in>set es. example_decoder (example_encoder e) = Inr e \<and> line_ok (example_encoder e)"
    unfolding es_def by code_simp
  have h2: "list_all2 (\<lambda>e j. py_subscript e ''job_id'' = Inr (JStr j)) es [''7'', ''42'', ''42'']"
    unfolding es_def by code_simp
  have h3: "read_file example_fs index_path = Inr (index_text example_encoder es)"
    unfolding es_def by code_simp
  show ?thesis by (rule batch_over_written_index [OF h1 h2 h3])
qed

text \<open>
  C25: the batch driver and the command agree: for every job id of a completed
  batch run (a non-empty one), \<open>evaluate-jobs <job_id>\<close> prints exactly the two
  reports the batch computed for that job, after the same setup lines, and the tip
  exactly when the batch found LangSmith not connected.
\<close>

theorem batch_agrees_with_cli:
  assumes "evaluators_main env dec w = Completed r" and "i < length (run_job_ids r)"
    and "run_job_ids r ! i \<noteq> []"
  shows "fst (cli_main env dec w \<lparr>arg_job_id = Some (run_job_ids r ! i), check_setup = False,
                                   terms_only = False, completeness_only = False\<rparr>) =
           [EvaluationHeader (run_job_ids r ! i), SetupLines (fst (check_langsmith_setup env)),
            TermsOutput (terms_results r ! i), CompletenessOutput (completeness_results r ! i)] @
           (if langsmith_connected r then [] else [SetupTip])"
  using evaluators_main_Completed [OF assms(1)] evaluators_main_connected [OF assms(1)] assms(2,3)
  by (simp add: cli_main_def Let_def split: prod.splits)

theorem batch_agrees_with_cli_witness:
  "fst (cli_main example_env example_decoder example_fs \<lparr>arg_job_id = Some ''42'', check_setup = False,
                                   terms_only = False, completeness_only = False\<rparr>) =
     [EvaluationHeader ''42'', SetupLines (fst (check_langsmith_setup example_env)),
      TermsOutput (evaluate_required_terms_quality (load_job_data example_decoder example_fs)
                     (load_index_entry example_decoder example_fs) ''42''),
      CompletenessOutput (evaluate_extraction_completeness (load_job_data example_decoder example_fs) ''42'')] @
     (if True then [] else [SetupTip])"
proof -
  define r where "r = \<lparr>langsmith_connected = True, run_job_ids = [''7'', ''42'', ''42''],
       terms_results = map (evaluate_required_terms_quality (load_job_data example_decoder example_fs)
                              (load_index_entry example_decoder example_fs)) [''7'', ''42'', ''42''],
       completeness_results = map (evaluate_extraction_completeness (load_job_data example_decoder example_fs))
                                [''7'', ''42'', ''42''],
       terms_stats = Some \<lparr>avg_terms = 2, avg_coverage = 1 / 2, tech_terms_pct = 1\<rparr>,
       completeness_stats = Some \<lparr>avg_completeness = 1 / 2, salary_pct = 0\<rparr>\<rparr>"
  have h1: "evaluators_main example_env example_decoder example_fs = Completed r"
    unfolding r_def by code_simp
  have h2: "1 < length (run_job_ids r)" and h3: "run_job_ids r ! 1 \<noteq> []"
    by (simp_all add: r_def)
  from batch_agrees_with_cli [OF h1 h2 h3] show ?thesis by (simp add: r_def)
qed

end
